theory Spec2Isabelle
  imports Main
begin

unbundle bit_operations_syntax

section \<open>Python values\<close>

text \<open>
  The emulator is Python. Its integers never overflow, so a register is an \<open>int\<close> and
  what keeps it inside 8 or 16 bits is the masking the source writes, or nothing.
  A \<open>bytes\<close>, \<open>bytearray\<close> or list value is an \<open>int list\<close>, and an exception is a
  value of \<open>error\<close> on the left of a sum.
\<close>

datatype error = IndexError | ValueError | AttributeError | TypeError | KeyError

type_synonym 'a res = "error + 'a"

definition bnd :: "'a res \<Rightarrow> ('a \<Rightarrow> 'b res) \<Rightarrow> 'b res" where
  "bnd m f = (case m of Inl e \<Rightarrow> Inl e | Inr a \<Rightarrow> f a)"

text \<open>
  The position a subscript \<open>i\<close> selects in a sequence of \<open>n\<close> items: \<open>-1\<close> is the last
  item, and there is no position for a subscript outside \<open>-n .. n-1\<close>.
\<close>

definition py_index :: "nat \<Rightarrow> int \<Rightarrow> nat option" where
  "py_index n i =
     (if 0 \<le> i \<and> i < int n then Some (nat i)
      else if - int n \<le> i \<and> i < 0 then Some (nat (int n + i))
      else None)"

definition py_get :: "'a list \<Rightarrow> int \<Rightarrow> 'a res" where
  "py_get xs i = (case py_index (length xs) i of None \<Rightarrow> Inl IndexError | Some k \<Rightarrow> Inr (xs ! k))"

text \<open>
  Item assignment on a \<open>bytearray\<close>. The value is converted before the subscript is
  looked at, so a value outside \<open>range(256)\<close> is a \<open>ValueError\<close> even at a subscript that
  does not exist.
\<close>

definition py_set_byte :: "int list \<Rightarrow> int \<Rightarrow> int \<Rightarrow> (int list) res" where
  "py_set_byte xs i v =
     (if 0 \<le> v \<and> v < 256 then
        (case py_index (length xs) i of
           None \<Rightarrow> Inl IndexError
         | Some k \<Rightarrow> Inr (xs[k := v]))
      else Inl ValueError)"

text \<open>Item assignment \<open>rows[r][c] = v\<close> on a list of lists.\<close>

definition py_set_cell :: "'a list list \<Rightarrow> int \<Rightarrow> int \<Rightarrow> 'a \<Rightarrow> ('a list list) res" where
  "py_set_cell rows r c v =
     (case py_index (length rows) r of
        None \<Rightarrow> Inl IndexError
      | Some j \<Rightarrow>
          (case py_index (length (rows ! j)) c of
             None \<Rightarrow> Inl IndexError
           | Some k \<Rightarrow> Inr (rows[j := (rows ! j)[k := v]])))"

text \<open>The slice \<open>xs[a:b]\<close> with \<open>0 \<le> a\<close> and \<open>0 \<le> b\<close>; it stops where the sequence stops.\<close>

definition py_slice :: "'a list \<Rightarrow> int \<Rightarrow> int \<Rightarrow> 'a list" where
  "py_slice xs a b = take (nat b - nat a) (drop (nat a) xs)"

definition truthy :: "int \<Rightarrow> bool" where
  "truthy n = (n \<noteq> 0)"

definition NES_MAGIC :: "int list" where
  "NES_MAGIC = [0x4E, 0x45, 0x53, 0x1A]"

section \<open>EMUNES5.23.251.0A.py: ROM, cartridge and PPU bus\<close>

record emu_rom =
  prg_rom_size :: int
  chr_rom_size :: int
  mapper :: int
  mirror_mode :: int
  battery_backed :: bool
  trainer_present :: bool
  prg_rom_start :: int
  prg_rom :: "int list"
  chr_rom_start :: int
  chr_rom :: "int list"
  chr_ram :: "int list option"

text \<open>\<open>NESRom.__init__(data)\<close>.\<close>

definition emu_NESRom :: "int list \<Rightarrow> emu_rom res" where
  "emu_NESRom data =
     (let header = py_slice data 0 16 in
      if py_slice header 0 4 \<noteq> NES_MAGIC then Inl ValueError
      else
        bnd (py_get header 4) (\<lambda>h4.
        bnd (py_get header 5) (\<lambda>h5.
        bnd (py_get header 7) (\<lambda>h7.
        bnd (py_get header 6) (\<lambda>h6.
          let prg_size = h4 * 16384;
              chr_size = h5 * 8192;
              trainer = ((h6 AND 0x04) \<noteq> 0);
              prg_start = (if trainer then 16 + 512 else 16);
              chr_start = prg_start + prg_size
          in Inr \<lparr> prg_rom_size = prg_size,
                   chr_rom_size = chr_size,
                   mapper = (drop_bit 4 (h7 AND 0xF0)) OR (h6 AND 0xF0),
                   mirror_mode = h6 AND 0x01,
                   battery_backed = ((h6 AND 0x02) \<noteq> 0),
                   trainer_present = trainer,
                   prg_rom_start = prg_start,
                   prg_rom = py_slice data prg_start (prg_start + prg_size),
                   chr_rom_start = chr_start,
                   chr_rom = py_slice data chr_start (chr_start + chr_size),
                   chr_ram = (if chr_size = 0 then Some (replicate 8192 0) else None) \<rparr>)))))"

definition emu_read_prg :: "emu_rom \<Rightarrow> int \<Rightarrow> int res" where
  "emu_read_prg rom addr =
     (if mapper rom = 0 then
        (if prg_rom_size rom = 16384 then py_get (prg_rom rom) (addr AND 0x3FFF)
         else py_get (prg_rom rom) (addr AND 0x7FFF))
      else Inr 0)"

definition emu_read_chr :: "emu_rom \<Rightarrow> int \<Rightarrow> int res" where
  "emu_read_chr rom addr =
     (if chr_rom_size rom > 0 then py_get (chr_rom rom) (addr AND (chr_rom_size rom - 1))
      else (case chr_ram rom of
              None \<Rightarrow> Inl TypeError
            | Some ram \<Rightarrow> py_get ram (addr AND 0x1FFF)))"

definition emu_write_chr :: "emu_rom \<Rightarrow> int \<Rightarrow> int \<Rightarrow> emu_rom res" where
  "emu_write_chr rom addr data =
     (case chr_ram rom of
        None \<Rightarrow> Inr rom
      | Some ram \<Rightarrow> bnd (py_set_byte ram (addr AND 0x1FFF) data)
                      (\<lambda>ram'. Inr (rom\<lparr>chr_ram := Some ram'\<rparr>)))"

text \<open>
  \<open>Cartridge\<close> holds nothing but its \<open>rom\<close>. The read methods return \<open>None\<close> for an
  address the cartridge does not decode; the write methods return whether they did.
\<close>

definition emu_cart_cpu_read :: "emu_rom \<Rightarrow> int \<Rightarrow> (int option) res" where
  "emu_cart_cpu_read rom addr =
     (if 0x8000 \<le> addr \<and> addr \<le> 0xFFFF
      then bnd (emu_read_prg rom (addr - 0x8000)) (\<lambda>d. Inr (Some d))
      else Inr None)"

definition emu_cart_cpu_write :: "emu_rom \<Rightarrow> int \<Rightarrow> int \<Rightarrow> bool" where
  "emu_cart_cpu_write rom addr data = (0x8000 \<le> addr \<and> addr \<le> 0xFFFF)"

definition emu_cart_ppu_read :: "emu_rom \<Rightarrow> int \<Rightarrow> (int option) res" where
  "emu_cart_ppu_read rom addr =
     (if 0x0000 \<le> addr \<and> addr \<le> 0x1FFF
      then bnd (emu_read_chr rom addr) (\<lambda>d. Inr (Some d))
      else Inr None)"

definition emu_cart_ppu_write :: "emu_rom \<Rightarrow> int \<Rightarrow> int \<Rightarrow> (bool \<times> emu_rom) res" where
  "emu_cart_ppu_write rom addr data =
     (if 0x0000 \<le> addr \<and> addr \<le> 0x1FFF
      then bnd (emu_write_chr rom addr data) (\<lambda>rom'. Inr (True, rom'))
      else Inr (False, rom))"

record emu_ppu =
  ppuctrl :: int
  ppumask :: int
  ppustatus :: int
  oamaddr :: int
  ppu_v :: int
  ppu_t :: int
  ppu_x :: int
  ppu_w :: int
  ppu_f :: int
  ppudata_buffer :: int
  vram :: "int list"
  palette_ram :: "int list"
  oam :: "int list"
  scanline :: int
  cycle :: int
  frame_complete :: bool
  bg_next_tile_id :: int
  bg_next_tile_attrib :: int
  bg_next_tile_lsb :: int
  bg_next_tile_msb :: int
  bg_shifter_pattern_lo :: int
  bg_shifter_pattern_hi :: int
  bg_shifter_attrib_lo :: int
  bg_shifter_attrib_hi :: int
  screen :: "int list list"

record emu_cpu =
  cpu_a :: int
  cpu_x :: int
  cpu_y :: int
  cpu_stkp :: int
  cpu_pc :: int
  cpu_status :: int
  cpu_fetched :: int
  cpu_addr_abs :: int
  cpu_addr_rel :: int
  cpu_opcode :: int
  cpu_cycles :: int
  dma_page :: int
  dma_addr :: int
  dma_data :: int
  dma_transfer :: bool
  dma_dummy :: bool

text \<open>
  \<open>Bus\<close> after \<open>connect_cpu\<close> and \<open>connect_ppu\<close>, as \<open>MonikaEmulatorApp.__init__\<close>
  builds it; the cartridge slot is \<open>None\<close> until \<open>insert_cartridge\<close>.
\<close>

record emu_bus =
  bus_cpu :: emu_cpu
  bus_ppu :: emu_ppu
  bus_cart :: "emu_rom option"
  cpu_ram :: "int list"
  system_clock_counter :: int
  controller1_state :: int
  controller1_shift :: int

definition NES_WIDTH :: nat where "NES_WIDTH = 256"
definition NES_HEIGHT :: nat where "NES_HEIGHT = 240"

text \<open>\<open>PPU2C02.__init__\<close>, \<open>CPU6502.__init__\<close> and \<open>Bus.__init__\<close>.\<close>

definition emu_ppu_init :: emu_ppu where
  "emu_ppu_init = \<lparr> ppuctrl = 0, ppumask = 0, ppustatus = 0, oamaddr = 0,
     ppu_v = 0, ppu_t = 0, ppu_x = 0, ppu_w = 0, ppu_f = 0, ppudata_buffer = 0,
     vram = replicate 2048 0, palette_ram = replicate 32 0, oam = replicate 256 0,
     scanline = 0, cycle = 0, frame_complete = False,
     bg_next_tile_id = 0, bg_next_tile_attrib = 0, bg_next_tile_lsb = 0, bg_next_tile_msb = 0,
     bg_shifter_pattern_lo = 0, bg_shifter_pattern_hi = 0,
     bg_shifter_attrib_lo = 0, bg_shifter_attrib_hi = 0,
     screen = replicate NES_HEIGHT (replicate NES_WIDTH 0) \<rparr>"

definition emu_cpu_init :: emu_cpu where
  "emu_cpu_init = \<lparr> cpu_a = 0, cpu_x = 0, cpu_y = 0, cpu_stkp = 0xFD, cpu_pc = 0,
     cpu_status = 0x24, cpu_fetched = 0, cpu_addr_abs = 0, cpu_addr_rel = 0, cpu_opcode = 0,
     cpu_cycles = 0, dma_page = 0, dma_addr = 0, dma_data = 0, dma_transfer = False,
     dma_dummy = True \<rparr>"

definition emu_bus_init :: emu_bus where
  "emu_bus_init = \<lparr> bus_cpu = emu_cpu_init, bus_ppu = emu_ppu_init, bus_cart = None,
     cpu_ram = replicate 2048 0, system_clock_counter = 0,
     controller1_state = 0, controller1_shift = 0 \<rparr>"

text \<open>The palette index after the four sprite-palette mirrors, as both bus methods compute it.\<close>

definition emu_palette_addr :: "int \<Rightarrow> int" where
  "emu_palette_addr addr =
     (let palette_addr = addr AND 0x1F in
      if palette_addr = 0x10 then 0x00
      else if palette_addr = 0x14 then 0x04
      else if palette_addr = 0x18 then 0x08
      else if palette_addr = 0x1C then 0x0C
      else palette_addr)"

definition emu_mirror_addr :: "emu_rom \<Rightarrow> int \<Rightarrow> int" where
  "emu_mirror_addr rom addr =
     (if mirror_mode rom = 0 then (drop_bit 1 (addr AND 0x0800)) OR (addr AND 0x03FF)
      else addr AND 0x07FF)"

text \<open>\<open>Bus.ppu_write(addr, data)\<close>.\<close>

definition emu_bus_ppu_write :: "emu_bus \<Rightarrow> int \<Rightarrow> int \<Rightarrow> emu_bus res" where
  "emu_bus_ppu_write s addr0 data =
     (let addr = addr0 AND 0x3FFF in
      bnd (case bus_cart s of
             None \<Rightarrow> Inr (False, s)
           | Some rom \<Rightarrow> bnd (emu_cart_ppu_write rom addr data)
                           (\<lambda>(handled, rom'). Inr (handled, s\<lparr>bus_cart := Some rom'\<rparr>)))
        (\<lambda>(handled, s1).
           if handled then Inr s1
           else if 0x2000 \<le> addr \<and> addr \<le> 0x3EFF then
             (case bus_cart s1 of
                None \<Rightarrow> Inl AttributeError
              | Some rom \<Rightarrow>
                  bnd (py_set_byte (vram (bus_ppu s1)) (emu_mirror_addr rom addr) data)
                    (\<lambda>vr. Inr (s1\<lparr>bus_ppu := (bus_ppu s1)\<lparr>vram := vr\<rparr>\<rparr>)))
           else if 0x3F00 \<le> addr \<and> addr \<le> 0x3FFF then
             bnd (py_set_byte (palette_ram (bus_ppu s1)) (emu_palette_addr addr) (data AND 0x3F))
               (\<lambda>pr. Inr (s1\<lparr>bus_ppu := (bus_ppu s1)\<lparr>palette_ram := pr\<rparr>\<rparr>))
           else Inr s1))"

text \<open>\<open>Bus.ppu_read(addr)\<close>: it changes no state.\<close>

definition emu_bus_ppu_read :: "emu_bus \<Rightarrow> int \<Rightarrow> int res" where
  "emu_bus_ppu_read s addr0 =
     (let addr = addr0 AND 0x3FFF in
      bnd (case bus_cart s of
             None \<Rightarrow> Inr None
           | Some rom \<Rightarrow> emu_cart_ppu_read rom addr)
        (\<lambda>cart_data.
           case cart_data of
             Some d \<Rightarrow> Inr d
           | None \<Rightarrow>
               if 0x2000 \<le> addr \<and> addr \<le> 0x3EFF then
                 (case bus_cart s of
                    None \<Rightarrow> Inl AttributeError
                  | Some rom \<Rightarrow> py_get (vram (bus_ppu s)) (emu_mirror_addr rom addr))
               else if 0x3F00 \<le> addr \<and> addr \<le> 0x3FFF then
                 bnd (py_get (palette_ram (bus_ppu s)) (emu_palette_addr addr))
                   (\<lambda>d. Inr (d AND 0x3F))
               else Inr 0))"

section \<open>EMUNES5.23.251.0A.py: PPU registers and CPU bus\<close>

definition ppu_upd :: "(emu_ppu \<Rightarrow> emu_ppu) \<Rightarrow> emu_bus \<Rightarrow> emu_bus" where
  "ppu_upd g s = s\<lparr>bus_ppu := g (bus_ppu s)\<rparr>"

definition cpu_upd :: "(emu_cpu \<Rightarrow> emu_cpu) \<Rightarrow> emu_bus \<Rightarrow> emu_bus" where
  "cpu_upd g s = s\<lparr>bus_cpu := g (bus_cpu s)\<rparr>"

text \<open>The step both PPUDATA paths end with: \<open>v += 32 if ppuctrl & 0x04 else 1; v &= 0x3FFF\<close>.\<close>

definition emu_v_increment :: "emu_ppu \<Rightarrow> emu_ppu" where
  "emu_v_increment p =
     p\<lparr>ppu_v := (ppu_v p + (if (ppuctrl p AND 0x04) \<noteq> 0 then 32 else 1)) AND 0x3FFF\<rparr>"

text \<open>\<open>PPU2C02.cpu_read(addr)\<close>.\<close>

definition emu_ppu_cpu_read :: "emu_bus \<Rightarrow> int \<Rightarrow> (int \<times> emu_bus) res" where
  "emu_ppu_cpu_read s addr =
     (let p = bus_ppu s in
      if addr = 0x2002 then
        Inr ((ppustatus p AND 0xE0) OR (ppudata_buffer p AND 0x1F),
             ppu_upd (\<lambda>p. p\<lparr>ppustatus := ppustatus p AND NOT 0x80, ppu_w := 0\<rparr>) s)
      else if addr = 0x2004 then
        bnd (py_get (oam p) (oamaddr p)) (\<lambda>d. Inr (d, s))
      else if addr = 0x2007 then
        bnd (emu_bus_ppu_read s (ppu_v p)) (\<lambda>fresh.
          Inr (if ppu_v p \<ge> 0x3F00 then fresh else ppudata_buffer p,
               ppu_upd (\<lambda>p. emu_v_increment (p\<lparr>ppudata_buffer := fresh\<rparr>)) s))
      else Inr (0, s))"

text \<open>\<open>PPU2C02.cpu_write(addr, data)\<close>.\<close>

definition emu_ppu_cpu_write :: "emu_bus \<Rightarrow> int \<Rightarrow> int \<Rightarrow> emu_bus res" where
  "emu_ppu_cpu_write s addr data =
     (let p = bus_ppu s in
      if addr = 0x2000 then
        Inr (ppu_upd (\<lambda>p. p\<lparr>ppuctrl := data,
               ppu_t := (ppu_t p AND 0xF3FF) OR (push_bit 10 (data AND 0x03))\<rparr>) s)
      else if addr = 0x2001 then Inr (ppu_upd (\<lambda>p. p\<lparr>ppumask := data\<rparr>) s)
      else if addr = 0x2003 then Inr (ppu_upd (\<lambda>p. p\<lparr>oamaddr := data\<rparr>) s)
      else if addr = 0x2004 then
        bnd (py_set_byte (oam p) (oamaddr p) data) (\<lambda>om.
          Inr (ppu_upd (\<lambda>p. p\<lparr>oam := om, oamaddr := (oamaddr p + 1) AND 0xFF\<rparr>) s))
      else if addr = 0x2005 then
        (if ppu_w p = 0 then
           Inr (ppu_upd (\<lambda>p. p\<lparr>ppu_t := (ppu_t p AND 0xFFE0) OR (drop_bit 3 data),
                  ppu_x := data AND 0x07, ppu_w := 1\<rparr>) s)
         else
           Inr (ppu_upd (\<lambda>p. p\<lparr>ppu_t :=
                  (((ppu_t p AND 0x8FFF) OR (push_bit 12 (data AND 0x07))) AND 0xFC1F)
                    OR (push_bit 2 (data AND 0xF8)),
                  ppu_w := 0\<rparr>) s))
      else if addr = 0x2006 then
        (if ppu_w p = 0 then
           Inr (ppu_upd (\<lambda>p. p\<lparr>ppu_t := (ppu_t p AND 0x80FF) OR (push_bit 8 (data AND 0x3F)),
                  ppu_w := 1\<rparr>) s)
         else
           Inr (ppu_upd (\<lambda>p. p\<lparr>ppu_t := (ppu_t p AND 0xFF00) OR data,
                  ppu_v := (ppu_t p AND 0xFF00) OR data, ppu_w := 0\<rparr>) s))
      else if addr = 0x2007 then
        bnd (emu_bus_ppu_write s (ppu_v p) data) (\<lambda>s1. Inr (ppu_upd emu_v_increment s1))
      else Inr s)"

text \<open>\<open>Bus.cpu_write(addr, data)\<close>.\<close>

definition emu_bus_cpu_write :: "emu_bus \<Rightarrow> int \<Rightarrow> int \<Rightarrow> emu_bus res" where
  "emu_bus_cpu_write s addr0 data =
     (let addr = addr0 AND 0xFFFF in
      if (case bus_cart s of None \<Rightarrow> False | Some rom \<Rightarrow> emu_cart_cpu_write rom addr data)
      then Inr s
      else if 0x0000 \<le> addr \<and> addr \<le> 0x1FFF then
        bnd (py_set_byte (cpu_ram s) (addr AND 0x07FF) data) (\<lambda>r. Inr (s\<lparr>cpu_ram := r\<rparr>))
      else if 0x2000 \<le> addr \<and> addr \<le> 0x3FFF then emu_ppu_cpu_write s (addr AND 0x2007) data
      else if addr = 0x4014 then
        Inr (cpu_upd (\<lambda>c. c\<lparr>dma_page := data, dma_addr := 0x00, dma_transfer := True,
               dma_dummy := True\<rparr>) s)
      else if addr = 0x4016 then
        (if (data AND 0x01) \<noteq> 0 then Inr (s\<lparr>controller1_shift := controller1_state s\<rparr>)
         else Inr s)
      else Inr s)"

text \<open>\<open>Bus.cpu_read(addr)\<close>.\<close>

definition emu_bus_cpu_read :: "emu_bus \<Rightarrow> int \<Rightarrow> (int \<times> emu_bus) res" where
  "emu_bus_cpu_read s addr0 =
     (let addr = addr0 AND 0xFFFF in
      bnd (case bus_cart s of None \<Rightarrow> Inr None | Some rom \<Rightarrow> emu_cart_cpu_read rom addr)
        (\<lambda>cart_data.
           case cart_data of
             Some d \<Rightarrow> Inr (d, s)
           | None \<Rightarrow>
               if 0x0000 \<le> addr \<and> addr \<le> 0x1FFF then
                 bnd (py_get (cpu_ram s) (addr AND 0x07FF)) (\<lambda>d. Inr (d, s))
               else if 0x2000 \<le> addr \<and> addr \<le> 0x3FFF then emu_ppu_cpu_read s (addr AND 0x2007)
               else if addr = 0x4016 then
                 Inr (0x40 OR (controller1_shift s AND 0x01),
                      s\<lparr>controller1_shift := drop_bit 1 (controller1_shift s)\<rparr>)
               else Inr (0x00, s)))"

section \<open>EMUNES5.23.251.0A.py: the 6502 core\<close>

definition FLAG_C :: int where "FLAG_C = 0x01"
definition FLAG_Z :: int where "FLAG_Z = 0x02"
definition FLAG_I :: int where "FLAG_I = 0x04"
definition FLAG_D :: int where "FLAG_D = 0x08"
definition FLAG_B :: int where "FLAG_B = 0x10"
definition FLAG_U :: int where "FLAG_U = 0x20"
definition FLAG_V :: int where "FLAG_V = 0x40"
definition FLAG_N :: int where "FLAG_N = 0x80"

datatype amode = M_IMP | M_ACC | M_IMM | M_ZP0 | M_ZPX | M_ZPY | M_REL
  | M_ABS | M_ABX | M_ABY | M_IND | M_IZX | M_IZY

datatype opn = I_ADC | I_AND | I_ASL | I_BCC | I_BCS | I_BEQ | I_BIT | I_BMI | I_BNE | I_BPL
  | I_BRK | I_BVC | I_BVS | I_CLC | I_CLD | I_CLI | I_CLV | I_CMP | I_CPX | I_CPY | I_DEC
  | I_DEX | I_DEY | I_EOR | I_INC | I_INX | I_INY | I_JMP | I_JSR | I_LDA | I_LDX | I_LDY
  | I_LSR | I_NOP | I_ORA | I_PHA | I_PHP | I_PLA | I_PLP | I_ROL | I_ROR | I_RTI | I_RTS
  | I_SBC | I_SEC | I_SED | I_SEI | I_STA | I_STX | I_STY | I_TAX | I_TAY | I_TSX | I_TXA
  | I_TXS | I_TYA

text \<open>The \<open>instructions\<close> dictionary of \<open>_init_lookup_table\<close>.\<close>

definition emu_instructions :: "(int \<times> amode \<times> opn \<times> int) list" where
  "emu_instructions = [
    (0x00, M_IMP, I_BRK, 7), (0x01, M_IZX, I_ORA, 6), (0x05, M_ZP0, I_ORA, 3),
    (0x06, M_ZP0, I_ASL, 5), (0x08, M_IMP, I_PHP, 3), (0x09, M_IMM, I_ORA, 2),
    (0x0A, M_ACC, I_ASL, 2), (0x0D, M_ABS, I_ORA, 4), (0x0E, M_ABS, I_ASL, 6),
    (0x10, M_REL, I_BPL, 2), (0x11, M_IZY, I_ORA, 5), (0x15, M_ZPX, I_ORA, 4),
    (0x16, M_ZPX, I_ASL, 6), (0x18, M_IMP, I_CLC, 2), (0x19, M_ABY, I_ORA, 4),
    (0x1D, M_ABX, I_ORA, 4), (0x1E, M_ABX, I_ASL, 7),
    (0x20, M_ABS, I_JSR, 6), (0x21, M_IZX, I_AND, 6), (0x24, M_ZP0, I_BIT, 3),
    (0x25, M_ZP0, I_AND, 3), (0x26, M_ZP0, I_ROL, 5), (0x28, M_IMP, I_PLP, 4),
    (0x29, M_IMM, I_AND, 2), (0x2A, M_ACC, I_ROL, 2), (0x2C, M_ABS, I_BIT, 4),
    (0x2D, M_ABS, I_AND, 4), (0x2E, M_ABS, I_ROL, 6),
    (0x30, M_REL, I_BMI, 2), (0x31, M_IZY, I_AND, 5), (0x35, M_ZPX, I_AND, 4),
    (0x36, M_ZPX, I_ROL, 6), (0x38, M_IMP, I_SEC, 2), (0x39, M_ABY, I_AND, 4),
    (0x3D, M_ABX, I_AND, 4), (0x3E, M_ABX, I_ROL, 7),
    (0x40, M_IMP, I_RTI, 6), (0x41, M_IZX, I_EOR, 6), (0x45, M_ZP0, I_EOR, 3),
    (0x46, M_ZP0, I_LSR, 5), (0x48, M_IMP, I_PHA, 3), (0x49, M_IMM, I_EOR, 2),
    (0x4A, M_ACC, I_LSR, 2), (0x4C, M_ABS, I_JMP, 3), (0x4D, M_ABS, I_EOR, 4),
    (0x4E, M_ABS, I_LSR, 6),
    (0x50, M_REL, I_BVC, 2), (0x51, M_IZY, I_EOR, 5), (0x55, M_ZPX, I_EOR, 4),
    (0x56, M_ZPX, I_LSR, 6), (0x58, M_IMP, I_CLI, 2), (0x59, M_ABY, I_EOR, 4),
    (0x5D, M_ABX, I_EOR, 4), (0x5E, M_ABX, I_LSR, 7),
    (0x60, M_IMP, I_RTS, 6), (0x61, M_IZX, I_ADC, 6), (0x65, M_ZP0, I_ADC, 3),
    (0x66, M_ZP0, I_ROR, 5), (0x68, M_IMP, I_PLA, 4), (0x69, M_IMM, I_ADC, 2),
    (0x6A, M_ACC, I_ROR, 2), (0x6C, M_IND, I_JMP, 5), (0x6D, M_ABS, I_ADC, 4),
    (0x6E, M_ABS, I_ROR, 6),
    (0x70, M_REL, I_BVS, 2), (0x71, M_IZY, I_ADC, 5), (0x75, M_ZPX, I_ADC, 4),
    (0x76, M_ZPX, I_ROR, 6), (0x78, M_IMP, I_SEI, 2), (0x79, M_ABY, I_ADC, 4),
    (0x7D, M_ABX, I_ADC, 4), (0x7E, M_ABX, I_ROR, 7),
    (0x81, M_IZX, I_STA, 6), (0x84, M_ZP0, I_STY, 3), (0x85, M_ZP0, I_STA, 3),
    (0x86, M_ZP0, I_STX, 3), (0x88, M_IMP, I_DEY, 2), (0x8A, M_IMP, I_TXA, 2),
    (0x8C, M_ABS, I_STY, 4), (0x8D, M_ABS, I_STA, 4), (0x8E, M_ABS, I_STX, 4),
    (0x90, M_REL, I_BCC, 2), (0x91, M_IZY, I_STA, 6), (0x94, M_ZPX, I_STY, 4),
    (0x95, M_ZPX, I_STA, 4), (0x96, M_ZPY, I_STX, 4), (0x98, M_IMP, I_TYA, 2),
    (0x99, M_ABY, I_STA, 5), (0x9A, M_IMP, I_TXS, 2), (0x9D, M_ABX, I_STA, 5),
    (0xA0, M_IMM, I_LDY, 2), (0xA1, M_IZX, I_LDA, 6), (0xA2, M_IMM, I_LDX, 2),
    (0xA4, M_ZP0, I_LDY, 3), (0xA5, M_ZP0, I_LDA, 3), (0xA6, M_ZP0, I_LDX, 3),
    (0xA8, M_IMP, I_TAY, 2), (0xA9, M_IMM, I_LDA, 2), (0xAA, M_IMP, I_TAX, 2),
    (0xAC, M_ABS, I_LDY, 4), (0xAD, M_ABS, I_LDA, 4), (0xAE, M_ABS, I_LDX, 4),
    (0xB0, M_REL, I_BCS, 2), (0xB1, M_IZY, I_LDA, 5), (0xB4, M_ZPX, I_LDY, 4),
    (0xB5, M_ZPX, I_LDA, 4), (0xB6, M_ZPY, I_LDX, 4), (0xB8, M_IMP, I_CLV, 2),
    (0xB9, M_ABY, I_LDA, 4), (0xBA, M_IMP, I_TSX, 2), (0xBC, M_ABX, I_LDY, 4),
    (0xBD, M_ABX, I_LDA, 4), (0xBE, M_ABY, I_LDX, 4),
    (0xC0, M_IMM, I_CPY, 2), (0xC1, M_IZX, I_CMP, 6), (0xC4, M_ZP0, I_CPY, 3),
    (0xC5, M_ZP0, I_CMP, 3), (0xC6, M_ZP0, I_DEC, 5), (0xC8, M_IMP, I_INY, 2),
    (0xC9, M_IMM, I_CMP, 2), (0xCA, M_IMP, I_DEX, 2), (0xCC, M_ABS, I_CPY, 4),
    (0xCD, M_ABS, I_CMP, 4), (0xCE, M_ABS, I_DEC, 6),
    (0xD0, M_REL, I_BNE, 2), (0xD1, M_IZY, I_CMP, 5), (0xD5, M_ZPX, I_CMP, 4),
    (0xD6, M_ZPX, I_DEC, 6), (0xD8, M_IMP, I_CLD, 2), (0xD9, M_ABY, I_CMP, 4),
    (0xDD, M_ABX, I_CMP, 4), (0xDE, M_ABX, I_DEC, 7),
    (0xE0, M_IMM, I_CPX, 2), (0xE1, M_IZX, I_SBC, 6), (0xE4, M_ZP0, I_CPX, 3),
    (0xE5, M_ZP0, I_SBC, 3), (0xE6, M_ZP0, I_INC, 5), (0xE8, M_IMP, I_INX, 2),
    (0xE9, M_IMM, I_SBC, 2), (0xEA, M_IMP, I_NOP, 2), (0xEC, M_ABS, I_CPX, 4),
    (0xED, M_ABS, I_SBC, 4), (0xEE, M_ABS, I_INC, 6),
    (0xF0, M_REL, I_BEQ, 2), (0xF1, M_IZY, I_SBC, 5), (0xF5, M_ZPX, I_SBC, 4),
    (0xF6, M_ZPX, I_INC, 6), (0xF8, M_IMP, I_SED, 2), (0xF9, M_ABY, I_SBC, 4),
    (0xFD, M_ABX, I_SBC, 4), (0xFE, M_ABX, I_INC, 7)]"

text \<open>
  \<open>self.lookup[opcode]\<close>: a list of 256 entries, the slots the dictionary leaves empty
  filled with \<open>(IMP, NOP, 2)\<close>.
\<close>

definition emu_lookup :: "int \<Rightarrow> (amode \<times> opn \<times> int) res" where
  "emu_lookup opcode =
     (case py_index 256 opcode of
        None \<Rightarrow> Inl IndexError
      | Some k \<Rightarrow> (case map_of emu_instructions (int k) of
                     Some e \<Rightarrow> Inr e
                   | None \<Rightarrow> Inr (M_IMP, I_NOP, 2)))"

definition get_flag :: "emu_cpu \<Rightarrow> int \<Rightarrow> bool" where
  "get_flag c flag = ((cpu_status c AND flag) \<noteq> 0)"

definition set_flag :: "int \<Rightarrow> bool \<Rightarrow> emu_cpu \<Rightarrow> emu_cpu" where
  "set_flag flag v c =
     c\<lparr>cpu_status := (if v then cpu_status c OR flag else cpu_status c AND NOT flag)\<rparr>"

text \<open>The two calls most instructions end with: \<open>Z\<close> from \<open>r == 0\<close>, \<open>N\<close> from \<open>r & 0x80\<close>.\<close>

definition set_ZN :: "int \<Rightarrow> emu_cpu \<Rightarrow> emu_cpu" where
  "set_ZN r c = set_flag FLAG_N ((r AND 0x80) \<noteq> 0) (set_flag FLAG_Z (r = 0) c)"

definition emu_push :: "emu_bus \<Rightarrow> int \<Rightarrow> emu_bus res" where
  "emu_push s data =
     bnd (emu_bus_cpu_write s (0x0100 + cpu_stkp (bus_cpu s)) data) (\<lambda>s1.
       Inr (cpu_upd (\<lambda>c. c\<lparr>cpu_stkp := (cpu_stkp c - 1) AND 0xFF\<rparr>) s1))"

definition emu_pop :: "emu_bus \<Rightarrow> (int \<times> emu_bus) res" where
  "emu_pop s =
     (let s1 = cpu_upd (\<lambda>c. c\<lparr>cpu_stkp := (cpu_stkp c + 1) AND 0xFF\<rparr>) s
      in emu_bus_cpu_read s1 (0x0100 + cpu_stkp (bus_cpu s1)))"

definition emu_push_word :: "emu_bus \<Rightarrow> int \<Rightarrow> emu_bus res" where
  "emu_push_word s data =
     bnd (emu_push s ((drop_bit 8 data) AND 0xFF)) (\<lambda>s1. emu_push s1 (data AND 0xFF))"

definition emu_pop_word :: "emu_bus \<Rightarrow> (int \<times> emu_bus) res" where
  "emu_pop_word s =
     bnd (emu_pop s) (\<lambda>(lo, s1).
     bnd (emu_pop s1) (\<lambda>(hi, s2). Inr ((push_bit 8 hi) OR lo, s2)))"

text \<open>\<open>reset\<close>, \<open>interrupt_request\<close> and \<open>non_maskable_interrupt\<close>.\<close>

definition emu_reset :: "emu_bus \<Rightarrow> emu_bus res" where
  "emu_reset s =
     (let s0 = cpu_upd (\<lambda>c. c\<lparr>cpu_a := 0x00, cpu_x := 0x00, cpu_y := 0x00, cpu_stkp := 0xFD,
                              cpu_status := 0x24\<rparr>) s in
      bnd (emu_bus_cpu_read s0 0xFFFC) (\<lambda>(lo, s1).
      bnd (emu_bus_cpu_read s1 0xFFFD) (\<lambda>(hi, s2).
        Inr (cpu_upd (\<lambda>c. c\<lparr>cpu_pc := (push_bit 8 hi) OR lo, cpu_addr_rel := 0x00,
                            cpu_addr_abs := 0x0000, cpu_fetched := 0x00, cpu_cycles := 8\<rparr>) s2))))"


definition emu_non_maskable_interrupt :: "emu_bus \<Rightarrow> emu_bus res" where
  "emu_non_maskable_interrupt s =
     bnd (emu_push_word s (cpu_pc (bus_cpu s))) (\<lambda>s1.
     bnd (emu_push s1 (cpu_status (bus_cpu s1) AND NOT FLAG_B)) (\<lambda>s2.
     let s3 = cpu_upd (set_flag FLAG_I True) s2 in
     bnd (emu_bus_cpu_read s3 0xFFFA) (\<lambda>(lo, s4).
     bnd (emu_bus_cpu_read s4 0xFFFB) (\<lambda>(hi, s5).
       Inr (cpu_upd (\<lambda>c. c\<lparr>cpu_pc := lo OR (push_bit 8 hi), cpu_cycles := 8\<rparr>) s5)))))"

subsection \<open>Addressing modes\<close>

text \<open>Each returns the extra cycle it asks for. None of the \<open>pc += 1\<close> is masked.\<close>

definition emu_IMM :: "emu_bus \<Rightarrow> (int \<times> emu_bus) res" where
  "emu_IMM s = Inr (0, cpu_upd (\<lambda>c. c\<lparr>cpu_addr_abs := cpu_pc c, cpu_pc := cpu_pc c + 1\<rparr>) s)"

definition emu_ZP0 :: "emu_bus \<Rightarrow> (int \<times> emu_bus) res" where
  "emu_ZP0 s =
     bnd (emu_bus_cpu_read s (cpu_pc (bus_cpu s))) (\<lambda>(d, s1).
       Inr (0, cpu_upd (\<lambda>c. c\<lparr>cpu_addr_abs := d, cpu_pc := cpu_pc c + 1\<rparr>) s1))"

definition emu_ZPX :: "emu_bus \<Rightarrow> (int \<times> emu_bus) res" where
  "emu_ZPX s =
     bnd (emu_bus_cpu_read s (cpu_pc (bus_cpu s))) (\<lambda>(d, s1).
       Inr (0, cpu_upd (\<lambda>c. c\<lparr>cpu_addr_abs := (d + cpu_x c) AND 0xFF,
                               cpu_pc := cpu_pc c + 1\<rparr>) s1))"

definition emu_ZPY :: "emu_bus \<Rightarrow> (int \<times> emu_bus) res" where
  "emu_ZPY s =
     bnd (emu_bus_cpu_read s (cpu_pc (bus_cpu s))) (\<lambda>(d, s1).
       Inr (0, cpu_upd (\<lambda>c. c\<lparr>cpu_addr_abs := (d + cpu_y c) AND 0xFF,
                               cpu_pc := cpu_pc c + 1\<rparr>) s1))"

definition emu_REL :: "emu_bus \<Rightarrow> (int \<times> emu_bus) res" where
  "emu_REL s =
     bnd (emu_bus_cpu_read s (cpu_pc (bus_cpu s))) (\<lambda>(d, s1).
       Inr (0, cpu_upd (\<lambda>c. c\<lparr>cpu_addr_rel := (if (d AND 0x80) \<noteq> 0 then d OR 0xFF00 else d),
                               cpu_pc := cpu_pc c + 1\<rparr>) s1))"

text \<open>The two operand bytes of the absolute modes: \<open>lo\<close>, \<open>hi\<close>, and \<open>pc\<close> two further.\<close>

definition emu_fetch_lo_hi :: "emu_bus \<Rightarrow> ((int \<times> int) \<times> emu_bus) res" where
  "emu_fetch_lo_hi s =
     bnd (emu_bus_cpu_read s (cpu_pc (bus_cpu s))) (\<lambda>(lo, s1).
       let s2 = cpu_upd (\<lambda>c. c\<lparr>cpu_pc := cpu_pc c + 1\<rparr>) s1 in
       bnd (emu_bus_cpu_read s2 (cpu_pc (bus_cpu s2))) (\<lambda>(hi, s3).
         Inr ((lo, hi), cpu_upd (\<lambda>c. c\<lparr>cpu_pc := cpu_pc c + 1\<rparr>) s3)))"

definition emu_ABS :: "emu_bus \<Rightarrow> (int \<times> emu_bus) res" where
  "emu_ABS s =
     bnd (emu_fetch_lo_hi s) (\<lambda>((lo, hi), s1).
       Inr (0, cpu_upd (\<lambda>c. c\<lparr>cpu_addr_abs := (push_bit 8 hi) OR lo\<rparr>) s1))"

definition emu_ABX :: "emu_bus \<Rightarrow> (int \<times> emu_bus) res" where
  "emu_ABX s =
     bnd (emu_fetch_lo_hi s) (\<lambda>((lo, hi), s1).
       let addr = ((push_bit 8 hi) OR lo) + cpu_x (bus_cpu s1) in
       Inr (if (addr AND 0xFF00) \<noteq> push_bit 8 hi then 1 else 0,
            cpu_upd (\<lambda>c. c\<lparr>cpu_addr_abs := addr\<rparr>) s1))"

definition emu_ABY :: "emu_bus \<Rightarrow> (int \<times> emu_bus) res" where
  "emu_ABY s =
     bnd (emu_fetch_lo_hi s) (\<lambda>((lo, hi), s1).
       let addr = ((push_bit 8 hi) OR lo) + cpu_y (bus_cpu s1) in
       Inr (if (addr AND 0xFF00) \<noteq> push_bit 8 hi then 1 else 0,
            cpu_upd (\<lambda>c. c\<lparr>cpu_addr_abs := addr\<rparr>) s1))"

definition emu_IND :: "emu_bus \<Rightarrow> (int \<times> emu_bus) res" where
  "emu_IND s =
     bnd (emu_fetch_lo_hi s) (\<lambda>((ptr_lo, ptr_hi), s1).
       let ptr = (push_bit 8 ptr_hi) OR ptr_lo in
       bnd (emu_bus_cpu_read s1 (if ptr_lo = 0xFF then ptr AND 0xFF00 else ptr + 1)) (\<lambda>(hi, s2).
       bnd (emu_bus_cpu_read s2 ptr) (\<lambda>(lo, s3).
         Inr (0, cpu_upd (\<lambda>c. c\<lparr>cpu_addr_abs := (push_bit 8 hi) OR lo\<rparr>) s3))))"

definition emu_IZX :: "emu_bus \<Rightarrow> (int \<times> emu_bus) res" where
  "emu_IZX s =
     bnd (emu_bus_cpu_read s (cpu_pc (bus_cpu s))) (\<lambda>(t, s1).
       let s2 = cpu_upd (\<lambda>c. c\<lparr>cpu_pc := cpu_pc c + 1\<rparr>) s1 in
       bnd (emu_bus_cpu_read s2 ((t + cpu_x (bus_cpu s2)) AND 0xFF)) (\<lambda>(lo, s3).
       bnd (emu_bus_cpu_read s3 ((t + cpu_x (bus_cpu s3) + 1) AND 0xFF)) (\<lambda>(hi, s4).
         Inr (0, cpu_upd (\<lambda>c. c\<lparr>cpu_addr_abs := (push_bit 8 hi) OR lo\<rparr>) s4))))"

definition emu_IZY :: "emu_bus \<Rightarrow> (int \<times> emu_bus) res" where
  "emu_IZY s =
     bnd (emu_bus_cpu_read s (cpu_pc (bus_cpu s))) (\<lambda>(t, s1).
       let s2 = cpu_upd (\<lambda>c. c\<lparr>cpu_pc := cpu_pc c + 1\<rparr>) s1 in
       bnd (emu_bus_cpu_read s2 (t AND 0xFF)) (\<lambda>(lo, s3).
       bnd (emu_bus_cpu_read s3 ((t + 1) AND 0xFF)) (\<lambda>(hi, s4).
         let addr = ((push_bit 8 hi) OR lo) + cpu_y (bus_cpu s4) in
         Inr (if (addr AND 0xFF00) \<noteq> push_bit 8 hi then 1 else 0,
              cpu_upd (\<lambda>c. c\<lparr>cpu_addr_abs := addr\<rparr>) s4))))"

fun emu_addr_mode :: "amode \<Rightarrow> emu_bus \<Rightarrow> (int \<times> emu_bus) res" where
  "emu_addr_mode M_IMP s = Inr (0, s)"
| "emu_addr_mode M_ACC s = Inr (0, s)"
| "emu_addr_mode M_IMM s = emu_IMM s"
| "emu_addr_mode M_ZP0 s = emu_ZP0 s"
| "emu_addr_mode M_ZPX s = emu_ZPX s"
| "emu_addr_mode M_ZPY s = emu_ZPY s"
| "emu_addr_mode M_REL s = emu_REL s"
| "emu_addr_mode M_ABS s = emu_ABS s"
| "emu_addr_mode M_ABX s = emu_ABX s"
| "emu_addr_mode M_ABY s = emu_ABY s"
| "emu_addr_mode M_IND s = emu_IND s"
| "emu_addr_mode M_IZX s = emu_IZX s"
| "emu_addr_mode M_IZY s = emu_IZY s"

text \<open>\<open>self.lookup[self.opcode][0]\<close>, the addressing mode of the opcode in hand.\<close>

definition emu_cur_mode :: "emu_bus \<Rightarrow> amode res" where
  "emu_cur_mode s = bnd (emu_lookup (cpu_opcode (bus_cpu s))) (\<lambda>(m, _, _). Inr m)"

definition emu_fetch :: "emu_bus \<Rightarrow> (int \<times> emu_bus) res" where
  "emu_fetch s =
     bnd (emu_cur_mode s) (\<lambda>m.
       if m \<noteq> M_IMP \<and> m \<noteq> M_ACC then
         bnd (emu_bus_cpu_read s (cpu_addr_abs (bus_cpu s))) (\<lambda>(d, s1).
           Inr (d, cpu_upd (\<lambda>c. c\<lparr>cpu_fetched := d\<rparr>) s1))
       else Inr (cpu_a (bus_cpu s), cpu_upd (\<lambda>c. c\<lparr>cpu_fetched := cpu_a c\<rparr>) s))"

subsection \<open>Instructions\<close>

text \<open>Each returns the extra cycle it allows, as the Python method does.\<close>

definition emu_ADC :: "emu_bus \<Rightarrow> (int \<times> emu_bus) res" where
  "emu_ADC s =
     bnd (emu_fetch s) (\<lambda>(fetched, s1).
       let c = bus_cpu s1;
           temp = cpu_a c + fetched + (if get_flag c FLAG_C then 1 else 0);
           c1 = set_flag FLAG_C (temp > 255) c;
           c2 = set_flag FLAG_Z ((temp AND 0xFF) = 0) c1;
           c3 = set_flag FLAG_V (((NOT (cpu_a c2 XOR fetched)) AND (cpu_a c2 XOR temp) AND 0x80) \<noteq> 0) c2;
           c4 = set_flag FLAG_N ((temp AND 0x80) \<noteq> 0) c3
       in Inr (1, s1\<lparr>bus_cpu := c4\<lparr>cpu_a := temp AND 0xFF\<rparr>\<rparr>))"

definition emu_SBC :: "emu_bus \<Rightarrow> (int \<times> emu_bus) res" where
  "emu_SBC s =
     bnd (emu_fetch s) (\<lambda>(fetched, s1).
       let c = bus_cpu s1;
           val = fetched XOR 0xFF;
           temp = cpu_a c + val + (if get_flag c FLAG_C then 1 else 0);
           c1 = set_flag FLAG_C (temp > 255) c;
           c2 = set_flag FLAG_Z ((temp AND 0xFF) = 0) c1;
           c3 = set_flag FLAG_V (((temp XOR cpu_a c2) AND (temp XOR val) AND 0x80) \<noteq> 0) c2;
           c4 = set_flag FLAG_N ((temp AND 0x80) \<noteq> 0) c3
       in Inr (1, s1\<lparr>bus_cpu := c4\<lparr>cpu_a := temp AND 0xFF\<rparr>\<rparr>))"

definition emu_AND :: "emu_bus \<Rightarrow> (int \<times> emu_bus) res" where
  "emu_AND s =
     bnd (emu_fetch s) (\<lambda>(fetched, s1).
       let r = cpu_a (bus_cpu s1) AND fetched
       in Inr (1, cpu_upd (\<lambda>c. set_ZN r (c\<lparr>cpu_a := r\<rparr>)) s1))"

definition emu_EOR :: "emu_bus \<Rightarrow> (int \<times> emu_bus) res" where
  "emu_EOR s =
     bnd (emu_fetch s) (\<lambda>(fetched, s1).
       let r = cpu_a (bus_cpu s1) XOR fetched
       in Inr (1, cpu_upd (\<lambda>c. set_ZN r (c\<lparr>cpu_a := r\<rparr>)) s1))"

definition emu_ORA :: "emu_bus \<Rightarrow> (int \<times> emu_bus) res" where
  "emu_ORA s =
     bnd (emu_fetch s) (\<lambda>(fetched, s1).
       let r = cpu_a (bus_cpu s1) OR fetched
       in Inr (1, cpu_upd (\<lambda>c. set_ZN r (c\<lparr>cpu_a := r\<rparr>)) s1))"

definition emu_ASL :: "emu_bus \<Rightarrow> (int \<times> emu_bus) res" where
  "emu_ASL s =
     bnd (emu_cur_mode s) (\<lambda>m.
       if m = M_ACC then
         Inr (0, cpu_upd (\<lambda>c. let c1 = set_flag FLAG_C ((cpu_a c AND 0x80) \<noteq> 0) c;
                                   r = (push_bit 1 (cpu_a c1)) AND 0xFF
                               in set_ZN r (c1\<lparr>cpu_a := r\<rparr>)) s)
       else
         bnd (emu_fetch s) (\<lambda>(fetched, s1).
           let s2 = cpu_upd (set_flag FLAG_C ((fetched AND 0x80) \<noteq> 0)) s1;
               temp = (push_bit 1 fetched) AND 0xFF
           in bnd (emu_bus_cpu_write s2 (cpu_addr_abs (bus_cpu s2)) temp) (\<lambda>s3.
                Inr (0, cpu_upd (set_ZN temp) s3))))"

definition emu_LSR :: "emu_bus \<Rightarrow> (int \<times> emu_bus) res" where
  "emu_LSR s =
     bnd (emu_cur_mode s) (\<lambda>m.
       if m = M_ACC then
         Inr (0, cpu_upd (\<lambda>c. let c1 = set_flag FLAG_C ((cpu_a c AND 0x01) \<noteq> 0) c;
                                   r = drop_bit 1 (cpu_a c1)
                               in set_flag FLAG_N False (set_flag FLAG_Z (r = 0) (c1\<lparr>cpu_a := r\<rparr>))) s)
       else
         bnd (emu_fetch s) (\<lambda>(fetched, s1).
           let s2 = cpu_upd (set_flag FLAG_C ((fetched AND 0x01) \<noteq> 0)) s1;
               temp = drop_bit 1 fetched
           in bnd (emu_bus_cpu_write s2 (cpu_addr_abs (bus_cpu s2)) temp) (\<lambda>s3.
                Inr (0, cpu_upd (\<lambda>c. set_flag FLAG_N False (set_flag FLAG_Z (temp = 0) c)) s3))))"

definition emu_ROL :: "emu_bus \<Rightarrow> (int \<times> emu_bus) res" where
  "emu_ROL s =
     bnd (emu_cur_mode s) (\<lambda>m.
       if m = M_ACC then
         Inr (0, cpu_upd (\<lambda>c. let temp = (push_bit 1 (cpu_a c)) OR (if get_flag c FLAG_C then 1 else 0);
                                   c1 = set_flag FLAG_C ((temp AND 0x100) \<noteq> 0) c;
                                   r = temp AND 0xFF
                               in set_ZN r (c1\<lparr>cpu_a := r\<rparr>)) s)
       else
         bnd (emu_fetch s) (\<lambda>(fetched, s1).
           let temp0 = (push_bit 1 fetched) OR (if get_flag (bus_cpu s1) FLAG_C then 1 else 0);
               s2 = cpu_upd (set_flag FLAG_C ((temp0 AND 0x100) \<noteq> 0)) s1;
               temp = temp0 AND 0xFF
           in bnd (emu_bus_cpu_write s2 (cpu_addr_abs (bus_cpu s2)) temp) (\<lambda>s3.
                Inr (0, cpu_upd (set_ZN temp) s3))))"

definition emu_ROR :: "emu_bus \<Rightarrow> (int \<times> emu_bus) res" where
  "emu_ROR s =
     bnd (emu_cur_mode s) (\<lambda>m.
       if m = M_ACC then
         Inr (0, cpu_upd (\<lambda>c. let temp = cpu_a c OR (if get_flag c FLAG_C then 0x100 else 0);
                                   c1 = set_flag FLAG_C ((temp AND 0x01) \<noteq> 0) c;
                                   r = drop_bit 1 temp
                               in set_ZN r (c1\<lparr>cpu_a := r\<rparr>)) s)
       else
         bnd (emu_fetch s) (\<lambda>(fetched, s1).
           let temp0 = fetched OR (if get_flag (bus_cpu s1) FLAG_C then 0x100 else 0);
               s2 = cpu_upd (set_flag FLAG_C ((temp0 AND 0x01) \<noteq> 0)) s1;
               temp = drop_bit 1 temp0
           in bnd (emu_bus_cpu_write s2 (cpu_addr_abs (bus_cpu s2)) temp) (\<lambda>s3.
                Inr (0, cpu_upd (set_ZN temp) s3))))"

text \<open>\<open>_branch(condition)\<close>: the target \<open>pc + addr_rel\<close> is not masked.\<close>

definition emu_branch :: "bool \<Rightarrow> emu_bus \<Rightarrow> (int \<times> emu_bus) res" where
  "emu_branch condition s =
     (if condition then
        Inr (0, cpu_upd (\<lambda>c.
               let target = cpu_pc c + cpu_addr_rel c;
                   c1 = c\<lparr>cpu_cycles := cpu_cycles c + 1, cpu_addr_abs := target\<rparr>;
                   c2 = (if (target AND 0xFF00) \<noteq> (cpu_pc c1 AND 0xFF00)
                         then c1\<lparr>cpu_cycles := cpu_cycles c1 + 1\<rparr> else c1)
               in c2\<lparr>cpu_pc := target\<rparr>) s)
      else Inr (0, s))"

definition emu_BCC :: "emu_bus \<Rightarrow> (int \<times> emu_bus) res" where
  "emu_BCC s =
     emu_branch (\<not> get_flag (bus_cpu s) FLAG_C) s"

definition emu_BCS :: "emu_bus \<Rightarrow> (int \<times> emu_bus) res" where
  "emu_BCS s =
     emu_branch (get_flag (bus_cpu s) FLAG_C) s"

definition emu_BEQ :: "emu_bus \<Rightarrow> (int \<times> emu_bus) res" where
  "emu_BEQ s =
     emu_branch (get_flag (bus_cpu s) FLAG_Z) s"

definition emu_BMI :: "emu_bus \<Rightarrow> (int \<times> emu_bus) res" where
  "emu_BMI s =
     emu_branch (get_flag (bus_cpu s) FLAG_N) s"

definition emu_BNE :: "emu_bus \<Rightarrow> (int \<times> emu_bus) res" where
  "emu_BNE s =
     emu_branch (\<not> get_flag (bus_cpu s) FLAG_Z) s"

definition emu_BPL :: "emu_bus \<Rightarrow> (int \<times> emu_bus) res" where
  "emu_BPL s =
     emu_branch (\<not> get_flag (bus_cpu s) FLAG_N) s"

definition emu_BVC :: "emu_bus \<Rightarrow> (int \<times> emu_bus) res" where
  "emu_BVC s =
     emu_branch (\<not> get_flag (bus_cpu s) FLAG_V) s"

definition emu_BVS :: "emu_bus \<Rightarrow> (int \<times> emu_bus) res" where
  "emu_BVS s =
     emu_branch (get_flag (bus_cpu s) FLAG_V) s"

definition emu_BIT :: "emu_bus \<Rightarrow> (int \<times> emu_bus) res" where
  "emu_BIT s =
     bnd (emu_fetch s) (\<lambda>(fetched, s1).
       Inr (0, cpu_upd (\<lambda>c. let temp = cpu_a c AND fetched;
                                 c1 = set_flag FLAG_Z (temp = 0) c;
                                 c2 = set_flag FLAG_N ((fetched AND 0x80) \<noteq> 0) c1
                             in set_flag FLAG_V ((fetched AND 0x40) \<noteq> 0) c2) s1))"

definition emu_BRK :: "emu_bus \<Rightarrow> (int \<times> emu_bus) res" where
  "emu_BRK s =
     (let s0 = cpu_upd (\<lambda>c. c\<lparr>cpu_pc := cpu_pc c + 1\<rparr>) s in
      bnd (emu_push_word s0 (cpu_pc (bus_cpu s0))) (\<lambda>s1.
      bnd (emu_push s1 (cpu_status (bus_cpu s1) OR FLAG_B OR FLAG_U)) (\<lambda>s2.
      let s3 = cpu_upd (set_flag FLAG_I True) s2 in
      bnd (emu_bus_cpu_read s3 0xFFFE) (\<lambda>(lo, s4).
      bnd (emu_bus_cpu_read s4 0xFFFF) (\<lambda>(hi, s5).
        Inr (0, cpu_upd (\<lambda>c. c\<lparr>cpu_pc := lo OR (push_bit 8 hi)\<rparr>) s5))))))"

definition emu_CLC :: "emu_bus \<Rightarrow> (int \<times> emu_bus) res" where
  "emu_CLC s =
     Inr (0, cpu_upd (set_flag FLAG_C False) s)"

definition emu_CLD :: "emu_bus \<Rightarrow> (int \<times> emu_bus) res" where
  "emu_CLD s =
     Inr (0, cpu_upd (set_flag FLAG_D False) s)"

definition emu_CLI :: "emu_bus \<Rightarrow> (int \<times> emu_bus) res" where
  "emu_CLI s =
     Inr (0, cpu_upd (set_flag FLAG_I False) s)"

definition emu_CLV :: "emu_bus \<Rightarrow> (int \<times> emu_bus) res" where
  "emu_CLV s =
     Inr (0, cpu_upd (set_flag FLAG_V False) s)"

definition emu_SEC :: "emu_bus \<Rightarrow> (int \<times> emu_bus) res" where
  "emu_SEC s =
     Inr (0, cpu_upd (set_flag FLAG_C True) s)"

definition emu_SED :: "emu_bus \<Rightarrow> (int \<times> emu_bus) res" where
  "emu_SED s =
     Inr (0, cpu_upd (set_flag FLAG_D True) s)"

definition emu_SEI :: "emu_bus \<Rightarrow> (int \<times> emu_bus) res" where
  "emu_SEI s =
     Inr (0, cpu_upd (set_flag FLAG_I True) s)"

definition emu_CMP :: "emu_bus \<Rightarrow> (int \<times> emu_bus) res" where
  "emu_CMP s =
     bnd (emu_fetch s) (\<lambda>(fetched, s1).
       Inr (1, cpu_upd (\<lambda>c. let temp = cpu_a c - fetched;
                                 c1 = set_flag FLAG_C (cpu_a c \<ge> fetched) c;
                                 c2 = set_flag FLAG_Z ((temp AND 0xFF) = 0) c1
                             in set_flag FLAG_N ((temp AND 0x80) \<noteq> 0) c2) s1))"

definition emu_CPX :: "emu_bus \<Rightarrow> (int \<times> emu_bus) res" where
  "emu_CPX s =
     bnd (emu_fetch s) (\<lambda>(fetched, s1).
       Inr (0, cpu_upd (\<lambda>c. let temp = cpu_x c - fetched;
                                 c1 = set_flag FLAG_C (cpu_x c \<ge> fetched) c;
                                 c2 = set_flag FLAG_Z ((temp AND 0xFF) = 0) c1
                             in set_flag FLAG_N ((temp AND 0x80) \<noteq> 0) c2) s1))"

definition emu_CPY :: "emu_bus \<Rightarrow> (int \<times> emu_bus) res" where
  "emu_CPY s =
     bnd (emu_fetch s) (\<lambda>(fetched, s1).
       Inr (0, cpu_upd (\<lambda>c. let temp = cpu_y c - fetched;
                                 c1 = set_flag FLAG_C (cpu_y c \<ge> fetched) c;
                                 c2 = set_flag FLAG_Z ((temp AND 0xFF) = 0) c1
                             in set_flag FLAG_N ((temp AND 0x80) \<noteq> 0) c2) s1))"

definition emu_DEC :: "emu_bus \<Rightarrow> (int \<times> emu_bus) res" where
  "emu_DEC s =
     bnd (emu_fetch s) (\<lambda>(fetched, s1).
       let temp = (fetched - 1) AND 0xFF in
       bnd (emu_bus_cpu_write s1 (cpu_addr_abs (bus_cpu s1)) temp) (\<lambda>s2.
         Inr (0, cpu_upd (set_ZN temp) s2)))"

definition emu_INC :: "emu_bus \<Rightarrow> (int \<times> emu_bus) res" where
  "emu_INC s =
     bnd (emu_fetch s) (\<lambda>(fetched, s1).
       let temp = (fetched + 1) AND 0xFF in
       bnd (emu_bus_cpu_write s1 (cpu_addr_abs (bus_cpu s1)) temp) (\<lambda>s2.
         Inr (0, cpu_upd (set_ZN temp) s2)))"

definition emu_DEX :: "emu_bus \<Rightarrow> (int \<times> emu_bus) res" where
  "emu_DEX s =
     Inr (0, cpu_upd (\<lambda>c. let r = (cpu_x c - 1) AND 0xFF in set_ZN r (c\<lparr>cpu_x := r\<rparr>)) s)"

definition emu_DEY :: "emu_bus \<Rightarrow> (int \<times> emu_bus) res" where
  "emu_DEY s =
     Inr (0, cpu_upd (\<lambda>c. let r = (cpu_y c - 1) AND 0xFF in set_ZN r (c\<lparr>cpu_y := r\<rparr>)) s)"

definition emu_INX :: "emu_bus \<Rightarrow> (int \<times> emu_bus) res" where
  "emu_INX s =
     Inr (0, cpu_upd (\<lambda>c. let r = (cpu_x c + 1) AND 0xFF in set_ZN r (c\<lparr>cpu_x := r\<rparr>)) s)"

definition emu_INY :: "emu_bus \<Rightarrow> (int \<times> emu_bus) res" where
  "emu_INY s =
     Inr (0, cpu_upd (\<lambda>c. let r = (cpu_y c + 1) AND 0xFF in set_ZN r (c\<lparr>cpu_y := r\<rparr>)) s)"

definition emu_JMP :: "emu_bus \<Rightarrow> (int \<times> emu_bus) res" where
  "emu_JMP s =
     Inr (0, cpu_upd (\<lambda>c. c\<lparr>cpu_pc := cpu_addr_abs c\<rparr>) s)"

definition emu_JSR :: "emu_bus \<Rightarrow> (int \<times> emu_bus) res" where
  "emu_JSR s =
     bnd (emu_push_word s (cpu_pc (bus_cpu s) - 1)) (\<lambda>s1.
       Inr (0, cpu_upd (\<lambda>c. c\<lparr>cpu_pc := cpu_addr_abs c\<rparr>) s1))"

definition emu_LDA :: "emu_bus \<Rightarrow> (int \<times> emu_bus) res" where
  "emu_LDA s =
     bnd (emu_fetch s) (\<lambda>(fetched, s1).
       Inr (1, cpu_upd (\<lambda>c. set_ZN fetched (c\<lparr>cpu_a := fetched\<rparr>)) s1))"

definition emu_LDX :: "emu_bus \<Rightarrow> (int \<times> emu_bus) res" where
  "emu_LDX s =
     bnd (emu_fetch s) (\<lambda>(fetched, s1).
       Inr (1, cpu_upd (\<lambda>c. set_ZN fetched (c\<lparr>cpu_x := fetched\<rparr>)) s1))"

definition emu_LDY :: "emu_bus \<Rightarrow> (int \<times> emu_bus) res" where
  "emu_LDY s =
     bnd (emu_fetch s) (\<lambda>(fetched, s1).
       Inr (1, cpu_upd (\<lambda>c. set_ZN fetched (c\<lparr>cpu_y := fetched\<rparr>)) s1))"

definition emu_NOP :: "emu_bus \<Rightarrow> (int \<times> emu_bus) res" where
  "emu_NOP s =
     Inr (0, s)"

definition emu_PHA :: "emu_bus \<Rightarrow> (int \<times> emu_bus) res" where
  "emu_PHA s =
     bnd (emu_push s (cpu_a (bus_cpu s))) (\<lambda>s1. Inr (0, s1))"

definition emu_PHP :: "emu_bus \<Rightarrow> (int \<times> emu_bus) res" where
  "emu_PHP s =
     bnd (emu_push s (cpu_status (bus_cpu s) OR FLAG_B OR FLAG_U)) (\<lambda>s1. Inr (0, s1))"

definition emu_PLA :: "emu_bus \<Rightarrow> (int \<times> emu_bus) res" where
  "emu_PLA s =
     bnd (emu_pop s) (\<lambda>(d, s1).
       Inr (0, cpu_upd (\<lambda>c. set_ZN d (c\<lparr>cpu_a := d\<rparr>)) s1))"

definition emu_PLP :: "emu_bus \<Rightarrow> (int \<times> emu_bus) res" where
  "emu_PLP s =
     bnd (emu_pop s) (\<lambda>(d, s1).
       Inr (0, cpu_upd (\<lambda>c. set_flag FLAG_B False (set_flag FLAG_U True (c\<lparr>cpu_status := d\<rparr>))) s1))"

definition emu_RTI :: "emu_bus \<Rightarrow> (int \<times> emu_bus) res" where
  "emu_RTI s =
     bnd (emu_pop s) (\<lambda>(d, s1).
       let s2 = cpu_upd (\<lambda>c. set_flag FLAG_B False (set_flag FLAG_U True (c\<lparr>cpu_status := d\<rparr>))) s1 in
       bnd (emu_pop_word s2) (\<lambda>(w, s3).
         Inr (0, cpu_upd (\<lambda>c. c\<lparr>cpu_pc := w\<rparr>) s3)))"

definition emu_RTS :: "emu_bus \<Rightarrow> (int \<times> emu_bus) res" where
  "emu_RTS s =
     bnd (emu_pop_word s) (\<lambda>(w, s1).
       Inr (0, cpu_upd (\<lambda>c. c\<lparr>cpu_pc := w + 1\<rparr>) s1))"

definition emu_STA :: "emu_bus \<Rightarrow> (int \<times> emu_bus) res" where
  "emu_STA s =
     bnd (emu_bus_cpu_write s (cpu_addr_abs (bus_cpu s)) (cpu_a (bus_cpu s))) (\<lambda>s1. Inr (0, s1))"

definition emu_STX :: "emu_bus \<Rightarrow> (int \<times> emu_bus) res" where
  "emu_STX s =
     bnd (emu_bus_cpu_write s (cpu_addr_abs (bus_cpu s)) (cpu_x (bus_cpu s))) (\<lambda>s1. Inr (0, s1))"

definition emu_STY :: "emu_bus \<Rightarrow> (int \<times> emu_bus) res" where
  "emu_STY s =
     bnd (emu_bus_cpu_write s (cpu_addr_abs (bus_cpu s)) (cpu_y (bus_cpu s))) (\<lambda>s1. Inr (0, s1))"

definition emu_TAX :: "emu_bus \<Rightarrow> (int \<times> emu_bus) res" where
  "emu_TAX s =
     Inr (0, cpu_upd (\<lambda>c. set_ZN (cpu_a c) (c\<lparr>cpu_x := cpu_a c\<rparr>)) s)"

definition emu_TAY :: "emu_bus \<Rightarrow> (int \<times> emu_bus) res" where
  "emu_TAY s =
     Inr (0, cpu_upd (\<lambda>c. set_ZN (cpu_a c) (c\<lparr>cpu_y := cpu_a c\<rparr>)) s)"

definition emu_TSX :: "emu_bus \<Rightarrow> (int \<times> emu_bus) res" where
  "emu_TSX s =
     Inr (0, cpu_upd (\<lambda>c. set_ZN (cpu_stkp c) (c\<lparr>cpu_x := cpu_stkp c\<rparr>)) s)"

definition emu_TXA :: "emu_bus \<Rightarrow> (int \<times> emu_bus) res" where
  "emu_TXA s =
     Inr (0, cpu_upd (\<lambda>c. set_ZN (cpu_x c) (c\<lparr>cpu_a := cpu_x c\<rparr>)) s)"

definition emu_TYA :: "emu_bus \<Rightarrow> (int \<times> emu_bus) res" where
  "emu_TYA s =
     Inr (0, cpu_upd (\<lambda>c. set_ZN (cpu_y c) (c\<lparr>cpu_a := cpu_y c\<rparr>)) s)"

definition emu_TXS :: "emu_bus \<Rightarrow> (int \<times> emu_bus) res" where
  "emu_TXS s =
     Inr (0, cpu_upd (\<lambda>c. c\<lparr>cpu_stkp := cpu_x c\<rparr>) s)"

fun emu_operation :: "opn \<Rightarrow> emu_bus \<Rightarrow> (int \<times> emu_bus) res" where
  "emu_operation I_ADC s = emu_ADC s"
| "emu_operation I_AND s = emu_AND s"
| "emu_operation I_ASL s = emu_ASL s"
| "emu_operation I_BCC s = emu_BCC s"
| "emu_operation I_BCS s = emu_BCS s"
| "emu_operation I_BEQ s = emu_BEQ s"
| "emu_operation I_BIT s = emu_BIT s"
| "emu_operation I_BMI s = emu_BMI s"
| "emu_operation I_BNE s = emu_BNE s"
| "emu_operation I_BPL s = emu_BPL s"
| "emu_operation I_BRK s = emu_BRK s"
| "emu_operation I_BVC s = emu_BVC s"
| "emu_operation I_BVS s = emu_BVS s"
| "emu_operation I_CLC s = emu_CLC s"
| "emu_operation I_CLD s = emu_CLD s"
| "emu_operation I_CLI s = emu_CLI s"
| "emu_operation I_CLV s = emu_CLV s"
| "emu_operation I_CMP s = emu_CMP s"
| "emu_operation I_CPX s = emu_CPX s"
| "emu_operation I_CPY s = emu_CPY s"
| "emu_operation I_DEC s = emu_DEC s"
| "emu_operation I_DEX s = emu_DEX s"
| "emu_operation I_DEY s = emu_DEY s"
| "emu_operation I_EOR s = emu_EOR s"
| "emu_operation I_INC s = emu_INC s"
| "emu_operation I_INX s = emu_INX s"
| "emu_operation I_INY s = emu_INY s"
| "emu_operation I_JMP s = emu_JMP s"
| "emu_operation I_JSR s = emu_JSR s"
| "emu_operation I_LDA s = emu_LDA s"
| "emu_operation I_LDX s = emu_LDX s"
| "emu_operation I_LDY s = emu_LDY s"
| "emu_operation I_LSR s = emu_LSR s"
| "emu_operation I_NOP s = emu_NOP s"
| "emu_operation I_ORA s = emu_ORA s"
| "emu_operation I_PHA s = emu_PHA s"
| "emu_operation I_PHP s = emu_PHP s"
| "emu_operation I_PLA s = emu_PLA s"
| "emu_operation I_PLP s = emu_PLP s"
| "emu_operation I_ROL s = emu_ROL s"
| "emu_operation I_ROR s = emu_ROR s"
| "emu_operation I_RTI s = emu_RTI s"
| "emu_operation I_RTS s = emu_RTS s"
| "emu_operation I_SBC s = emu_SBC s"
| "emu_operation I_SEC s = emu_SEC s"
| "emu_operation I_SED s = emu_SED s"
| "emu_operation I_SEI s = emu_SEI s"
| "emu_operation I_STA s = emu_STA s"
| "emu_operation I_STX s = emu_STX s"
| "emu_operation I_STY s = emu_STY s"
| "emu_operation I_TAX s = emu_TAX s"
| "emu_operation I_TAY s = emu_TAY s"
| "emu_operation I_TSX s = emu_TSX s"
| "emu_operation I_TXA s = emu_TXA s"
| "emu_operation I_TXS s = emu_TXS s"
| "emu_operation I_TYA s = emu_TYA s"

text \<open>\<open>CPU6502.clock()\<close>.\<close>

definition emu_cpu_clock :: "emu_bus \<Rightarrow> emu_bus res" where
  "emu_cpu_clock s =
     bnd (if cpu_cycles (bus_cpu s) = 0 then
            bnd (emu_bus_cpu_read s (cpu_pc (bus_cpu s))) (\<lambda>(opc, s1).
            let s2 = cpu_upd (\<lambda>c. c\<lparr>cpu_opcode := opc, cpu_pc := (cpu_pc c + 1) AND 0xFFFF\<rparr>) s1 in
            bnd (emu_lookup (cpu_opcode (bus_cpu s2))) (\<lambda>(addr_mode, operation, cycles).
            let s3 = cpu_upd (\<lambda>c. c\<lparr>cpu_cycles := cycles\<rparr>) s2 in
            bnd (emu_addr_mode addr_mode s3) (\<lambda>(additional_cycle1, s4).
            bnd (emu_operation operation s4) (\<lambda>(additional_cycle2, s5).
              Inr (cpu_upd (\<lambda>c. c\<lparr>cpu_cycles :=
                     cpu_cycles c + (additional_cycle1 AND additional_cycle2)\<rparr>) s5)))))
          else Inr s)
       (\<lambda>s6. Inr (cpu_upd (\<lambda>c. c\<lparr>cpu_cycles := cpu_cycles c - 1\<rparr>) s6))"

section \<open>EMUNES5.23.251.0A.py: the PPU clock and the bus clock\<close>

definition emu_palette :: "int list" where
  "emu_palette = [
    0x666666, 0x002A88, 0x1412A7, 0x3B00A4, 0x5C007E, 0x6E0040, 0x6C0600, 0x561D00,
    0x333500, 0x0B4800, 0x005200, 0x004F08, 0x00404D, 0x000000, 0x000000, 0x000000,
    0xADADAD, 0x155FD9, 0x4240FF, 0x7527FE, 0xA01ACC, 0xB71E7B, 0xB53120, 0x994E00,
    0x6B6D00, 0x388700, 0x0C9300, 0x008F32, 0x007C8D, 0x000000, 0x000000, 0x000000,
    0xFFFEFF, 0x64B0FF, 0x9290FF, 0xC676FF, 0xF36AFF, 0xFE6ECC, 0xFE8170, 0xEA9E22,
    0xBCBE00, 0x88D800, 0x5CE430, 0x45E082, 0x48CDDE, 0x4F4F4F, 0x000000, 0x000000,
    0xFFFEFF, 0xC0DFFF, 0xD3D2FF, 0xE8C8FF, 0xFBC2FF, 0xFEC4EA, 0xFECCC5, 0xF7D8A5,
    0xE4E594, 0xCFEF96, 0xBDF4AB, 0xB3F3CC, 0xB5EBF2, 0xB8B8B8, 0x000000, 0x000000]"

definition rendering_enabled :: "emu_ppu \<Rightarrow> bool" where
  "rendering_enabled p = ((ppumask p AND 0x18) \<noteq> 0)"

definition increment_scroll_x :: "emu_ppu \<Rightarrow> emu_ppu" where
  "increment_scroll_x p =
     (if rendering_enabled p then
        (if (ppu_v p AND 0x001F) = 31
         then p\<lparr>ppu_v := (ppu_v p AND NOT 0x001F) XOR 0x0400\<rparr>
         else p\<lparr>ppu_v := ppu_v p + 1\<rparr>)
      else p)"

definition increment_scroll_y :: "emu_ppu \<Rightarrow> emu_ppu" where
  "increment_scroll_y p =
     (if rendering_enabled p then
        (if (ppu_v p AND 0x7000) \<noteq> 0x7000 then p\<lparr>ppu_v := ppu_v p + 0x1000\<rparr>
         else
           let v1 = ppu_v p AND NOT 0x7000;
               y = drop_bit 5 (v1 AND 0x03E0);
               v2 = (if y = 29 then v1 XOR 0x0800 else v1);
               y' = (if y = 29 then 0 else if y = 31 then 0 else y + 1)
           in p\<lparr>ppu_v := (v2 AND NOT 0x03E0) OR (push_bit 5 y')\<rparr>)
      else p)"

definition transfer_address_x :: "emu_ppu \<Rightarrow> emu_ppu" where
  "transfer_address_x p =
     (if rendering_enabled p
      then p\<lparr>ppu_v := (ppu_v p AND NOT 0x041F) OR (ppu_t p AND 0x041F)\<rparr> else p)"

definition transfer_address_y :: "emu_ppu \<Rightarrow> emu_ppu" where
  "transfer_address_y p =
     (if rendering_enabled p
      then p\<lparr>ppu_v := (ppu_v p AND NOT 0x7BE0) OR (ppu_t p AND 0x7BE0)\<rparr> else p)"

definition load_background_shifters :: "emu_ppu \<Rightarrow> emu_ppu" where
  "load_background_shifters p =
     p\<lparr>bg_shifter_pattern_lo := (bg_shifter_pattern_lo p AND 0xFF00) OR bg_next_tile_lsb p,
       bg_shifter_pattern_hi := (bg_shifter_pattern_hi p AND 0xFF00) OR bg_next_tile_msb p,
       bg_shifter_attrib_lo := (bg_shifter_attrib_lo p AND 0xFF00)
                                 OR (if (bg_next_tile_attrib p AND 1) \<noteq> 0 then 0xFF else 0),
       bg_shifter_attrib_hi := (bg_shifter_attrib_hi p AND 0xFF00)
                                 OR (if (bg_next_tile_attrib p AND 2) \<noteq> 0 then 0xFF else 0)\<rparr>"

definition update_shifters :: "emu_ppu \<Rightarrow> emu_ppu" where
  "update_shifters p =
     (if (ppumask p AND 0x08) \<noteq> 0 then
        p\<lparr>bg_shifter_pattern_lo := push_bit 1 (bg_shifter_pattern_lo p),
          bg_shifter_pattern_hi := push_bit 1 (bg_shifter_pattern_hi p),
          bg_shifter_attrib_lo := push_bit 1 (bg_shifter_attrib_lo p),
          bg_shifter_attrib_hi := push_bit 1 (bg_shifter_attrib_hi p)\<rparr>
      else p)"

text \<open>
  \<open>PPU2C02.clock()\<close>, in the order the method is written. First the background fetches
  of a visible scanline (the block under \<open>2 <= cycle <= 257 or 321 <= cycle <= 336\<close>).
\<close>

definition emu_bg_fetch :: "emu_bus \<Rightarrow> emu_bus res" where
  "emu_bg_fetch s0 =
     (let s = ppu_upd update_shifters s0;
          cycle_phase = (cycle (bus_ppu s) - 1) mod 8;
          v = ppu_v (bus_ppu s)
      in
      if cycle_phase = 0 then
        (let s1 = ppu_upd load_background_shifters s in
         bnd (emu_bus_ppu_read s1 (0x2000 OR (v AND 0x0FFF))) (\<lambda>d.
           Inr (ppu_upd (\<lambda>p. p\<lparr>bg_next_tile_id := d\<rparr>) s1)))
      else if cycle_phase = 2 then
        bnd (emu_bus_ppu_read s (0x23C0 OR (v AND 0x0C00) OR ((drop_bit 4 v) AND 0x38)
                                   OR ((drop_bit 2 v) AND 0x07))) (\<lambda>attr_byte.
          let a1 = (if (v AND 0x0040) \<noteq> 0 then drop_bit 4 attr_byte else attr_byte);
              a2 = (if (v AND 0x0002) \<noteq> 0 then drop_bit 2 a1 else a1)
          in Inr (ppu_upd (\<lambda>p. p\<lparr>bg_next_tile_attrib := a2 AND 0x03\<rparr>) s))
      else if cycle_phase = 4 then
        bnd (emu_bus_ppu_read s ((push_bit 8 (ppuctrl (bus_ppu s) AND 0x10))
               + (push_bit 4 (bg_next_tile_id (bus_ppu s))) + ((drop_bit 12 v) AND 0x07))) (\<lambda>d.
          Inr (ppu_upd (\<lambda>p. p\<lparr>bg_next_tile_lsb := d\<rparr>) s))
      else if cycle_phase = 6 then
        bnd (emu_bus_ppu_read s ((push_bit 8 (ppuctrl (bus_ppu s) AND 0x10))
               + (push_bit 4 (bg_next_tile_id (bus_ppu s))) + ((drop_bit 12 v) AND 0x07) + 8)) (\<lambda>d.
          Inr (ppu_upd (\<lambda>p. p\<lparr>bg_next_tile_msb := d\<rparr>) s))
      else if cycle_phase = 7 then Inr (ppu_upd increment_scroll_x s)
      else Inr s)"

text \<open>
  The pixel of cycles 1 to 256. The comparisons \<open>(shifter & bit_mux) > 0\<close> are Python
  booleans, which count as 0 and 1 under \<open><<\<close> and \<open>|\<close>.
\<close>

definition emu_render_pixel :: "emu_bus \<Rightarrow> emu_bus res" where
  "emu_render_pixel s =
     (let p = bus_ppu s in
      bnd (if (ppumask p AND 0x08) \<noteq> 0 then
             (if ppu_x p < 0 then Inl ValueError
              else
                let bit_mux = drop_bit (nat (ppu_x p)) (0x8000 :: int);
                    p0_pixel = (if (bg_shifter_pattern_lo p AND bit_mux) > 0 then 1 else 0);
                    p1_pixel = (if (bg_shifter_pattern_hi p AND bit_mux) > 0 then 1 else 0);
                    bg_pal0 = (if (bg_shifter_attrib_lo p AND bit_mux) > 0 then 1 else 0);
                    bg_pal1 = (if (bg_shifter_attrib_hi p AND bit_mux) > 0 then 1 else 0)
                in Inr ((push_bit 1 p1_pixel) OR p0_pixel, (push_bit 1 bg_pal1) OR (bg_pal0 :: int)))
           else Inr (0x00, 0x00))
        (\<lambda>(bg_pixel, bg_palette).
      bnd (emu_bus_ppu_read s (0x3F00 + (push_bit 2 bg_palette) + bg_pixel)) (\<lambda>d.
      bnd (py_get emu_palette (d AND 0x3F)) (\<lambda>rgb.
      bnd (py_get (screen p) (scanline p)) (\<lambda>row.
        case py_index (length row) (cycle p - 1) of
          None \<Rightarrow> Inl IndexError
        | Some k \<Rightarrow>
            (case py_index (length (screen p)) (scanline p) of
               None \<Rightarrow> Inl IndexError
             | Some j \<Rightarrow> Inr (ppu_upd (\<lambda>p. p\<lparr>screen := (screen p)[j := row[k := rgb]]\<rparr>) s)))))))"

definition emu_visible_scanline :: "emu_bus \<Rightarrow> emu_bus res" where
  "emu_visible_scanline s0 =
     (let s1 = (if scanline (bus_ppu s0) = 0 \<and> cycle (bus_ppu s0) = 0
                then ppu_upd (\<lambda>p. p\<lparr>cycle := 1\<rparr>) s0 else s0);
          cyc = cycle (bus_ppu s1)
      in
      bnd (if (2 \<le> cyc \<and> cyc \<le> 257) \<or> (321 \<le> cyc \<and> cyc \<le> 336) then emu_bg_fetch s1
           else Inr s1) (\<lambda>s2.
      let s3 = (if cyc = 256 then ppu_upd increment_scroll_y s2 else s2);
          s4 = (if cyc = 257 then ppu_upd (\<lambda>p. transfer_address_x (load_background_shifters p)) s3
                else s3)
      in
      bnd (if cyc = 338 \<or> cyc = 340 then
             bnd (emu_bus_ppu_read s4 (0x2000 OR (ppu_v (bus_ppu s4) AND 0x0FFF))) (\<lambda>d.
               Inr (ppu_upd (\<lambda>p. p\<lparr>bg_next_tile_id := d\<rparr>) s4))
           else Inr s4) (\<lambda>s5.
      if 1 \<le> cyc \<and> cyc \<le> 256 then emu_render_pixel s5 else Inr s5)))"

definition emu_vblank_scanline :: "emu_bus \<Rightarrow> emu_bus res" where
  "emu_vblank_scanline s =
     (if scanline (bus_ppu s) = 241 \<and> cycle (bus_ppu s) = 1 then
        (let s1 = ppu_upd (\<lambda>p. p\<lparr>ppustatus := ppustatus p OR 0x80\<rparr>) s in
         if (ppuctrl (bus_ppu s1) AND 0x80) \<noteq> 0 then emu_non_maskable_interrupt s1
         else Inr s1)
      else Inr s)"

definition emu_prerender_scanline :: "emu_ppu \<Rightarrow> emu_ppu" where
  "emu_prerender_scanline p0 =
     (let p1 = (if cycle p0 = 1 then p0\<lparr>ppustatus := ppustatus p0 AND NOT 0xE0\<rparr> else p0);
          p2 = (if 280 \<le> cycle p1 \<and> cycle p1 \<le> 304 then transfer_address_y p1 else p1)
      in if cycle p2 = 339 \<and> ppu_f p2 \<noteq> 0 then p2\<lparr>cycle := 340\<rparr> else p2)"

text \<open>The sprite-zero placeholder that follows the scanline cases.\<close>

definition emu_sprite_zero :: "emu_ppu \<Rightarrow> emu_ppu res" where
  "emu_sprite_zero p =
     (if (ppumask p AND 0x18) \<noteq> 0 \<and> scanline p < 240 then
        bnd (py_get (oam p) 0) (\<lambda>o0.
          if o0 \<le> scanline p \<and> scanline p < o0 + 8 then
            bnd (py_get (oam p) 3) (\<lambda>o3.
              if o3 \<le> cycle p - 1 \<and> cycle p - 1 < o3 + 8 then
                (if (ppumask p AND 0x18) = 0x18 then
                   (if \<not> ((ppumask p AND 0x06) = 0 \<and> cycle p < 9)
                    then Inr (p\<lparr>ppustatus := ppustatus p OR 0x40\<rparr>) else Inr p)
                 else Inr p)
              else Inr p)
          else Inr p)
      else Inr p)"

definition emu_advance :: "emu_ppu \<Rightarrow> emu_ppu" where
  "emu_advance p0 =
     (let p1 = p0\<lparr>cycle := cycle p0 + 1\<rparr> in
      if cycle p1 > 340 then
        (let p2 = p1\<lparr>cycle := 0, scanline := scanline p1 + 1\<rparr> in
         if scanline p2 > 261
         then p2\<lparr>scanline := 0, frame_complete := True, ppu_f := ppu_f p2 XOR 1\<rparr>
         else p2)
      else p1)"

definition emu_ppu_clock :: "emu_bus \<Rightarrow> emu_bus res" where
  "emu_ppu_clock s =
     bnd (let sl = scanline (bus_ppu s) in
          if 0 \<le> sl \<and> sl \<le> 239 then emu_visible_scanline s
          else if sl = 240 then Inr s
          else if 241 \<le> sl \<and> sl \<le> 260 then emu_vblank_scanline s
          else if sl = 261 then Inr (ppu_upd emu_prerender_scanline s)
          else Inr s) (\<lambda>s1.
     bnd (emu_sprite_zero (bus_ppu s1)) (\<lambda>p.
       Inr (s1\<lparr>bus_ppu := emu_advance p\<rparr>)))"


text \<open>
  \<open>n\<close> calls of \<open>PPU2C02.clock()\<close> in a row, stopping at the first exception. The count
  is of the calls that raised \<open>frame_complete\<close>; the flag is lowered before each call,
  as \<open>run_emulation\<close> lowers it after each frame.
\<close>

fun emu_ppu_run :: "nat \<Rightarrow> emu_bus \<Rightarrow> (nat \<times> emu_bus) res" where
  "emu_ppu_run 0 s = Inr (0, s)"
| "emu_ppu_run (Suc n) s =
     bnd (emu_ppu_clock (ppu_upd (\<lambda>p. p\<lparr>frame_complete := False\<rparr>) s)) (\<lambda>s1.
     bnd (emu_ppu_run n s1) (\<lambda>(k, s2).
       Inr ((if frame_complete (bus_ppu s1) then Suc k else k), s2)))"

section \<open>MonikaNES.py: ROM, cartridge and PPU bus\<close>

record mon_rom =
  m_prg_rom_size :: int
  m_chr_rom_size :: int
  m_mapper :: int
  m_mirror_mode :: int
  m_prg_rom_start :: int
  m_prg_rom :: "int list"
  m_chr_rom :: "int list"
  m_chr_ram :: "int list option"

text \<open>
  \<open>NESRom.__init__(data)\<close>: no magic check here; \<open>chr_ram\<close> is only assigned when the CHR
  slice is empty (\<open>None\<close> stands for the attribute that was never set).
\<close>

definition mon_NESRom :: "int list \<Rightarrow> mon_rom res" where
  "mon_NESRom data =
     (let header = py_slice data 0 16 in
        bnd (py_get header 4) (\<lambda>h4.
        bnd (py_get header 5) (\<lambda>h5.
        bnd (py_get header 7) (\<lambda>h7.
        bnd (py_get header 6) (\<lambda>h6.
          let prg_size = h4 * 16384;
              chr_size = h5 * 8192;
              prg_start = (if (h6 AND 0x04) \<noteq> 0 then 16 + 512 else 16);
              chr = py_slice data (prg_start + prg_size) (prg_start + prg_size + chr_size)
          in Inr \<lparr> m_prg_rom_size = prg_size,
                   m_chr_rom_size = chr_size,
                   m_mapper = (push_bit 4 (drop_bit 4 h7)) OR (drop_bit 4 h6),
                   m_mirror_mode = h6 AND 0x01,
                   m_prg_rom_start = prg_start,
                   m_prg_rom = py_slice data prg_start (prg_start + prg_size),
                   m_chr_rom = chr,
                   m_chr_ram = (if chr = [] then Some (replicate 8192 0) else None) \<rparr>)))))"

definition mon_read_prg :: "mon_rom \<Rightarrow> int \<Rightarrow> int res" where
  "mon_read_prg rom addr =
     (if m_prg_rom_size rom = 16384 then py_get (m_prg_rom rom) (addr mod 16384)
      else if m_prg_rom_size rom = 32768 then py_get (m_prg_rom rom) (addr mod 32768)
      else Inr 0)"

definition mon_read_chr :: "mon_rom \<Rightarrow> int \<Rightarrow> int res" where
  "mon_read_chr rom addr =
     (if m_chr_rom_size rom > 0 then py_get (m_chr_rom rom) addr
      else (case m_chr_ram rom of
              None \<Rightarrow> Inl AttributeError
            | Some ram \<Rightarrow> py_get ram addr))"

definition mon_write_chr :: "mon_rom \<Rightarrow> int \<Rightarrow> int \<Rightarrow> mon_rom res" where
  "mon_write_chr rom addr data =
     (if m_chr_rom_size rom = 0 then
        (case m_chr_ram rom of
           None \<Rightarrow> Inl AttributeError
         | Some ram \<Rightarrow> bnd (py_set_byte ram addr data)
                         (\<lambda>ram'. Inr (rom\<lparr>m_chr_ram := Some ram'\<rparr>)))
      else Inr rom)"

text \<open>
  \<open>Cartridge\<close>: the read methods return 0 for what they do not decode, and the write
  methods return nothing, so the bus never takes a write as handled.
\<close>

definition mon_cart_cpu_read :: "mon_rom \<Rightarrow> int \<Rightarrow> int res" where
  "mon_cart_cpu_read rom addr =
     (if 0x6000 \<le> addr \<and> addr \<le> 0x7FFF then Inr 0
      else if 0x8000 \<le> addr \<and> addr \<le> 0xFFFF then mon_read_prg rom (addr - 0x8000)
      else Inr 0)"

definition mon_cart_ppu_read :: "mon_rom \<Rightarrow> int \<Rightarrow> int res" where
  "mon_cart_ppu_read rom addr =
     (if 0x0000 \<le> addr \<and> addr \<le> 0x1FFF then mon_read_chr rom addr else Inr 0)"

definition mon_cart_ppu_write :: "mon_rom \<Rightarrow> int \<Rightarrow> int \<Rightarrow> mon_rom res" where
  "mon_cart_ppu_write rom addr data =
     (if 0x0000 \<le> addr \<and> addr \<le> 0x1FFF then mon_write_chr rom addr data else Inr rom)"

record mon_ppu =
  m_PPUCTRL :: int
  m_PPUMASK :: int
  m_PPUSTATUS :: int
  m_OAMADDR :: int
  m_vram_addr :: int
  m_temp_vram_addr :: int
  m_fine_x :: int
  m_address_latch :: int
  m_buffer_data :: int
  m_oam :: "int list"
  m_oam_data :: int
  m_vram :: "int list"
  m_palette_ram :: "int list"
  m_scanline :: int
  m_cycle :: int
  m_frame_complete :: bool
  m_nmi_triggered :: bool
  m_pixel_buffer :: "string list list"

record mon_cpu =
  mc_a :: int
  mc_x :: int
  mc_y :: int
  mc_stkp :: int
  mc_pc :: int
  mc_status :: int
  mc_fetched :: int
  mc_addr_abs :: int
  mc_addr_rel :: int
  mc_opcode :: int
  mc_cycles :: int
  mc_dma_page :: int
  mc_dma_addr :: int
  mc_dma_data :: int
  mc_dma_transfer :: bool
  mc_dma_dummy :: bool
  mc_illegal_opcodes :: "(int \<times> int) list"

record mon_bus =
  mbus_cpu :: mon_cpu
  mbus_ppu :: mon_ppu
  mbus_cart :: "mon_rom option"
  mbus_cpu_ram :: "int list"
  mbus_system_clock_counter :: int

definition mon_ppu_init :: mon_ppu where
  "mon_ppu_init = \<lparr> m_PPUCTRL = 0, m_PPUMASK = 0, m_PPUSTATUS = 0, m_OAMADDR = 0,
     m_vram_addr = 0, m_temp_vram_addr = 0, m_fine_x = 0, m_address_latch = 0,
     m_buffer_data = 0, m_oam = replicate 256 0, m_oam_data = 0,
     m_vram = replicate 4096 0, m_palette_ram = replicate 32 0,
     m_scanline = 0, m_cycle = 0, m_frame_complete = False, m_nmi_triggered = False,
     m_pixel_buffer = replicate NES_HEIGHT (replicate NES_WIDTH ''#000000'') \<rparr>"

definition mon_cpu_init :: mon_cpu where
  "mon_cpu_init = \<lparr> mc_a = 0, mc_x = 0, mc_y = 0, mc_stkp = 0xFD, mc_pc = 0, mc_status = 0,
     mc_fetched = 0, mc_addr_abs = 0, mc_addr_rel = 0, mc_opcode = 0, mc_cycles = 0,
     mc_dma_page = 0, mc_dma_addr = 0, mc_dma_data = 0, mc_dma_transfer = False,
     mc_dma_dummy = True, mc_illegal_opcodes = [] \<rparr>"

definition mon_bus_init :: mon_bus where
  "mon_bus_init = \<lparr> mbus_cpu = mon_cpu_init, mbus_ppu = mon_ppu_init, mbus_cart = None,
     mbus_cpu_ram = replicate 2048 0, mbus_system_clock_counter = 0 \<rparr>"

text \<open>The palette index both bus methods compute: seven entries fold onto entry 0.\<close>

definition mon_actual_addr :: "int \<Rightarrow> int" where
  "mon_actual_addr addr =
     (let actual_addr = addr AND 0x1F in
      if actual_addr = 0x04 \<or> actual_addr = 0x08 \<or> actual_addr = 0x0C \<or> actual_addr = 0x10
         \<or> actual_addr = 0x14 \<or> actual_addr = 0x18 \<or> actual_addr = 0x1C
      then 0x00 else actual_addr)"

text \<open>\<open>Bus.ppu_write(addr, data)\<close>: the address is not masked.\<close>

definition mon_bus_ppu_write :: "mon_bus \<Rightarrow> int \<Rightarrow> int \<Rightarrow> mon_bus res" where
  "mon_bus_ppu_write s addr data =
     bnd (case mbus_cart s of
            None \<Rightarrow> Inr s
          | Some rom \<Rightarrow> bnd (mon_cart_ppu_write rom addr data)
                          (\<lambda>rom'. Inr (s\<lparr>mbus_cart := Some rom'\<rparr>)))
       (\<lambda>s1.
          if 0x2000 \<le> addr \<and> addr \<le> 0x3EFF then
            bnd (py_set_byte (m_vram (mbus_ppu s1)) (addr AND 0x0FFF) data)
              (\<lambda>vr. Inr (s1\<lparr>mbus_ppu := (mbus_ppu s1)\<lparr>m_vram := vr\<rparr>\<rparr>))
          else if 0x3F00 \<le> addr \<and> addr \<le> 0x3FFF then
            bnd (py_set_byte (m_palette_ram (mbus_ppu s1)) (mon_actual_addr addr) (data AND 0x3F))
              (\<lambda>pr. Inr (s1\<lparr>mbus_ppu := (mbus_ppu s1)\<lparr>m_palette_ram := pr\<rparr>\<rparr>))
          else Inr s1)"

text \<open>\<open>Bus.ppu_read(addr)\<close>.\<close>

definition mon_bus_ppu_read :: "mon_bus \<Rightarrow> int \<Rightarrow> int res" where
  "mon_bus_ppu_read s addr =
     bnd (case mbus_cart s of
            None \<Rightarrow> Inr 0
          | Some rom \<Rightarrow> mon_cart_ppu_read rom addr)
       (\<lambda>data.
          if 0x2000 \<le> addr \<and> addr \<le> 0x3EFF then py_get (m_vram (mbus_ppu s)) (addr AND 0x0FFF)
          else if 0x3F00 \<le> addr \<and> addr \<le> 0x3FFF then
            bnd (py_get (m_palette_ram (mbus_ppu s)) (mon_actual_addr addr))
              (\<lambda>d. Inr (d AND 0x3F))
          else Inr data)"

section \<open>MonikaNES.py: PPU registers, CPU bus and the 6502 core\<close>

definition mppu_upd :: "(mon_ppu \<Rightarrow> mon_ppu) \<Rightarrow> mon_bus \<Rightarrow> mon_bus" where
  "mppu_upd g s = s\<lparr>mbus_ppu := g (mbus_ppu s)\<rparr>"

definition mcpu_upd :: "(mon_cpu \<Rightarrow> mon_cpu) \<Rightarrow> mon_bus \<Rightarrow> mon_bus" where
  "mcpu_upd g s = s\<lparr>mbus_cpu := g (mbus_cpu s)\<rparr>"

text \<open>The address step that ends both PPUDATA paths, by 32 or by 1 after bit 2 of PPUCTRL.\<close>

definition mon_vram_increment :: "mon_ppu \<Rightarrow> mon_ppu" where
  "mon_vram_increment p =
     (if (drop_bit 2 (m_PPUCTRL p)) AND 1 \<noteq> 0
      then p\<lparr>m_vram_addr := (m_vram_addr p + 32) AND 0x3FFF\<rparr>
      else p\<lparr>m_vram_addr := (m_vram_addr p + 1) AND 0x3FFF\<rparr>)"

text \<open>\<open>PPU2C02.cpu_write(addr, data)\<close>.\<close>

definition mon_ppu_cpu_write :: "mon_bus \<Rightarrow> int \<Rightarrow> int \<Rightarrow> mon_bus res" where
  "mon_ppu_cpu_write s addr data =
     (let p = mbus_ppu s in
      if addr = 0x2000 then
        Inr (mppu_upd (\<lambda>p. p\<lparr>m_PPUCTRL := data,
               m_temp_vram_addr := (m_temp_vram_addr p AND 0xF3FF) OR (push_bit 10 (data AND 0x03))\<rparr>) s)
      else if addr = 0x2001 then Inr (mppu_upd (\<lambda>p. p\<lparr>m_PPUMASK := data\<rparr>) s)
      else if addr = 0x2003 then Inr (mppu_upd (\<lambda>p. p\<lparr>m_OAMADDR := data\<rparr>) s)
      else if addr = 0x2004 then
        bnd (py_set_byte (m_oam p) (m_OAMADDR p) data) (\<lambda>om.
          Inr (mppu_upd (\<lambda>p. p\<lparr>m_oam := om, m_OAMADDR := (m_OAMADDR p + 1) AND 0xFF\<rparr>) s))
      else if addr = 0x2005 then
        (if m_address_latch p = 0 then
           Inr (mppu_upd (\<lambda>p. p\<lparr>m_fine_x := data AND 0x07,
                  m_temp_vram_addr := (m_temp_vram_addr p AND 0xFFE0) OR ((drop_bit 3 data) AND 0x1F),
                  m_address_latch := 1\<rparr>) s)
         else
           Inr (mppu_upd (\<lambda>p. p\<lparr>m_temp_vram_addr :=
                  (((m_temp_vram_addr p AND 0x8FFF) OR (push_bit 12 (data AND 0x07))) AND 0xFC1F)
                    OR (push_bit 5 ((drop_bit 3 data) AND 0x1F)),
                  m_address_latch := 0\<rparr>) s))
      else if addr = 0x2006 then
        (if m_address_latch p = 0 then
           Inr (mppu_upd (\<lambda>p. p\<lparr>m_temp_vram_addr :=
                  (m_temp_vram_addr p AND 0x00FF) OR (push_bit 8 (data AND 0x3F)),
                  m_address_latch := 1\<rparr>) s)
         else
           Inr (mppu_upd (\<lambda>p. p\<lparr>m_temp_vram_addr := (m_temp_vram_addr p AND 0xFF00) OR data,
                  m_vram_addr := (m_temp_vram_addr p AND 0xFF00) OR data,
                  m_address_latch := 0\<rparr>) s))
      else if addr = 0x2007 then
        bnd (mon_bus_ppu_write s (m_vram_addr p) data) (\<lambda>s1. Inr (mppu_upd mon_vram_increment s1))
      else Inr s)"

text \<open>\<open>PPU2C02.cpu_read(addr)\<close>.\<close>

definition mon_ppu_cpu_read :: "mon_bus \<Rightarrow> int \<Rightarrow> (int \<times> mon_bus) res" where
  "mon_ppu_cpu_read s addr =
     (let p = mbus_ppu s in
      if addr = 0x2002 then
        Inr ((m_PPUSTATUS p AND 0xE0) OR (m_buffer_data p AND 0x1F),
             mppu_upd (\<lambda>p. p\<lparr>m_PPUSTATUS := m_PPUSTATUS p AND 0x7F, m_address_latch := 0,
                                m_nmi_triggered := False\<rparr>) s)
      else if addr = 0x2004 then
        bnd (py_get (m_oam p) (m_OAMADDR p)) (\<lambda>d. Inr (d, s))
      else if addr = 0x2007 then
        (if (m_vram_addr p AND 0x3F00) = 0x3F00 then
           bnd (mon_bus_ppu_read s (m_vram_addr p)) (\<lambda>direct.
           bnd (if m_vram_addr p \<ge> 0x3000 then mon_bus_ppu_read s (m_vram_addr p - 0x1000)
                else Inr 0x00) (\<lambda>buf.
             Inr (direct, mppu_upd (\<lambda>p. mon_vram_increment (p\<lparr>m_buffer_data := buf\<rparr>)) s)))
         else
           bnd (mon_bus_ppu_read s (m_vram_addr p)) (\<lambda>fresh.
             Inr (m_buffer_data p,
                  mppu_upd (\<lambda>p. mon_vram_increment (p\<lparr>m_buffer_data := fresh\<rparr>)) s)))
      else Inr (0x00, s))"

text \<open>\<open>Bus.cpu_write(addr, data)\<close> and \<open>Bus.cpu_read(addr)\<close>: no masking of the address.\<close>

definition mon_bus_cpu_write :: "mon_bus \<Rightarrow> int \<Rightarrow> int \<Rightarrow> mon_bus res" where
  "mon_bus_cpu_write s addr data =
     (if 0x0000 \<le> addr \<and> addr \<le> 0x1FFF then
        bnd (py_set_byte (mbus_cpu_ram s) (addr AND 0x07FF) data) (\<lambda>r. Inr (s\<lparr>mbus_cpu_ram := r\<rparr>))
      else if 0x2000 \<le> addr \<and> addr \<le> 0x3FFF then mon_ppu_cpu_write s (addr AND 0x2007) data
      else Inr s)"

definition mon_bus_cpu_read :: "mon_bus \<Rightarrow> int \<Rightarrow> (int \<times> mon_bus) res" where
  "mon_bus_cpu_read s addr =
     bnd (case mbus_cart s of None \<Rightarrow> Inr 0x00 | Some rom \<Rightarrow> mon_cart_cpu_read rom addr) (\<lambda>data.
       if 0x0000 \<le> addr \<and> addr \<le> 0x1FFF then
         bnd (py_get (mbus_cpu_ram s) (addr AND 0x07FF)) (\<lambda>d. Inr (d, s))
       else if 0x2000 \<le> addr \<and> addr \<le> 0x3FFF then mon_ppu_cpu_read s (addr AND 0x2007)
       else Inr (data, s))"

text \<open>The lookup list of \<open>CPU6502.__init__\<close>, which \<open>lookup_dict\<close> indexes by opcode.\<close>

definition mon_lookup :: "(int \<times> amode \<times> opn \<times> int) list" where
  "mon_lookup = [
    (0xEA, M_IMP, I_NOP, 2),
    (0xA9, M_IMM, I_LDA, 2), (0xA5, M_ZP0, I_LDA, 3), (0xB5, M_ZPX, I_LDA, 4),
    (0xAD, M_ABS, I_LDA, 4), (0xBD, M_ABX, I_LDA, 4), (0xB9, M_ABY, I_LDA, 4),
    (0xA1, M_IZX, I_LDA, 6), (0xB1, M_IZY, I_LDA, 5),
    (0x85, M_ZP0, I_STA, 3), (0x95, M_ZPX, I_STA, 4), (0x8D, M_ABS, I_STA, 4),
    (0x9D, M_ABX, I_STA, 5), (0x99, M_ABY, I_STA, 5), (0x81, M_IZX, I_STA, 6),
    (0x91, M_IZY, I_STA, 6),
    (0x4C, M_ABS, I_JMP, 3), (0x6C, M_IND, I_JMP, 5),
    (0x20, M_ABS, I_JSR, 6),
    (0x60, M_IMP, I_RTS, 6),
    (0xAA, M_IMP, I_TAX, 2), (0x8A, M_IMP, I_TXA, 2), (0xA8, M_IMP, I_TAY, 2),
    (0x98, M_IMP, I_TYA, 2), (0xBA, M_IMP, I_TSX, 2), (0x9A, M_IMP, I_TXS, 2),
    (0xE8, M_IMP, I_INX, 2), (0xCA, M_IMP, I_DEX, 2), (0xC8, M_IMP, I_INY, 2),
    (0x88, M_IMP, I_DEY, 2),
    (0xC9, M_IMM, I_CMP, 2), (0xC5, M_ZP0, I_CMP, 3), (0xD5, M_ZPX, I_CMP, 4),
    (0xCD, M_ABS, I_CMP, 4), (0xDD, M_ABX, I_CMP, 4), (0xD9, M_ABY, I_CMP, 4),
    (0xC1, M_IZX, I_CMP, 6), (0xD1, M_IZY, I_CMP, 5),
    (0xE0, M_IMM, I_CPX, 2), (0xE4, M_ZP0, I_CPX, 3), (0xEC, M_ABS, I_CPX, 4),
    (0xC0, M_IMM, I_CPY, 2), (0xC4, M_ZP0, I_CPY, 3), (0xCC, M_ABS, I_CPY, 4),
    (0x29, M_IMM, I_AND, 2), (0x25, M_ZP0, I_AND, 3), (0x35, M_ZPX, I_AND, 4),
    (0x2D, M_ABS, I_AND, 4), (0x3D, M_ABX, I_AND, 4), (0x39, M_ABY, I_AND, 4),
    (0x21, M_IZX, I_AND, 6), (0x31, M_IZY, I_AND, 5),
    (0x09, M_IMM, I_ORA, 2), (0x05, M_ZP0, I_ORA, 3), (0x15, M_ZPX, I_ORA, 4),
    (0x0D, M_ABS, I_ORA, 4), (0x1D, M_ABX, I_ORA, 4), (0x19, M_ABY, I_ORA, 4),
    (0x01, M_IZX, I_ORA, 6), (0x11, M_IZY, I_ORA, 5),
    (0x49, M_IMM, I_EOR, 2), (0x45, M_ZP0, I_EOR, 3), (0x55, M_ZPX, I_EOR, 4),
    (0x4D, M_ABS, I_EOR, 4), (0x5D, M_ABX, I_EOR, 4), (0x59, M_ABY, I_EOR, 4),
    (0x41, M_IZX, I_EOR, 6), (0x51, M_IZY, I_EOR, 5),
    (0x69, M_IMM, I_ADC, 2), (0x65, M_ZP0, I_ADC, 3), (0x75, M_ZPX, I_ADC, 4),
    (0x6D, M_ABS, I_ADC, 4), (0x7D, M_ABX, I_ADC, 4), (0x79, M_ABY, I_ADC, 4),
    (0x61, M_IZX, I_ADC, 6), (0x71, M_IZY, I_ADC, 5),
    (0xE9, M_IMM, I_SBC, 2), (0xE5, M_ZP0, I_SBC, 3), (0xF5, M_ZPX, I_SBC, 4),
    (0xED, M_ABS, I_SBC, 4), (0xFD, M_ABX, I_SBC, 4), (0xF9, M_ABY, I_SBC, 4),
    (0xE1, M_IZX, I_SBC, 6), (0xF1, M_IZY, I_SBC, 5),
    (0x0A, M_ACC, I_ASL, 2), (0x06, M_ZP0, I_ASL, 5), (0x16, M_ZPX, I_ASL, 6),
    (0x0E, M_ABS, I_ASL, 6), (0x1E, M_ABX, I_ASL, 7),
    (0x4A, M_ACC, I_LSR, 2), (0x46, M_ZP0, I_LSR, 5), (0x56, M_ZPX, I_LSR, 6),
    (0x4E, M_ABS, I_LSR, 6), (0x5E, M_ABX, I_LSR, 7),
    (0x2A, M_ACC, I_ROL, 2), (0x26, M_ZP0, I_ROL, 5), (0x36, M_ZPX, I_ROL, 6),
    (0x2E, M_ABS, I_ROL, 6), (0x3E, M_ABX, I_ROL, 7),
    (0x6A, M_ACC, I_ROR, 2), (0x66, M_ZP0, I_ROR, 5), (0x76, M_ZPX, I_ROR, 6),
    (0x6E, M_ABS, I_ROR, 6), (0x7E, M_ABX, I_ROR, 7),
    (0x24, M_ZP0, I_BIT, 3), (0x2C, M_ABS, I_BIT, 4),
    (0x10, M_REL, I_BPL, 2), (0x30, M_REL, I_BMI, 2),
    (0x50, M_REL, I_BVC, 2), (0x70, M_REL, I_BVS, 2),
    (0x90, M_REL, I_BCC, 2), (0xB0, M_REL, I_BCS, 2),
    (0xD0, M_REL, I_BNE, 2), (0xF0, M_REL, I_BEQ, 2),
    (0x00, M_IMP, I_BRK, 7),
    (0x40, M_IMP, I_RTI, 6),
    (0x48, M_IMP, I_PHA, 3),
    (0x68, M_IMP, I_PLA, 4),
    (0x08, M_IMP, I_PHP, 3),
    (0x28, M_IMP, I_PLP, 4),
    (0x18, M_IMP, I_CLC, 2),
    (0x38, M_IMP, I_SEC, 2),
    (0x58, M_IMP, I_CLI, 2),
    (0x78, M_IMP, I_SEI, 2),
    (0xB8, M_IMP, I_CLV, 2),
    (0xD8, M_IMP, I_CLD, 2),
    (0xF8, M_IMP, I_SED, 2)]"

text \<open>\<open>self.lookup_dict[opcode]\<close>: a missing key raises \<open>KeyError\<close>.\<close>

definition mon_lookup_dict :: "int \<Rightarrow> (amode \<times> opn \<times> int) res" where
  "mon_lookup_dict opcode =
     (case map_of mon_lookup opcode of None \<Rightarrow> Inl KeyError | Some e \<Rightarrow> Inr e)"

text \<open>\<open>get_flag\<close> answers 1 or 0 here.\<close>

definition mon_get_flag :: "mon_cpu \<Rightarrow> int \<Rightarrow> int" where
  "mon_get_flag c flag = (if (mc_status c AND flag) > 0 then 1 else 0)"

definition mon_set_flag :: "int \<Rightarrow> bool \<Rightarrow> mon_cpu \<Rightarrow> mon_cpu" where
  "mon_set_flag flag v c =
     c\<lparr>mc_status := (if v then mc_status c OR flag else mc_status c AND NOT flag)\<rparr>"

text \<open>\<open>Z\<close> from \<open>r == 0x00\<close> and \<open>N\<close> from \<open>(r & 0x80) > 0\<close>, the usual pair of calls.\<close>

definition mon_set_ZN :: "int \<Rightarrow> mon_cpu \<Rightarrow> mon_cpu" where
  "mon_set_ZN r c = mon_set_flag FLAG_N ((r AND 0x80) > 0) (mon_set_flag FLAG_Z (r = 0x00) c)"

text \<open>
  The stack is written inline everywhere: \<open>write(0x0100 + stkp, d); stkp -= 1\<close> and
  \<open>stkp += 1; read(0x0100 + stkp)\<close>, with no masking of \<open>stkp\<close>.
\<close>

definition mon_push :: "mon_bus \<Rightarrow> int \<Rightarrow> mon_bus res" where
  "mon_push s data =
     bnd (mon_bus_cpu_write s (0x0100 + mc_stkp (mbus_cpu s)) data) (\<lambda>s1.
       Inr (mcpu_upd (\<lambda>c. c\<lparr>mc_stkp := mc_stkp c - 1\<rparr>) s1))"

definition mon_pull :: "mon_bus \<Rightarrow> (int \<times> mon_bus) res" where
  "mon_pull s =
     (let s1 = mcpu_upd (\<lambda>c. c\<lparr>mc_stkp := mc_stkp c + 1\<rparr>) s
      in mon_bus_cpu_read s1 (0x0100 + mc_stkp (mbus_cpu s1)))"

text \<open>\<open>CPU6502.reset()\<close>.\<close>

definition mon_reset :: "mon_bus \<Rightarrow> mon_bus res" where
  "mon_reset s =
     (let s0 = mcpu_upd (\<lambda>c. c\<lparr>mc_addr_abs := 0xFFFC\<rparr>) s in
      bnd (mon_bus_cpu_read s0 (mc_addr_abs (mbus_cpu s0))) (\<lambda>(lo, s1).
      bnd (mon_bus_cpu_read s1 (mc_addr_abs (mbus_cpu s1) + 1)) (\<lambda>(hi, s2).
        Inr (mcpu_upd (\<lambda>c. c\<lparr>mc_pc := (push_bit 8 hi) OR lo,
               mc_a := 0x00, mc_x := 0x00, mc_y := 0x00, mc_stkp := 0xFD,
               mc_status := 0x00 OR FLAG_U OR FLAG_I,
               mc_addr_rel := 0x0000, mc_addr_abs := 0x0000, mc_fetched := 0x00,
               mc_cycles := 8, mc_illegal_opcodes := []\<rparr>) s2))))"

subsection \<open>Addressing modes\<close>

definition mon_IMP :: "mon_bus \<Rightarrow> (int \<times> mon_bus) res" where
  "mon_IMP s =
     Inr (0, mcpu_upd (\<lambda>c. c\<lparr>mc_fetched := mc_a c\<rparr>) s)"

definition mon_IMM :: "mon_bus \<Rightarrow> (int \<times> mon_bus) res" where
  "mon_IMM s =
     Inr (0, mcpu_upd (\<lambda>c. c\<lparr>mc_addr_abs := mc_pc c, mc_pc := mc_pc c + 1\<rparr>) s)"

definition mon_ZP0 :: "mon_bus \<Rightarrow> (int \<times> mon_bus) res" where
  "mon_ZP0 s =
     bnd (mon_bus_cpu_read s (mc_pc (mbus_cpu s))) (\<lambda>(d, s1).
       Inr (0, mcpu_upd (\<lambda>c. c\<lparr>mc_addr_abs := d AND 0x00FF, mc_pc := mc_pc c + 1\<rparr>) s1))"

definition mon_ZPX :: "mon_bus \<Rightarrow> (int \<times> mon_bus) res" where
  "mon_ZPX s =
     bnd (mon_bus_cpu_read s (mc_pc (mbus_cpu s))) (\<lambda>(d, s1).
       Inr (0, mcpu_upd (\<lambda>c. c\<lparr>mc_addr_abs := (d + mc_x c) AND 0x00FF, mc_pc := mc_pc c + 1\<rparr>) s1))"

definition mon_ZPY :: "mon_bus \<Rightarrow> (int \<times> mon_bus) res" where
  "mon_ZPY s =
     bnd (mon_bus_cpu_read s (mc_pc (mbus_cpu s))) (\<lambda>(d, s1).
       Inr (0, mcpu_upd (\<lambda>c. c\<lparr>mc_addr_abs := (d + mc_y c) AND 0x00FF, mc_pc := mc_pc c + 1\<rparr>) s1))"

definition mon_fetch_lo_hi :: "mon_bus \<Rightarrow> ((int \<times> int) \<times> mon_bus) res" where
  "mon_fetch_lo_hi s =
     bnd (mon_bus_cpu_read s (mc_pc (mbus_cpu s))) (\<lambda>(lo, s1).
       let s2 = mcpu_upd (\<lambda>c. c\<lparr>mc_pc := mc_pc c + 1\<rparr>) s1 in
       bnd (mon_bus_cpu_read s2 (mc_pc (mbus_cpu s2))) (\<lambda>(hi, s3).
         Inr ((lo, hi), mcpu_upd (\<lambda>c. c\<lparr>mc_pc := mc_pc c + 1\<rparr>) s3)))"

definition mon_ABS :: "mon_bus \<Rightarrow> (int \<times> mon_bus) res" where
  "mon_ABS s =
     bnd (mon_fetch_lo_hi s) (\<lambda>((lo, hi), s1).
       Inr (0, mcpu_upd (\<lambda>c. c\<lparr>mc_addr_abs := (push_bit 8 hi) OR lo\<rparr>) s1))"

definition mon_ABX :: "mon_bus \<Rightarrow> (int \<times> mon_bus) res" where
  "mon_ABX s =
     bnd (mon_fetch_lo_hi s) (\<lambda>((lo, hi), s1).
       let addr = ((push_bit 8 hi) OR lo) + mc_x (mbus_cpu s1) in
       Inr (if (addr AND 0xFF00) \<noteq> push_bit 8 hi then 1 else 0,
            mcpu_upd (\<lambda>c. c\<lparr>mc_addr_abs := addr\<rparr>) s1))"

definition mon_ABY :: "mon_bus \<Rightarrow> (int \<times> mon_bus) res" where
  "mon_ABY s =
     bnd (mon_fetch_lo_hi s) (\<lambda>((lo, hi), s1).
       let addr = ((push_bit 8 hi) OR lo) + mc_y (mbus_cpu s1) in
       Inr (if (addr AND 0xFF00) \<noteq> push_bit 8 hi then 1 else 0,
            mcpu_upd (\<lambda>c. c\<lparr>mc_addr_abs := addr\<rparr>) s1))"

definition mon_IND :: "mon_bus \<Rightarrow> (int \<times> mon_bus) res" where
  "mon_IND s =
     bnd (mon_fetch_lo_hi s) (\<lambda>((ptr_lo, ptr_hi), s1).
       let ptr = (push_bit 8 ptr_hi) OR ptr_lo in
       bnd (mon_bus_cpu_read s1 (if ptr_lo = 0x00FF then ptr AND 0xFF00 else ptr + 1)) (\<lambda>(hi, s2).
       bnd (mon_bus_cpu_read s2 ptr) (\<lambda>(lo, s3).
         Inr (0, mcpu_upd (\<lambda>c. c\<lparr>mc_addr_abs := (push_bit 8 hi) OR lo\<rparr>) s3))))"

definition mon_IZX :: "mon_bus \<Rightarrow> (int \<times> mon_bus) res" where
  "mon_IZX s =
     bnd (mon_bus_cpu_read s (mc_pc (mbus_cpu s))) (\<lambda>(t, s1).
       let s2 = mcpu_upd (\<lambda>c. c\<lparr>mc_pc := mc_pc c + 1\<rparr>) s1 in
       bnd (mon_bus_cpu_read s2 ((t + mc_x (mbus_cpu s2)) AND 0x00FF)) (\<lambda>(lo, s3).
       bnd (mon_bus_cpu_read s3 ((t + mc_x (mbus_cpu s3) + 1) AND 0x00FF)) (\<lambda>(hi, s4).
         Inr (0, mcpu_upd (\<lambda>c. c\<lparr>mc_addr_abs := (push_bit 8 hi) OR lo\<rparr>) s4))))"

definition mon_IZY :: "mon_bus \<Rightarrow> (int \<times> mon_bus) res" where
  "mon_IZY s =
     bnd (mon_bus_cpu_read s (mc_pc (mbus_cpu s))) (\<lambda>(t, s1).
       let s2 = mcpu_upd (\<lambda>c. c\<lparr>mc_pc := mc_pc c + 1\<rparr>) s1 in
       bnd (mon_bus_cpu_read s2 (t AND 0x00FF)) (\<lambda>(lo, s3).
       bnd (mon_bus_cpu_read s3 ((t + 1) AND 0x00FF)) (\<lambda>(hi, s4).
         let addr = ((push_bit 8 hi) OR lo) + mc_y (mbus_cpu s4) in
         Inr (if (addr AND 0xFF00) \<noteq> push_bit 8 hi then 1 else 0,
              mcpu_upd (\<lambda>c. c\<lparr>mc_addr_abs := addr\<rparr>) s4))))"

definition mon_REL :: "mon_bus \<Rightarrow> (int \<times> mon_bus) res" where
  "mon_REL s =
     bnd (mon_bus_cpu_read s (mc_pc (mbus_cpu s))) (\<lambda>(d, s1).
       Inr (0, mcpu_upd (\<lambda>c. c\<lparr>mc_addr_rel := (if (d AND 0x80) \<noteq> 0 then d OR 0xFF00 else d),
                               mc_pc := mc_pc c + 1\<rparr>) s1))"

fun mon_addr_mode :: "amode \<Rightarrow> mon_bus \<Rightarrow> (int \<times> mon_bus) res" where
  "mon_addr_mode M_IMP s = mon_IMP s"
| "mon_addr_mode M_ACC s = Inr (0, s)"
| "mon_addr_mode M_IMM s = mon_IMM s"
| "mon_addr_mode M_ZP0 s = mon_ZP0 s"
| "mon_addr_mode M_ZPX s = mon_ZPX s"
| "mon_addr_mode M_ZPY s = mon_ZPY s"
| "mon_addr_mode M_REL s = mon_REL s"
| "mon_addr_mode M_ABS s = mon_ABS s"
| "mon_addr_mode M_ABX s = mon_ABX s"
| "mon_addr_mode M_ABY s = mon_ABY s"
| "mon_addr_mode M_IND s = mon_IND s"
| "mon_addr_mode M_IZX s = mon_IZX s"
| "mon_addr_mode M_IZY s = mon_IZY s"

text \<open>
  \<open>self.lookup_dict[self.opcode][0]\<close>. \<open>clock\<close> keeps the opcode it reads in a local
  variable, so \<open>self.opcode\<close> is what \<open>__init__\<close> left there unless a caller sets it.
\<close>

definition mon_cur_mode :: "mon_bus \<Rightarrow> amode res" where
  "mon_cur_mode s = bnd (mon_lookup_dict (mc_opcode (mbus_cpu s))) (\<lambda>(m, _, _). Inr m)"

definition mon_fetch :: "mon_bus \<Rightarrow> (int \<times> mon_bus) res" where
  "mon_fetch s =
     bnd (mon_cur_mode s) (\<lambda>m.
       if m \<noteq> M_IMP \<and> m \<noteq> M_ACC then
         bnd (mon_bus_cpu_read s (mc_addr_abs (mbus_cpu s))) (\<lambda>(d, s1).
           Inr (d, mcpu_upd (\<lambda>c. c\<lparr>mc_fetched := d\<rparr>) s1))
       else Inr (mc_fetched (mbus_cpu s), s))"

subsection \<open>Operations\<close>

definition mon_LDA :: "mon_bus \<Rightarrow> (int \<times> mon_bus) res" where
  "mon_LDA s =
     bnd (mon_fetch s) (\<lambda>(fetched, s1).
       Inr (1, mcpu_upd (\<lambda>c. mon_set_ZN fetched (c\<lparr>mc_a := fetched\<rparr>)) s1))"

definition mon_STA :: "mon_bus \<Rightarrow> (int \<times> mon_bus) res" where
  "mon_STA s =
     bnd (mon_bus_cpu_write s (mc_addr_abs (mbus_cpu s)) (mc_a (mbus_cpu s))) (\<lambda>s1. Inr (0, s1))"

definition mon_JMP :: "mon_bus \<Rightarrow> (int \<times> mon_bus) res" where
  "mon_JMP s =
     Inr (0, mcpu_upd (\<lambda>c. c\<lparr>mc_pc := mc_addr_abs c\<rparr>) s)"

definition mon_JSR :: "mon_bus \<Rightarrow> (int \<times> mon_bus) res" where
  "mon_JSR s =
     (let s0 = mcpu_upd (\<lambda>c. c\<lparr>mc_pc := mc_pc c - 1\<rparr>) s in
      bnd (mon_push s0 ((drop_bit 8 (mc_pc (mbus_cpu s0))) AND 0x00FF)) (\<lambda>s1.
      bnd (mon_push s1 (mc_pc (mbus_cpu s1) AND 0x00FF)) (\<lambda>s2.
        Inr (0, mcpu_upd (\<lambda>c. c\<lparr>mc_pc := mc_addr_abs c\<rparr>) s2))))"

definition mon_RTS :: "mon_bus \<Rightarrow> (int \<times> mon_bus) res" where
  "mon_RTS s =
     bnd (mon_pull s) (\<lambda>(lo, s1).
     bnd (mon_pull s1) (\<lambda>(hi, s2).
       Inr (0, mcpu_upd (\<lambda>c. c\<lparr>mc_pc := ((push_bit 8 hi) OR lo) + 1\<rparr>) s2)))"

definition mon_NOP :: "mon_bus \<Rightarrow> (int \<times> mon_bus) res" where
  "mon_NOP s =
     (if mc_opcode (mbus_cpu s) \<in> set [0x1C, 0x3C, 0x5C, 0x7C, 0xDC, 0xFC]
      then bnd (mon_fetch s) (\<lambda>(_, s1). Inr (1, s1))
      else Inr (0, s))"

definition mon_TAX :: "mon_bus \<Rightarrow> (int \<times> mon_bus) res" where
  "mon_TAX s =
     Inr (0, mcpu_upd (\<lambda>c. mon_set_ZN (mc_a c) (c\<lparr>mc_x := mc_a c\<rparr>)) s)"

definition mon_TXA :: "mon_bus \<Rightarrow> (int \<times> mon_bus) res" where
  "mon_TXA s =
     Inr (0, mcpu_upd (\<lambda>c. mon_set_ZN (mc_x c) (c\<lparr>mc_a := mc_x c\<rparr>)) s)"

definition mon_TAY :: "mon_bus \<Rightarrow> (int \<times> mon_bus) res" where
  "mon_TAY s =
     Inr (0, mcpu_upd (\<lambda>c. mon_set_ZN (mc_a c) (c\<lparr>mc_y := mc_a c\<rparr>)) s)"

definition mon_TYA :: "mon_bus \<Rightarrow> (int \<times> mon_bus) res" where
  "mon_TYA s =
     Inr (0, mcpu_upd (\<lambda>c. mon_set_ZN (mc_y c) (c\<lparr>mc_a := mc_y c\<rparr>)) s)"

definition mon_TSX :: "mon_bus \<Rightarrow> (int \<times> mon_bus) res" where
  "mon_TSX s =
     Inr (0, mcpu_upd (\<lambda>c. mon_set_ZN (mc_stkp c) (c\<lparr>mc_x := mc_stkp c\<rparr>)) s)"

definition mon_TXS :: "mon_bus \<Rightarrow> (int \<times> mon_bus) res" where
  "mon_TXS s =
     Inr (0, mcpu_upd (\<lambda>c. c\<lparr>mc_stkp := mc_x c\<rparr>) s)"

definition mon_INX :: "mon_bus \<Rightarrow> (int \<times> mon_bus) res" where
  "mon_INX s =
     Inr (0, mcpu_upd (\<lambda>c. let r = (mc_x c + 1) AND 0xFF in mon_set_ZN r (c\<lparr>mc_x := r\<rparr>)) s)"

definition mon_DEX :: "mon_bus \<Rightarrow> (int \<times> mon_bus) res" where
  "mon_DEX s =
     Inr (0, mcpu_upd (\<lambda>c. let r = (mc_x c - 1) AND 0xFF in mon_set_ZN r (c\<lparr>mc_x := r\<rparr>)) s)"

definition mon_INY :: "mon_bus \<Rightarrow> (int \<times> mon_bus) res" where
  "mon_INY s =
     Inr (0, mcpu_upd (\<lambda>c. let r = (mc_y c + 1) AND 0xFF in mon_set_ZN r (c\<lparr>mc_y := r\<rparr>)) s)"

definition mon_DEY :: "mon_bus \<Rightarrow> (int \<times> mon_bus) res" where
  "mon_DEY s =
     Inr (0, mcpu_upd (\<lambda>c. let r = (mc_y c - 1) AND 0xFF in mon_set_ZN r (c\<lparr>mc_y := r\<rparr>)) s)"

definition mon_CMP :: "mon_bus \<Rightarrow> (int \<times> mon_bus) res" where
  "mon_CMP s =
     bnd (mon_fetch s) (\<lambda>(fetched, s1).
       Inr (1, mcpu_upd (\<lambda>c. let temp = mc_a c - fetched;
                                  c1 = mon_set_flag FLAG_C (mc_a c \<ge> fetched) c;
                                  c2 = mon_set_flag FLAG_Z ((temp AND 0x00FF) = 0x00) c1
                              in mon_set_flag FLAG_N ((temp AND 0x80) > 0) c2) s1))"

definition mon_CPX :: "mon_bus \<Rightarrow> (int \<times> mon_bus) res" where
  "mon_CPX s =
     bnd (mon_fetch s) (\<lambda>(fetched, s1).
       Inr (1, mcpu_upd (\<lambda>c. let temp = mc_x c - fetched;
                                  c1 = mon_set_flag FLAG_C (mc_x c \<ge> fetched) c;
                                  c2 = mon_set_flag FLAG_Z ((temp AND 0x00FF) = 0x00) c1
                              in mon_set_flag FLAG_N ((temp AND 0x80) > 0) c2) s1))"

definition mon_CPY :: "mon_bus \<Rightarrow> (int \<times> mon_bus) res" where
  "mon_CPY s =
     bnd (mon_fetch s) (\<lambda>(fetched, s1).
       Inr (1, mcpu_upd (\<lambda>c. let temp = mc_y c - fetched;
                                  c1 = mon_set_flag FLAG_C (mc_y c \<ge> fetched) c;
                                  c2 = mon_set_flag FLAG_Z ((temp AND 0x00FF) = 0x00) c1
                              in mon_set_flag FLAG_N ((temp AND 0x80) > 0) c2) s1))"

definition mon_AND :: "mon_bus \<Rightarrow> (int \<times> mon_bus) res" where
  "mon_AND s =
     bnd (mon_fetch s) (\<lambda>(fetched, s1).
       let r = mc_a (mbus_cpu s1) AND fetched
       in Inr (1, mcpu_upd (\<lambda>c. mon_set_ZN r (c\<lparr>mc_a := r\<rparr>)) s1))"

definition mon_ORA :: "mon_bus \<Rightarrow> (int \<times> mon_bus) res" where
  "mon_ORA s =
     bnd (mon_fetch s) (\<lambda>(fetched, s1).
       let r = mc_a (mbus_cpu s1) OR fetched
       in Inr (1, mcpu_upd (\<lambda>c. mon_set_ZN r (c\<lparr>mc_a := r\<rparr>)) s1))"

definition mon_EOR :: "mon_bus \<Rightarrow> (int \<times> mon_bus) res" where
  "mon_EOR s =
     bnd (mon_fetch s) (\<lambda>(fetched, s1).
       let r = mc_a (mbus_cpu s1) XOR fetched
       in Inr (1, mcpu_upd (\<lambda>c. mon_set_ZN r (c\<lparr>mc_a := r\<rparr>)) s1))"

definition mon_ADC :: "mon_bus \<Rightarrow> (int \<times> mon_bus) res" where
  "mon_ADC s =
     bnd (mon_fetch s) (\<lambda>(fetched, s1).
       let c = mbus_cpu s1;
           temp = mc_a c + fetched + mon_get_flag c FLAG_C;
           c1 = mon_set_flag FLAG_C (temp > 255) c;
           c2 = mon_set_flag FLAG_Z ((temp AND 0x00FF) = 0x00) c1;
           c3 = mon_set_flag FLAG_V (((mc_a c2 XOR temp) AND (fetched XOR temp) AND 0x80) \<noteq> 0) c2;
           c4 = mon_set_flag FLAG_N ((temp AND 0x80) > 0) c3
       in Inr (1, s1\<lparr>mbus_cpu := c4\<lparr>mc_a := temp AND 0x00FF\<rparr>\<rparr>))"

definition mon_SBC :: "mon_bus \<Rightarrow> (int \<times> mon_bus) res" where
  "mon_SBC s =
     bnd (mon_fetch s) (\<lambda>(fetched, s1).
       let c = mbus_cpu s1;
           val = fetched XOR 0x00FF;
           temp = mc_a c + val + mon_get_flag c FLAG_C;
           c1 = mon_set_flag FLAG_C (temp > 255) c;
           c2 = mon_set_flag FLAG_Z ((temp AND 0x00FF) = 0x00) c1;
           c3 = mon_set_flag FLAG_V (((mc_a c2 XOR temp) AND (val XOR temp) AND 0x80) \<noteq> 0) c2;
           c4 = mon_set_flag FLAG_N ((temp AND 0x80) > 0) c3
       in Inr (1, s1\<lparr>mbus_cpu := c4\<lparr>mc_a := temp AND 0x00FF\<rparr>\<rparr>))"

text \<open>
  The four shifts and rotates share one shape: the operand is \<open>a\<close> in accumulator mode and
  what \<open>fetch\<close> gives otherwise, and the result goes back to where the operand came from.
\<close>

definition mon_shift_operand :: "mon_bus \<Rightarrow> ((bool \<times> int) \<times> mon_bus) res" where
  "mon_shift_operand s =
     bnd (mon_cur_mode s) (\<lambda>m.
       if m = M_ACC then Inr ((True, mc_a (mbus_cpu s)), s)
       else bnd (mon_fetch s) (\<lambda>(fetched, s1). Inr ((False, fetched), s1)))"

definition mon_shift_store :: "bool \<Rightarrow> int \<Rightarrow> mon_bus \<Rightarrow> (int \<times> mon_bus) res" where
  "mon_shift_store acc r s =
     (if acc then Inr (0, mcpu_upd (\<lambda>c. c\<lparr>mc_a := r\<rparr>) s)
      else bnd (mon_bus_cpu_write s (mc_addr_abs (mbus_cpu s)) r) (\<lambda>s1. Inr (0, s1)))"

definition mon_ASL :: "mon_bus \<Rightarrow> (int \<times> mon_bus) res" where
  "mon_ASL s =
     bnd (mon_shift_operand s) (\<lambda>((acc, temp), s1).
       let r = (push_bit 1 temp) AND 0xFF
       in mon_shift_store acc r
            (mcpu_upd (\<lambda>c. mon_set_ZN r (mon_set_flag FLAG_C ((temp AND 0x80) > 0) c)) s1))"

definition mon_LSR :: "mon_bus \<Rightarrow> (int \<times> mon_bus) res" where
  "mon_LSR s =
     bnd (mon_shift_operand s) (\<lambda>((acc, temp), s1).
       let r = (drop_bit 1 temp) AND 0xFF
       in mon_shift_store acc r
            (mcpu_upd (\<lambda>c. mon_set_flag FLAG_N False (mon_set_flag FLAG_Z (r = 0x00)
                               (mon_set_flag FLAG_C ((temp AND 0x01) > 0) c))) s1))"

definition mon_ROL :: "mon_bus \<Rightarrow> (int \<times> mon_bus) res" where
  "mon_ROL s =
     bnd (mon_shift_operand s) (\<lambda>((acc, temp), s1).
       let old_c = mon_get_flag (mbus_cpu s1) FLAG_C;
           r = ((push_bit 1 temp) OR old_c) AND 0xFF
       in mon_shift_store acc r
            (mcpu_upd (\<lambda>c. mon_set_ZN r (mon_set_flag FLAG_C ((temp AND 0x80) > 0) c)) s1))"

definition mon_ROR :: "mon_bus \<Rightarrow> (int \<times> mon_bus) res" where
  "mon_ROR s =
     bnd (mon_shift_operand s) (\<lambda>((acc, temp), s1).
       let old_c = mon_get_flag (mbus_cpu s1) FLAG_C;
           r = ((push_bit 7 old_c) OR (drop_bit 1 temp)) AND 0xFF
       in mon_shift_store acc r
            (mcpu_upd (\<lambda>c. mon_set_ZN r (mon_set_flag FLAG_C ((temp AND 0x01) > 0) c)) s1))"

definition mon_BIT :: "mon_bus \<Rightarrow> (int \<times> mon_bus) res" where
  "mon_BIT s =
     bnd (mon_fetch s) (\<lambda>(fetched, s1).
       Inr (0, mcpu_upd (\<lambda>c. let temp = mc_a c AND fetched;
                                  c1 = mon_set_flag FLAG_Z (temp = 0x00) c;
                                  c2 = mon_set_flag FLAG_N ((fetched AND (push_bit 7 1)) > 0) c1
                              in mon_set_flag FLAG_V ((fetched AND (push_bit 6 1)) > 0) c2) s1))"

definition mon_BRK :: "mon_bus \<Rightarrow> (int \<times> mon_bus) res" where
  "mon_BRK s =
     (let s0 = mcpu_upd (mon_set_flag FLAG_I True) s in
      bnd (mon_push s0 ((drop_bit 8 (mc_pc (mbus_cpu s0))) AND 0x00FF)) (\<lambda>s1.
      bnd (mon_push s1 (mc_pc (mbus_cpu s1) AND 0x00FF)) (\<lambda>s2.
      let s3 = mcpu_upd (mon_set_flag FLAG_B True) s2 in
      bnd (mon_push s3 (mc_status (mbus_cpu s3))) (\<lambda>s4.
      let s5 = mcpu_upd (\<lambda>c. (mon_set_flag FLAG_B False c)\<lparr>mc_addr_abs := 0xFFFE\<rparr>) s4 in
      bnd (mon_bus_cpu_read s5 (mc_addr_abs (mbus_cpu s5))) (\<lambda>(lo, s6).
      bnd (mon_bus_cpu_read s6 (mc_addr_abs (mbus_cpu s6) + 1)) (\<lambda>(hi, s7).
        Inr (0, mcpu_upd (\<lambda>c. c\<lparr>mc_pc := (push_bit 8 hi) OR lo\<rparr>) s7)))))))"

definition mon_RTI :: "mon_bus \<Rightarrow> (int \<times> mon_bus) res" where
  "mon_RTI s =
     bnd (mon_pull s) (\<lambda>(d, s1).
       let s2 = mcpu_upd (\<lambda>c. mon_set_flag FLAG_U False (mon_set_flag FLAG_B False
                                   (c\<lparr>mc_status := d\<rparr>))) s1 in
       bnd (mon_pull s2) (\<lambda>(lo, s3).
       bnd (mon_pull s3) (\<lambda>(hi, s4).
         Inr (0, mcpu_upd (\<lambda>c. c\<lparr>mc_pc := (push_bit 8 hi) OR lo\<rparr>) s4))))"

definition mon_PHA :: "mon_bus \<Rightarrow> (int \<times> mon_bus) res" where
  "mon_PHA s =
     bnd (mon_push s (mc_a (mbus_cpu s))) (\<lambda>s1. Inr (0, s1))"

definition mon_PLA :: "mon_bus \<Rightarrow> (int \<times> mon_bus) res" where
  "mon_PLA s =
     bnd (mon_pull s) (\<lambda>(d, s1).
       Inr (0, mcpu_upd (\<lambda>c. mon_set_ZN d (c\<lparr>mc_a := d\<rparr>)) s1))"

definition mon_PHP :: "mon_bus \<Rightarrow> (int \<times> mon_bus) res" where
  "mon_PHP s =
     bnd (mon_push s (mc_status (mbus_cpu s) OR FLAG_B OR FLAG_U)) (\<lambda>s1. Inr (0, s1))"

definition mon_PLP :: "mon_bus \<Rightarrow> (int \<times> mon_bus) res" where
  "mon_PLP s =
     bnd (mon_pull s) (\<lambda>(d, s1).
       Inr (0, mcpu_upd (\<lambda>c. mon_set_flag FLAG_B False (mon_set_flag FLAG_U True
                                  (c\<lparr>mc_status := d\<rparr>))) s1))"

text \<open>\<open>branch(condition)\<close>: one cycle for taking the branch, two more for a page crossed.\<close>

definition mon_branch :: "bool \<Rightarrow> mon_bus \<Rightarrow> (int \<times> mon_bus) res" where
  "mon_branch condition s =
     (if condition then
        Inr (0, mcpu_upd (\<lambda>c.
               let target = mc_pc c + mc_addr_rel c;
                   c1 = c\<lparr>mc_cycles := mc_cycles c + 1, mc_addr_abs := target\<rparr>;
                   c2 = (if (target AND 0xFF00) \<noteq> (mc_pc c1 AND 0xFF00)
                         then c1\<lparr>mc_cycles := mc_cycles c1 + 2\<rparr> else c1)
               in c2\<lparr>mc_pc := target\<rparr>) s)
      else Inr (0, s))"

definition mon_BPL :: "mon_bus \<Rightarrow> (int \<times> mon_bus) res" where
  "mon_BPL s =
     mon_branch (mon_get_flag (mbus_cpu s) FLAG_N = 0) s"

definition mon_BMI :: "mon_bus \<Rightarrow> (int \<times> mon_bus) res" where
  "mon_BMI s =
     mon_branch (mon_get_flag (mbus_cpu s) FLAG_N = 1) s"

definition mon_BVC :: "mon_bus \<Rightarrow> (int \<times> mon_bus) res" where
  "mon_BVC s =
     mon_branch (mon_get_flag (mbus_cpu s) FLAG_V = 0) s"

definition mon_BVS :: "mon_bus \<Rightarrow> (int \<times> mon_bus) res" where
  "mon_BVS s =
     mon_branch (mon_get_flag (mbus_cpu s) FLAG_V = 1) s"

definition mon_BCC :: "mon_bus \<Rightarrow> (int \<times> mon_bus) res" where
  "mon_BCC s =
     mon_branch (mon_get_flag (mbus_cpu s) FLAG_C = 0) s"

definition mon_BCS :: "mon_bus \<Rightarrow> (int \<times> mon_bus) res" where
  "mon_BCS s =
     mon_branch (mon_get_flag (mbus_cpu s) FLAG_C = 1) s"

definition mon_BNE :: "mon_bus \<Rightarrow> (int \<times> mon_bus) res" where
  "mon_BNE s =
     mon_branch (mon_get_flag (mbus_cpu s) FLAG_Z = 0) s"

definition mon_BEQ :: "mon_bus \<Rightarrow> (int \<times> mon_bus) res" where
  "mon_BEQ s =
     mon_branch (mon_get_flag (mbus_cpu s) FLAG_Z = 1) s"

definition mon_CLC :: "mon_bus \<Rightarrow> (int \<times> mon_bus) res" where
  "mon_CLC s =
     Inr (0, mcpu_upd (mon_set_flag FLAG_C False) s)"

definition mon_SEC :: "mon_bus \<Rightarrow> (int \<times> mon_bus) res" where
  "mon_SEC s =
     Inr (0, mcpu_upd (mon_set_flag FLAG_C True) s)"

definition mon_CLI :: "mon_bus \<Rightarrow> (int \<times> mon_bus) res" where
  "mon_CLI s =
     Inr (0, mcpu_upd (mon_set_flag FLAG_I False) s)"

definition mon_SEI :: "mon_bus \<Rightarrow> (int \<times> mon_bus) res" where
  "mon_SEI s =
     Inr (0, mcpu_upd (mon_set_flag FLAG_I True) s)"

definition mon_CLV :: "mon_bus \<Rightarrow> (int \<times> mon_bus) res" where
  "mon_CLV s =
     Inr (0, mcpu_upd (mon_set_flag FLAG_V False) s)"

definition mon_CLD :: "mon_bus \<Rightarrow> (int \<times> mon_bus) res" where
  "mon_CLD s =
     Inr (0, mcpu_upd (mon_set_flag FLAG_D False) s)"

definition mon_SED :: "mon_bus \<Rightarrow> (int \<times> mon_bus) res" where
  "mon_SED s =
     Inr (0, mcpu_upd (mon_set_flag FLAG_D True) s)"

text \<open>
  The dispatch through the table. \<open>LDX\<close>, \<open>LDY\<close>, \<open>STX\<close>, \<open>STY\<close>, \<open>INC\<close> and
  \<open>DEC\<close> are no methods of this class and no entry of its table names them.
\<close>

fun mon_operation :: "opn \<Rightarrow> mon_bus \<Rightarrow> (int \<times> mon_bus) res" where
  "mon_operation I_LDA s = mon_LDA s"
| "mon_operation I_STA s = mon_STA s"
| "mon_operation I_JMP s = mon_JMP s"
| "mon_operation I_JSR s = mon_JSR s"
| "mon_operation I_RTS s = mon_RTS s"
| "mon_operation I_NOP s = mon_NOP s"
| "mon_operation I_TAX s = mon_TAX s"
| "mon_operation I_TXA s = mon_TXA s"
| "mon_operation I_TAY s = mon_TAY s"
| "mon_operation I_TYA s = mon_TYA s"
| "mon_operation I_TSX s = mon_TSX s"
| "mon_operation I_TXS s = mon_TXS s"
| "mon_operation I_INX s = mon_INX s"
| "mon_operation I_DEX s = mon_DEX s"
| "mon_operation I_INY s = mon_INY s"
| "mon_operation I_DEY s = mon_DEY s"
| "mon_operation I_CMP s = mon_CMP s"
| "mon_operation I_CPX s = mon_CPX s"
| "mon_operation I_CPY s = mon_CPY s"
| "mon_operation I_AND s = mon_AND s"
| "mon_operation I_ORA s = mon_ORA s"
| "mon_operation I_EOR s = mon_EOR s"
| "mon_operation I_ADC s = mon_ADC s"
| "mon_operation I_SBC s = mon_SBC s"
| "mon_operation I_ASL s = mon_ASL s"
| "mon_operation I_LSR s = mon_LSR s"
| "mon_operation I_ROL s = mon_ROL s"
| "mon_operation I_ROR s = mon_ROR s"
| "mon_operation I_BIT s = mon_BIT s"
| "mon_operation I_BRK s = mon_BRK s"
| "mon_operation I_RTI s = mon_RTI s"
| "mon_operation I_PHA s = mon_PHA s"
| "mon_operation I_PLA s = mon_PLA s"
| "mon_operation I_PHP s = mon_PHP s"
| "mon_operation I_PLP s = mon_PLP s"
| "mon_operation I_BPL s = mon_BPL s"
| "mon_operation I_BMI s = mon_BMI s"
| "mon_operation I_BVC s = mon_BVC s"
| "mon_operation I_BVS s = mon_BVS s"
| "mon_operation I_BCC s = mon_BCC s"
| "mon_operation I_BCS s = mon_BCS s"
| "mon_operation I_BNE s = mon_BNE s"
| "mon_operation I_BEQ s = mon_BEQ s"
| "mon_operation I_CLC s = mon_CLC s"
| "mon_operation I_SEC s = mon_SEC s"
| "mon_operation I_CLI s = mon_CLI s"
| "mon_operation I_SEI s = mon_SEI s"
| "mon_operation I_CLV s = mon_CLV s"
| "mon_operation I_CLD s = mon_CLD s"
| "mon_operation I_SED s = mon_SED s"
| "mon_operation _ s = Inl AttributeError"

text \<open>The count kept in \<open>illegal_opcodes\<close> for an opcode the table does not have.\<close>

definition mon_note_illegal :: "int \<Rightarrow> (int \<times> int) list \<Rightarrow> (int \<times> int) list" where
  "mon_note_illegal opcode d =
     (case map_of d opcode of
        None \<Rightarrow> d @ [(opcode, 1)]
      | Some k \<Rightarrow> map (\<lambda>(q, v). if q = opcode then (q, v + 1) else (q, v)) d)"

text \<open>\<open>CPU6502.clock()\<close>.\<close>

definition mon_cpu_clock :: "mon_bus \<Rightarrow> mon_bus res" where
  "mon_cpu_clock s =
     bnd (if mc_cycles (mbus_cpu s) = 0 then
            bnd (mon_bus_cpu_read s (mc_pc (mbus_cpu s))) (\<lambda>(opcode, s1).
            let s2 = mcpu_upd (\<lambda>c. mon_set_flag FLAG_U True (c\<lparr>mc_pc := mc_pc c + 1\<rparr>)) s1 in
            case map_of mon_lookup opcode of
              Some (addr_mode_func, op_func, cycles) \<Rightarrow>
                bnd (mon_addr_mode addr_mode_func s2) (\<lambda>(extra_cycles_addr, s3).
                bnd (mon_operation op_func s3) (\<lambda>(extra_cycles_op, s4).
                  Inr (mcpu_upd (\<lambda>c. c\<lparr>mc_cycles :=
                         cycles + extra_cycles_addr + extra_cycles_op\<rparr>) s4)))
            | None \<Rightarrow>
                Inr (mcpu_upd (\<lambda>c. c\<lparr>mc_illegal_opcodes :=
                       mon_note_illegal opcode (mc_illegal_opcodes c), mc_cycles := 2\<rparr>) s2))
          else Inr s)
       (\<lambda>s5. Inr (mcpu_upd (\<lambda>c. c\<lparr>mc_cycles := mc_cycles c - 1\<rparr>) s5))"

text \<open>
  \<open>CPU6502.interrupt_request()\<close> and \<open>CPU6502.non_maskable_interrupt()\<close>: the two bodies
  differ in the vector and the cycle count only.
\<close>

definition mon_interrupt :: "int \<Rightarrow> int \<Rightarrow> mon_bus \<Rightarrow> mon_bus res" where
  "mon_interrupt vector cyc s =
     bnd (mon_push s ((drop_bit 8 (mc_pc (mbus_cpu s))) AND 0x00FF)) (\<lambda>s1.
     bnd (mon_push s1 (mc_pc (mbus_cpu s1) AND 0x00FF)) (\<lambda>s2.
     let s3 = mcpu_upd (\<lambda>c. mon_set_flag FLAG_I True
                            (mon_set_flag FLAG_U True (mon_set_flag FLAG_B False c))) s2 in
     bnd (mon_push s3 (mc_status (mbus_cpu s3))) (\<lambda>s4.
     let s5 = mcpu_upd (\<lambda>c. c\<lparr>mc_addr_abs := vector\<rparr>) s4 in
     bnd (mon_bus_cpu_read s5 (mc_addr_abs (mbus_cpu s5))) (\<lambda>(lo, s6).
     bnd (mon_bus_cpu_read s6 (mc_addr_abs (mbus_cpu s6) + 1)) (\<lambda>(hi, s7).
       Inr (mcpu_upd (\<lambda>c. c\<lparr>mc_pc := (push_bit 8 hi) OR lo, mc_cycles := cyc\<rparr>) s7))))))"


definition mon_non_maskable_interrupt :: "mon_bus \<Rightarrow> mon_bus res" where
  "mon_non_maskable_interrupt s = mon_interrupt 0xFFFA 8 s"

section \<open>MonikaNES.py: the PPU clock and the bus clock\<close>

definition mon_palette :: "string list" where
  "mon_palette = [
    ''#666666'', ''#002A88'', ''#1412A7'', ''#3B00A4'', ''#5F0083'', ''#73005A'', ''#730014'', ''#630000'',
    ''#400000'', ''#0A0200'', ''#000000'', ''#000000'', ''#000000'', ''#000000'', ''#000000'', ''#000000'',
    ''#B4B4B4'', ''#0051EE'', ''#2420EA'', ''#5F00E4'', ''#9400B3'', ''#B7007E'', ''#B5002D'', ''#A00000'',
    ''#7C0000'', ''#4A0400'', ''#000000'', ''#000000'', ''#000000'', ''#000000'', ''#000000'', ''#000000'',
    ''#FFFFFF'', ''#0093FF'', ''#4581FF'', ''#8200FF'', ''#BF00EA'', ''#E400B4'', ''#E7005B'', ''#CE1000'',
    ''#943600'', ''#545200'', ''#000000'', ''#000000'', ''#000000'', ''#000000'', ''#000000'', ''#000000'',
    ''#FFFFFF'', ''#3ECEFF'', ''#887EFF'', ''#C76EFF'', ''#FF6ECC'', ''#FF6EB4'', ''#FF7664'', ''#FF8832'',
    ''#FF9A05'', ''#EAC200'', ''#000000'', ''#000000'', ''#000000'', ''#000000'', ''#000000'', ''#000000'']"

text \<open>\<open>get_color_from_palette_ram\<close>: Python's \<open>%\<close> with a positive modulus is never negative.\<close>

definition mon_get_color_from_palette_ram :: "int \<Rightarrow> string res" where
  "mon_get_color_from_palette_ram palette_ram_index = py_get mon_palette (palette_ram_index mod 64)"

definition mon_rendering :: "mon_ppu \<Rightarrow> bool" where
  "mon_rendering p =
     ((drop_bit 3 (m_PPUMASK p)) AND 1 \<noteq> 0 \<or> (drop_bit 4 (m_PPUMASK p)) AND 1 \<noteq> 0)"

definition mon_increment_h :: "mon_ppu \<Rightarrow> mon_ppu" where
  "mon_increment_h p =
     (if (m_vram_addr p AND 0x001F) = 0x1F
      then p\<lparr>m_vram_addr := (m_vram_addr p AND NOT 0x001F) XOR 0x0400\<rparr>
      else p\<lparr>m_vram_addr := m_vram_addr p + 1\<rparr>)"

definition mon_increment_v :: "mon_ppu \<Rightarrow> mon_ppu" where
  "mon_increment_v p =
     (if (m_vram_addr p AND 0x7000) \<noteq> 0x7000 then p\<lparr>m_vram_addr := m_vram_addr p + 0x1000\<rparr>
      else
        let v1 = m_vram_addr p AND NOT 0x7000;
            coarse_y = drop_bit 5 (v1 AND 0x03E0);
            v2 = (if coarse_y = 29 then v1 XOR 0x0800 else v1);
            coarse_y' = (if coarse_y = 29 then 0 else if coarse_y = 31 then 0 else coarse_y + 1)
        in p\<lparr>m_vram_addr := (v2 AND NOT 0x03E0) OR (push_bit 5 coarse_y')\<rparr>)"

definition mon_transfer_x :: "mon_ppu \<Rightarrow> mon_ppu" where
  "mon_transfer_x p =
     (let v1 = (m_vram_addr p AND 0xFFE0) OR (m_temp_vram_addr p AND 0x001F)
      in p\<lparr>m_vram_addr := (v1 AND 0xF3FF) OR (m_temp_vram_addr p AND 0x0400)\<rparr>)"

definition mon_transfer_y :: "mon_ppu \<Rightarrow> mon_ppu" where
  "mon_transfer_y p =
     (let v1 = (m_vram_addr p AND 0x8FFF) OR (m_temp_vram_addr p AND 0x7000);
          v2 = (v1 AND 0xFC1F) OR (m_temp_vram_addr p AND 0x03E0)
      in p\<lparr>m_vram_addr := (v2 AND 0xFBFF) OR (m_temp_vram_addr p AND 0x0800)\<rparr>)"

text \<open>
  The background part of the pixel of cycles 1 to 256: the palette address it ends on is
  read and returned. The two shift counts are never negative (\<open>palette_select_shift\<close> is
  0 to 3, \<open>pixel_x_in_tile\<close> is 0 to 7). \<open>bg_palette_id\<close> is only bound when the background
  is on, and only used then.
\<close>

definition mon_background_pixel :: "mon_bus \<Rightarrow> int res" where
  "mon_background_pixel s =
     (let p = mbus_ppu s; v = m_vram_addr p in
      bnd (if (drop_bit 3 (m_PPUMASK p)) AND 1 \<noteq> 0 then
             bnd (mon_bus_ppu_read s (0x2000 OR (v AND 0x0FFF))) (\<lambda>tile_id.
             bnd (mon_bus_ppu_read s (0x23C0 OR (v AND 0x0C00) OR ((drop_bit 4 v) AND 0x38)
                                        OR ((drop_bit 2 v) AND 0x07))) (\<lambda>attr_byte.
             let palette_select_shift =
                   (push_bit 1 ((drop_bit 4 v) AND 0x01)) OR ((drop_bit 1 v) AND 0x01);
                 bg_palette_id = (drop_bit (nat palette_select_shift) attr_byte) AND 0x03;
                 pattern_table_base =
                   (if (drop_bit 4 (m_PPUCTRL p)) AND 1 \<noteq> 0 then 0x1000 else 0x0000);
                 tile_row = (drop_bit 12 v) AND 0x07
             in
             bnd (mon_bus_ppu_read s (pattern_table_base + tile_id * 16 + tile_row))
               (\<lambda>plane0_byte.
             bnd (mon_bus_ppu_read s (pattern_table_base + tile_id * 16 + tile_row + 8))
               (\<lambda>plane1_byte.
             let pixel_x_in_tile = (m_cycle p - 1 + m_fine_x p) mod 8;
                 bit0 = (drop_bit (nat (7 - pixel_x_in_tile)) plane0_byte) AND 1;
                 bit1 = (drop_bit (nat (7 - pixel_x_in_tile)) plane1_byte) AND 1
             in Inr ((push_bit 1 bit1) OR bit0, bg_palette_id)))))
           else Inr (0x00, 0x00))
        (\<lambda>(bg_pixel_color_idx, bg_palette_id).
           if bg_pixel_color_idx = 0 then mon_bus_ppu_read s 0x3F00
           else mon_bus_ppu_read s (0x3F00 + (bg_palette_id * 4) + bg_pixel_color_idx)))"

definition mon_render_pixel :: "mon_bus \<Rightarrow> mon_bus res" where
  "mon_render_pixel s =
     bnd (mon_background_pixel s) (\<lambda>final_bg_color_index.
     bnd (mon_get_color_from_palette_ram final_bg_color_index) (\<lambda>colour.
     bnd (py_set_cell (m_pixel_buffer (mbus_ppu s)) (m_scanline (mbus_ppu s))
            (m_cycle (mbus_ppu s) - 1) colour) (\<lambda>buf.
       Inr (mppu_upd (\<lambda>p. p\<lparr>m_pixel_buffer := buf\<rparr>) s))))"

text \<open>
  One turn of the sprite loop, for the OAM entry at \<open>i\<close>. Inside the two range tests
  \<open>pixel_x_in_sprite\<close> is 0 to 7, so the shift count is not negative. The sprite-zero
  block at the end of the loop body only executes \<open>pass\<close>.
\<close>

definition mon_sprite_at :: "int \<Rightarrow> mon_bus \<Rightarrow> mon_bus res" where
  "mon_sprite_at i s =
     (let p = mbus_ppu s in
      bnd (py_get (m_oam p) i) (\<lambda>sprite_y.
      bnd (py_get (m_oam p) (i + 1)) (\<lambda>sprite_tile_id.
      bnd (py_get (m_oam p) (i + 2)) (\<lambda>sprite_attributes.
      bnd (py_get (m_oam p) (i + 3)) (\<lambda>sprite_x.
      let sprite_height = (if (drop_bit 5 (m_PPUCTRL p)) AND 1 \<noteq> 0 then 16 else (8 :: int)) in
      if sprite_y \<le> m_scanline p \<and> m_scanline p < sprite_y + sprite_height then
        (if sprite_x \<le> m_cycle p - 1 \<and> m_cycle p - 1 < sprite_x + 8 then
           (let y0 = m_scanline p - sprite_y;
                x0 = (m_cycle p - 1) - sprite_x;
                y1 = (if (drop_bit 7 sprite_attributes) AND 1 \<noteq> 0
                      then (sprite_height - 1) - y0 else y0);
                pixel_x_in_sprite = (if (drop_bit 6 sprite_attributes) AND 1 \<noteq> 0
                                     then (8 - 1) - x0 else x0);
                pattern_table_base =
                  (if sprite_height = 8
                   then (if (drop_bit 3 (m_PPUCTRL p)) AND 1 \<noteq> 0 then 0x1000 else 0x0000)
                   else (if (sprite_tile_id AND 0x01) \<noteq> 0 then 0x1000 else 0x0000));
                tile = (if sprite_height = 8 then sprite_tile_id
                        else if y1 \<ge> 8 then (sprite_tile_id AND 0xFE) + 1
                        else sprite_tile_id AND 0xFE);
                pixel_y_in_sprite = (if sprite_height = 8 then y1
                                     else if y1 \<ge> 8 then y1 - 8 else y1)
            in
            bnd (mon_bus_ppu_read s (pattern_table_base + tile * 16 + pixel_y_in_sprite))
              (\<lambda>plane0_byte.
            bnd (mon_bus_ppu_read s (pattern_table_base + tile * 16 + pixel_y_in_sprite + 8))
              (\<lambda>plane1_byte.
            let bit0 = (drop_bit (nat (7 - pixel_x_in_sprite)) plane0_byte) AND 1;
                bit1 = (drop_bit (nat (7 - pixel_x_in_sprite)) plane1_byte) AND 1;
                sprite_pixel_color_idx = (push_bit 1 bit1) OR bit0
            in
            if sprite_pixel_color_idx \<noteq> 0 then
              (let sprite_palette_id = (sprite_attributes AND 0x03) + 4 in
               bnd (mon_bus_ppu_read s (0x3F00 + (sprite_palette_id * 4) + sprite_pixel_color_idx))
                 (\<lambda>final_sprite_color_index.
               bnd (mon_get_color_from_palette_ram final_sprite_color_index) (\<lambda>colour.
               bnd (py_set_cell (m_pixel_buffer p) (m_scanline p) (m_cycle p - 1) colour)
                 (\<lambda>buf. Inr (mppu_upd (\<lambda>p. p\<lparr>m_pixel_buffer := buf\<rparr>) s)))))
            else Inr s)))
         else Inr s)
      else Inr s)))))"

text \<open>The loop \<open>for i in range(0, 256, 4)\<close>, stopping at the first exception.\<close>

fun mon_sprite_loop :: "int list \<Rightarrow> mon_bus \<Rightarrow> mon_bus res" where
  "mon_sprite_loop [] s = Inr s"
| "mon_sprite_loop (i # rest) s = bnd (mon_sprite_at i s) (mon_sprite_loop rest)"

definition mon_sprites :: "mon_bus \<Rightarrow> mon_bus res" where
  "mon_sprites s = mon_sprite_loop (map (\<lambda>k. 4 * int k) [0..<64]) s"

text \<open>The three scanline cases of \<open>PPU2C02.clock()\<close>, then the method itself.\<close>

definition mon_visible_scanline :: "mon_bus \<Rightarrow> mon_bus res" where
  "mon_visible_scanline s =
     bnd (if m_cycle (mbus_ppu s) \<ge> 1 \<and> m_cycle (mbus_ppu s) \<le> 256 then mon_render_pixel s
          else Inr s) (\<lambda>s1.
     bnd (if (drop_bit 4 (m_PPUMASK (mbus_ppu s1))) AND 1 \<noteq> 0 then mon_sprites s1
          else Inr s1) (\<lambda>s2.
       let p = mbus_ppu s2 in
       if m_cycle p = 256 then
         (if mon_rendering p then Inr (mppu_upd mon_increment_h s2) else Inr s2)
       else if m_cycle p = 257 then
         (if mon_rendering p then Inr (mppu_upd mon_transfer_x s2) else Inr s2)
       else Inr s2))"

definition mon_vblank_start :: "mon_bus \<Rightarrow> mon_bus res" where
  "mon_vblank_start s =
     (let s1 = mppu_upd (\<lambda>p. p\<lparr>m_PPUSTATUS := m_PPUSTATUS p OR 0x80\<rparr>) s in
      if (drop_bit 7 (m_PPUCTRL (mbus_ppu s1))) AND 1 \<noteq> 0 then
        (if \<not> m_nmi_triggered (mbus_ppu s1) then
           bnd (mon_non_maskable_interrupt s1) (\<lambda>s2.
             Inr (mppu_upd (\<lambda>p. p\<lparr>m_nmi_triggered := True\<rparr>) s2))
         else Inr s1)
      else Inr s1)"

definition mon_prerender_scanline :: "mon_ppu \<Rightarrow> mon_ppu" where
  "mon_prerender_scanline p0 =
     (let p1 = (if m_cycle p0 = 1
                then p0\<lparr>m_PPUSTATUS := ((m_PPUSTATUS p0 AND NOT 0x80) AND NOT 0x40) AND NOT 0x20,
                       m_nmi_triggered := False\<rparr>
                else p0);
          p2 = (if m_cycle p1 = 257 then (if mon_rendering p1 then mon_transfer_x p1 else p1)
                else if m_cycle p1 \<ge> 280 \<and> m_cycle p1 \<le> 304
                then (if mon_rendering p1 then mon_transfer_y p1 else p1)
                else p1)
      in if m_cycle p2 = 256 then (if mon_rendering p2 then mon_increment_v p2 else p2) else p2)"

text \<open>
  The last statements of \<open>PPU2C02.clock()\<close> (lines 1286 to 1293), the only ones of the
  method that assign \<open>cycle\<close>, \<open>scanline\<close> or \<open>frame_complete\<close>.
\<close>

definition mon_advance :: "mon_ppu \<Rightarrow> mon_ppu" where
  "mon_advance p0 =
     (let p1 = p0\<lparr>m_cycle := m_cycle p0 + 1\<rparr> in
      if m_cycle p1 > 340 then
        (let p2 = p1\<lparr>m_cycle := 0, m_scanline := m_scanline p1 + 1\<rparr> in
         if m_scanline p2 > 261 then p2\<lparr>m_scanline := 0, m_frame_complete := True\<rparr> else p2)
      else p1)"

definition mon_ppu_clock :: "mon_bus \<Rightarrow> mon_bus res" where
  "mon_ppu_clock s =
     bnd (let p = mbus_ppu s in
          if m_scanline p \<ge> 0 \<and> m_scanline p \<le> 239 then mon_visible_scanline s
          else if m_scanline p = 241 \<and> m_cycle p = 1 then mon_vblank_start s
          else if m_scanline p = 261 then Inr (mppu_upd mon_prerender_scanline s)
          else Inr s) (\<lambda>s1.
       Inr (mppu_upd mon_advance s1))"


section \<open>CATNES5.23.251.0AA.py: ROM file and cartridge\<close>

record cat_rom =
  c_prg_rom :: "int list"
  c_chr_rom :: "int list"
  c_mapper_id :: int
  c_mirroring :: int
  c_has_battery :: int
  c_valid :: bool

text \<open>
  \<open>NESRom.__init__\<close> on the bytes of the file it opens. The object always exists; a bad
  magic number, or an exception caught on the way, leaves \<open>valid\<close> false and the fields
  at their defaults. \<open>f.read(n)\<close> hands out at most what is left of the file.
\<close>

definition cat_rom_default :: cat_rom where
  "cat_rom_default = \<lparr> c_prg_rom = [], c_chr_rom = [], c_mapper_id = 0, c_mirroring = 0,
     c_has_battery = 0, c_valid = False \<rparr>"

definition cat_NESRom :: "int list \<Rightarrow> cat_rom" where
  "cat_NESRom file =
     (let header = take 16 file; rest0 = drop 16 file in
      if py_slice header 0 4 \<noteq> NES_MAGIC then cat_rom_default
      else
        case bnd (py_get header 4) (\<lambda>prg_rom_banks.
             bnd (py_get header 5) (\<lambda>chr_rom_banks.
             bnd (py_get header 6) (\<lambda>flags6.
             bnd (py_get header 7) (\<lambda>flags7.
               let has_trainer = (drop_bit 2 flags6) AND 0x01;
                   rest1 = (if has_trainer \<noteq> 0 then drop 512 rest0 else rest0);
                   prg_rom_size = prg_rom_banks * 16384;
                   chr_rom_size = chr_rom_banks * 8192
               in Inr \<lparr> c_prg_rom = take (nat prg_rom_size) rest1,
                        c_chr_rom = (if chr_rom_banks = 0 then replicate 8192 0
                                     else take (nat chr_rom_size) (drop (nat prg_rom_size) rest1)),
                        c_mapper_id = (drop_bit 4 flags6) OR (flags7 AND 0xF0),
                        c_mirroring = flags6 AND 0x01,
                        c_has_battery = (drop_bit 1 flags6) AND 0x01,
                        c_valid = True \<rparr>)))) of
          Inl e \<Rightarrow> cat_rom_default
        | Inr r \<Rightarrow> r)"

record cat_cartridge =
  cc_rom :: cat_rom
  cc_prg_ram :: "int list"
  cc_prg_banks :: int
  cc_chr_banks :: int

text \<open>
  \<open>Cartridge.__init__(rom)\<close>. What it prints is returned beside the object: the mapper
  ids it warned about. Nothing here raises.
\<close>

definition cat_Cartridge :: "cat_rom \<Rightarrow> (int list \<times> cat_cartridge) res" where
  "cat_Cartridge rom =
     Inr (if c_mapper_id rom \<noteq> 0 then [c_mapper_id rom] else [],
          \<lparr> cc_rom = rom, cc_prg_ram = replicate 8192 0,
            cc_prg_banks = int (length (c_prg_rom rom)) div 16384,
            cc_chr_banks = int (length (c_chr_rom rom)) div 8192 \<rparr>)"

text \<open>\<open>Cartridge.cpu_read(addr)\<close>: the NROM decoding, whatever the mapper id.\<close>

definition cat_cart_cpu_read :: "cat_cartridge \<Rightarrow> int \<Rightarrow> int res" where
  "cat_cart_cpu_read cart addr =
     (if 0x6000 \<le> addr \<and> addr \<le> 0x7FFF then py_get (cc_prg_ram cart) (addr - 0x6000)
      else if 0x8000 \<le> addr \<and> addr \<le> 0xFFFF then
        (if cc_prg_banks cart = 1 then py_get (c_prg_rom (cc_rom cart)) ((addr - 0x8000) AND 0x3FFF)
         else py_get (c_prg_rom (cc_rom cart)) (addr - 0x8000))
      else Inr 0)"

text \<open>The NROM decoding of the specification: \<open>prg[(addr - 0x8000) % prg_len]\<close>.\<close>

definition nrom_prg_index :: "nat \<Rightarrow> int \<Rightarrow> int" where
  "nrom_prg_index prg_len addr = (addr - 0x8000) mod int prg_len"

section \<open>ChatGPTPRO5.23.25EMUAINES.py: the iNES header\<close>

record gpt_header =
  g_prg_pages :: int
  g_chr_pages :: int
  g_trainer :: bool
  g_prg_size :: int
  g_chr_size :: int

definition INES_HEADER_SIZE :: int where "INES_HEADER_SIZE = 16"
definition PRG_PAGE :: int where "PRG_PAGE = 16 * 1024"
definition CHR_PAGE :: int where "CHR_PAGE = 8 * 1024"
definition TRAINER_SIZE :: int where "TRAINER_SIZE = 512"

text \<open>\<open>INESHeader.__init__(hdr)\<close>.\<close>

definition gpt_INESHeader :: "int list \<Rightarrow> gpt_header res" where
  "gpt_INESHeader hdr =
     (if int (length hdr) < INES_HEADER_SIZE \<or> py_slice hdr 0 4 \<noteq> NES_MAGIC then Inl ValueError
      else
        bnd (py_get hdr 4) (\<lambda>h4.
        bnd (py_get hdr 5) (\<lambda>h5.
        bnd (py_get hdr 6) (\<lambda>h6.
          Inr \<lparr> g_prg_pages = h4, g_chr_pages = h5, g_trainer = ((h6 AND 0x04) \<noteq> 0),
                g_prg_size = h4 * PRG_PAGE, g_chr_size = h5 * CHR_PAGE \<rparr>))))"

text \<open>
  The slicing of \<open>EMUNESApp._load_rom\<close>: the header object, then the PRG and CHR bytes
  handed to \<open>Bus\<close>.
\<close>

definition gpt_load_slices :: "int list \<Rightarrow> (gpt_header \<times> int list \<times> int list) res" where
  "gpt_load_slices data =
     bnd (gpt_INESHeader (py_slice data 0 INES_HEADER_SIZE)) (\<lambda>hdr.
       let offset = INES_HEADER_SIZE + (if g_trainer hdr then TRAINER_SIZE else 0);
           prg = py_slice data offset (offset + g_prg_size hdr);
           offset2 = offset + g_prg_size hdr;
           chr = py_slice data offset2 (offset2 + g_chr_size hdr)
       in Inr (hdr, prg, chr))"

section \<open>Invariants and reachable states\<close>

text \<open>
  An operation that may raise keeps a property \<open>P\<close> of the state when every state it
  returns has \<open>P\<close>, given that the state it started from had it.
\<close>

definition keeps :: "('s \<Rightarrow> bool) \<Rightarrow> 's \<Rightarrow> ('a \<times> 's) res \<Rightarrow> bool" where
  "keeps P s r = (P s \<longrightarrow> (case r of Inl e \<Rightarrow> True | Inr (x, s') \<Rightarrow> P s'))"

definition keeps0 :: "('s \<Rightarrow> bool) \<Rightarrow> 's \<Rightarrow> 's res \<Rightarrow> bool" where
  "keeps0 P s r = (P s \<longrightarrow> (case r of Inl e \<Rightarrow> True | Inr s' \<Rightarrow> P s'))"

text \<open>Palette RAM in good shape: 32 entries, each a six-bit value.\<close>

definition pal_ok :: "int list \<Rightarrow> bool" where
  "pal_ok p = (length p = 32 \<and> (\<forall>x\<in>set p. 0 \<le> x \<and> x < 0x40))"

definition pal_inv :: "emu_bus \<Rightarrow> bool" where
  "pal_inv s = pal_ok (palette_ram (bus_ppu s))"

definition mon_pal_inv :: "mon_bus \<Rightarrow> bool" where
  "mon_pal_inv s = pal_ok (m_palette_ram (mbus_ppu s))"



section \<open>Scenarios\<close>

text \<open>A PPU-bus write followed by a PPU-bus read, on each bus.\<close>

definition emu_write_then_read :: "emu_bus \<Rightarrow> int \<Rightarrow> int \<Rightarrow> int \<Rightarrow> int res" where
  "emu_write_then_read s a d b = bnd (emu_bus_ppu_write s a d) (\<lambda>s'. emu_bus_ppu_read s' b)"

definition mon_write_then_read :: "mon_bus \<Rightarrow> int \<Rightarrow> int \<Rightarrow> int \<Rightarrow> int res" where
  "mon_write_then_read s a d b = bnd (mon_bus_ppu_write s a d) (\<lambda>s'. mon_bus_ppu_read s' b)"

text \<open>
  The aliasing of palette entries as the specification words it: an entry is itself, and
  0x10/0x14/0x18/0x1C are 0x00/0x04/0x08/0x0C.
\<close>

definition spec_alias :: "int \<Rightarrow> int \<Rightarrow> bool" where
  "spec_alias i j =
     (i = j \<or> (i, j) \<in> set [(0x10, 0x00), (0x14, 0x04), (0x18, 0x08), (0x1C, 0x0C)]
            \<or> (j, i) \<in> set [(0x10, 0x00), (0x14, 0x04), (0x18, 0x08), (0x1C, 0x0C)])"

text \<open>The aliasing MonikaNES.py implements: every fourth entry is entry 0.\<close>

definition fold_alias :: "int \<Rightarrow> int \<Rightarrow> bool" where
  "fold_alias i j =
     (i = j \<or> (i \<in> set [0x00, 0x04, 0x08, 0x0C, 0x10, 0x14, 0x18, 0x1C]
              \<and> j \<in> set [0x00, 0x04, 0x08, 0x0C, 0x10, 0x14, 0x18, 0x1C]))"

section \<open>Concrete machines\<close>

text \<open>
  A 16 KB NROM image for EMUNES5.23.251.0A.py: \<open>NOP\<close>s, the last four bytes being the
  reset vector 0x8000 (bytes 0x00, 0x80) and the IRQ vector.
\<close>

definition emu_rom_16k :: "int list \<Rightarrow> emu_rom" where
  "emu_rom_16k prg = \<lparr> prg_rom_size = 16384, chr_rom_size = 0, mapper = 0, mirror_mode = 0,
     battery_backed = False, trainer_present = False, prg_rom_start = 16, prg_rom = prg,
     chr_rom_start = 16400, chr_rom = [], chr_ram = Some (replicate 8192 0) \<rparr>"

definition prg_reset_8000 :: "int list" where
  "prg_reset_8000 = replicate 0x3FFC 0xEA @ [0x00, 0x80, 0x00, 0x80]"

definition emu_bus_8000 :: emu_bus where
  "emu_bus_8000 = emu_bus_init\<lparr>bus_cart := Some (emu_rom_16k prg_reset_8000)\<rparr>"

definition mon_rom_16k :: "int list \<Rightarrow> mon_rom" where
  "mon_rom_16k prg = \<lparr> m_prg_rom_size = 16384, m_chr_rom_size = 0, m_mapper = 0,
     m_mirror_mode = 0, m_prg_rom_start = 16, m_prg_rom = prg, m_chr_rom = [],
     m_chr_ram = Some (replicate 8192 0) \<rparr>"

definition mon_bus_8000 :: mon_bus where
  "mon_bus_8000 = mon_bus_init\<lparr>mbus_cart := Some (mon_rom_16k prg_reset_8000)\<rparr>"

text \<open>What \<open>reset()\<close> leaves in the cycle counter, when it returns.\<close>

definition emu_reset_cycles :: "emu_bus \<Rightarrow> int option" where
  "emu_reset_cycles s = (case emu_reset s of Inl e \<Rightarrow> None | Inr s' \<Rightarrow> Some (cpu_cycles (bus_cpu s')))"

definition mon_reset_cycles :: "mon_bus \<Rightarrow> int option" where
  "mon_reset_cycles s = (case mon_reset s of Inl e \<Rightarrow> None | Inr s' \<Rightarrow> Some (mc_cycles (mbus_cpu s')))"

text \<open>
  An iNES file that declares mapper 1: one PRG bank, one CHR bank, \<open>flags6 = 0x10\<close>.
\<close>

definition mapper1_file :: "int list" where
  "mapper1_file = [0x4E, 0x45, 0x53, 0x1A, 1, 1, 0x10, 0, 0, 0, 0, 0, 0, 0, 0, 0]
                    @ replicate 16384 0xEA @ replicate 8192 0"

text \<open>A file of ten bytes: the magic number, one PRG bank and one CHR bank declared.\<close>

definition ten_byte_file :: "int list" where
  "ten_byte_file = [0x4E, 0x45, 0x53, 0x1A, 1, 1, 0, 0, 0, 0]"

text \<open>
  One instruction through \<open>CPU6502.clock()\<close>. The method loads the cycle counter and
  takes one off in the same call, so the instruction occupies one call more than the
  counter then shows; \<open>pc\<close> is read after that call.
\<close>

definition emu_instr_cycles :: "emu_bus \<Rightarrow> int option" where
  "emu_instr_cycles s =
     (case emu_cpu_clock s of Inl e \<Rightarrow> None | Inr s' \<Rightarrow> Some (cpu_cycles (bus_cpu s') + 1))"

definition mon_instr_cycles :: "mon_bus \<Rightarrow> int option" where
  "mon_instr_cycles s =
     (case mon_cpu_clock s of Inl e \<Rightarrow> None | Inr s' \<Rightarrow> Some (mc_cycles (mbus_cpu s') + 1))"

definition emu_pc_after_clock :: "emu_bus \<Rightarrow> int option" where
  "emu_pc_after_clock s =
     (case emu_cpu_clock s of Inl e \<Rightarrow> None | Inr s' \<Rightarrow> Some (cpu_pc (bus_cpu s')))"

text \<open>
  A two-byte program in RAM at \<open>at\<close>, the CPU about to fetch it (\<open>cycles = 0\<close>) with the
  given status register.
\<close>

definition emu_ram_program :: "nat \<Rightarrow> int \<Rightarrow> int \<Rightarrow> int \<Rightarrow> emu_bus" where
  "emu_ram_program at b0 b1 status = emu_bus_init\<lparr>
     bus_cpu := emu_cpu_init\<lparr>cpu_pc := int at, cpu_status := status\<rparr>,
     cpu_ram := (replicate 2048 0)[at := b0, Suc at := b1]\<rparr>"

definition mon_ram_program :: "nat \<Rightarrow> int \<Rightarrow> int \<Rightarrow> int \<Rightarrow> mon_bus" where
  "mon_ram_program at b0 b1 status = mon_bus_init\<lparr>
     mbus_cpu := mon_cpu_init\<lparr>mc_pc := int at, mc_status := status\<rparr>,
     mbus_cpu_ram := (replicate 2048 0)[at := b0, Suc at := b1]\<rparr>"

text \<open>\<open>LDA #$42\<close> in the last two bytes of a 16 KB PRG image, and the CPU at 0xFFFE.\<close>

definition emu_bus_fffe :: emu_bus where
  "emu_bus_fffe = emu_bus_init\<lparr>
     bus_cpu := emu_cpu_init\<lparr>cpu_pc := 0xFFFE\<rparr>,
     bus_cart := Some (emu_rom_16k (replicate 0x3FFE 0xEA @ [0xA9, 0x42]))\<rparr>"

text \<open>
  The eight conditional branches and what each tests; the signed target of a branch
  whose operand byte is \<open>off\<close>, from the PC incremented past the operand; the page of an
  address.
\<close>

definition branch_opcodes :: "int list" where
  "branch_opcodes = [0x10, 0x30, 0x50, 0x70, 0x90, 0xB0, 0xD0, 0xF0]"

definition branch_taken :: "int \<Rightarrow> int \<Rightarrow> bool" where
  "branch_taken opcode status =
     (if opcode = 0x10 then status AND FLAG_N = 0
      else if opcode = 0x30 then status AND FLAG_N \<noteq> 0
      else if opcode = 0x50 then status AND FLAG_V = 0
      else if opcode = 0x70 then status AND FLAG_V \<noteq> 0
      else if opcode = 0x90 then status AND FLAG_C = 0
      else if opcode = 0xB0 then status AND FLAG_C \<noteq> 0
      else if opcode = 0xD0 then status AND FLAG_Z = 0
      else status AND FLAG_Z \<noteq> 0)"

definition branch_target :: "int \<Rightarrow> int \<Rightarrow> int" where
  "branch_target pc off = (pc + (if off \<ge> 128 then off - 256 else off)) mod 65536"

definition page_of :: "int \<Rightarrow> int" where
  "page_of addr = (addr mod 65536) div 256"
text \<open>
  Two writes of 0x00 to PPUADDR through the CPU bus; one read of PPUDATA, with the byte
  it returns and the buffer and the address it leaves; the state of \<open>emu_bus_8000\<close> with
  PPU address \<open>v\<close>, read buffer \<open>buf\<close>, 0x77 in the first nametable byte and 0x2A in the
  first palette entry.
\<close>

definition emu_ppuaddr_zero :: "emu_bus \<Rightarrow> emu_bus res" where
  "emu_ppuaddr_zero s =
     bnd (emu_bus_cpu_write s 0x2006 0x00) (\<lambda>s1. emu_bus_cpu_write s1 0x2006 0x00)"

definition mon_ppuaddr_zero :: "mon_bus \<Rightarrow> mon_bus res" where
  "mon_ppuaddr_zero s =
     bnd (mon_bus_cpu_write s 0x2006 0x00) (\<lambda>s1. mon_bus_cpu_write s1 0x2006 0x00)"

definition emu_ppudata_read :: "emu_bus \<Rightarrow> (int \<times> int \<times> int) option" where
  "emu_ppudata_read s =
     (case emu_bus_cpu_read s 0x2007 of
        Inl e \<Rightarrow> None
      | Inr (d, s') \<Rightarrow> Some (d, ppudata_buffer (bus_ppu s'), ppu_v (bus_ppu s')))"

definition mon_ppudata_read :: "mon_bus \<Rightarrow> (int \<times> int \<times> int) option" where
  "mon_ppudata_read s =
     (case mon_bus_cpu_read s 0x2007 of
        Inl e \<Rightarrow> None
      | Inr (d, s') \<Rightarrow> Some (d, m_buffer_data (mbus_ppu s'), m_vram_addr (mbus_ppu s')))"

definition emu_ppudata_state :: "int \<Rightarrow> int \<Rightarrow> emu_bus" where
  "emu_ppudata_state v buf =
     ppu_upd (\<lambda>p. p\<lparr>ppu_v := v, ppudata_buffer := buf, vram := (vram p)[0 := 0x77],
                    palette_ram := (palette_ram p)[0 := 0x2A]\<rparr>) emu_bus_8000"

definition mon_ppudata_state :: "int \<Rightarrow> int \<Rightarrow> mon_bus" where
  "mon_ppudata_state v buf =
     mppu_upd (\<lambda>p. p\<lparr>m_vram_addr := v, m_buffer_data := buf, m_vram := (m_vram p)[0 := 0x77],
                     m_palette_ram := (m_palette_ram p)[0 := 0x2A]\<rparr>) mon_bus_8000"
text \<open>
  Frame timing. A bus on which \<open>PPU2C02.clock()\<close> cannot raise: the memories have the
  sizes \<open>__init__\<close> gives them, a cartridge is inserted whose CHR memory covers what it
  declares, fine X is not negative and NMI generation (bit 7 of PPUCTRL) is off.
\<close>

definition emu_chr_ok :: "emu_rom \<Rightarrow> bool" where
  "emu_chr_ok rom =
     (if chr_rom_size rom > 0 then chr_rom_size rom \<le> int (length (chr_rom rom))
      else (case chr_ram rom of None \<Rightarrow> False | Some ram \<Rightarrow> length ram = 8192))"

definition emu_ppu_ready :: "emu_bus \<Rightarrow> bool" where
  "emu_ppu_ready s =
     (let p = bus_ppu s in
      length (vram p) = 2048 \<and> length (palette_ram p) = 32 \<and> length (oam p) = 256
      \<and> length (screen p) = 240 \<and> list_all (\<lambda>row. length row = 256) (screen p)
      \<and> 0 \<le> ppu_x p \<and> (ppuctrl p AND 0x80) = 0
      \<and> (case bus_cart s of None \<Rightarrow> False | Some rom \<Rightarrow> emu_chr_ok rom))"

text \<open>
  What one call of \<open>clock()\<close> does to \<open>(scanline, cycle, f)\<close> in EMUNES5.23.251.0A.py, and
  whether it raises \<open>frame_complete\<close>: the skip of cycle 0 on scanline 0, the skip of cycle
  339 on scanline 261 of an odd frame, then the advance. \<open>emu_tick_run n\<close> is \<open>n\<close> calls,
  with the number of calls that raised the signal.
\<close>

definition emu_tick :: "int \<times> int \<times> int \<Rightarrow> (int \<times> int \<times> int) \<times> bool" where
  "emu_tick t =
     (case t of (sl, cyc, f) \<Rightarrow>
        let c0 = (if sl = 0 \<and> cyc = 0 then 1
                  else if sl = 261 \<and> cyc = 339 \<and> f \<noteq> 0 then 340 else cyc)
        in if c0 + 1 > 340
           then (if sl + 1 > 261 then ((0, 0, f XOR 1), True) else ((sl + 1, 0, f), False))
           else ((sl, c0 + 1, f), False))"

fun emu_tick_run :: "nat \<Rightarrow> int \<times> int \<times> int \<Rightarrow> nat \<times> (int \<times> int \<times> int)" where
  "emu_tick_run 0 t = (0, t)"
| "emu_tick_run (Suc n) t =
     (case emu_tick t of (t1, raised) \<Rightarrow>
        case emu_tick_run n t1 of (k, t2) \<Rightarrow> ((if raised then Suc k else k), t2))"

definition emu_timing :: "emu_bus \<Rightarrow> int \<times> int \<times> int" where
  "emu_timing s = (scanline (bus_ppu s), cycle (bus_ppu s), ppu_f (bus_ppu s))"

text \<open>
  \<open>n\<close> calls of \<open>clock()\<close>: the number of \<open>frame_complete\<close> signals and the scanline and
  cycle counters they leave, or \<open>None\<close> when a call raises.
\<close>

definition emu_frame_counters :: "nat \<Rightarrow> emu_bus \<Rightarrow> (nat \<times> int \<times> int) option" where
  "emu_frame_counters n s =
     (case emu_ppu_run n s of
        Inl e \<Rightarrow> None
      | Inr (k, s') \<Rightarrow> Some (k, scanline (bus_ppu s'), cycle (bus_ppu s')))"

text \<open>
  The same for MonikaNES.py. Its \<open>clock()\<close> cannot raise on a bus whose memories have the
  sizes \<open>__init__\<close> gives them, whose cartridge, if there is one, holds 8 KB of CHR memory,
  with NMI generation off and every sprite's X byte between 0 and 248 (the sprite loop
  writes \<open>pixel_buffer[scanline][cycle - 1]\<close> up to 7 pixels right of the sprite's X).
\<close>

definition mon_chr_ok :: "mon_rom \<Rightarrow> bool" where
  "mon_chr_ok rom =
     (if m_chr_rom_size rom > 0 then 8192 \<le> length (m_chr_rom rom)
      else (case m_chr_ram rom of None \<Rightarrow> False | Some ram \<Rightarrow> 8192 \<le> length ram))"

definition mon_ppu_ready :: "mon_bus \<Rightarrow> bool" where
  "mon_ppu_ready s =
     (let p = mbus_ppu s in
      length (m_vram p) = 4096 \<and> length (m_palette_ram p) = 32 \<and> length (m_oam p) = 256
      \<and> length (m_pixel_buffer p) = 240 \<and> list_all (\<lambda>row. length row = 256) (m_pixel_buffer p)
      \<and> (drop_bit 7 (m_PPUCTRL p)) AND 1 = 0
      \<and> list_all (\<lambda>k. 0 \<le> m_oam p ! (4 * k + 3) \<and> m_oam p ! (4 * k + 3) \<le> 248) [0..<64]
      \<and> (case mbus_cart s of None \<Rightarrow> True | Some rom \<Rightarrow> mon_chr_ok rom))"

definition mon_timing :: "mon_bus \<Rightarrow> int \<times> int" where
  "mon_timing s = (m_scanline (mbus_ppu s), m_cycle (mbus_ppu s))"

definition mon_quiet :: "mon_bus \<Rightarrow> mon_bus res \<Rightarrow> bool" where
  "mon_quiet s r =
     (case r of
        Inl e \<Rightarrow> False
      | Inr s' \<Rightarrow> mon_ppu_ready s' \<and> mon_timing s' = mon_timing s
                 \<and> m_frame_complete (mbus_ppu s') = m_frame_complete (mbus_ppu s))"

definition mon_ppu_same :: "mon_ppu \<Rightarrow> mon_ppu \<Rightarrow> bool" where
  "mon_ppu_same p q =
     (m_vram q = m_vram p \<and> m_palette_ram q = m_palette_ram p \<and> m_oam q = m_oam p
      \<and> m_pixel_buffer q = m_pixel_buffer p \<and> m_PPUCTRL q = m_PPUCTRL p
      \<and> m_scanline q = m_scanline p \<and> m_cycle q = m_cycle p
      \<and> m_frame_complete q = m_frame_complete p)"

text \<open>
  \<open>n\<close> calls of \<open>PPU2C02.clock()\<close> of MonikaNES.py, with the flag lowered before each call
  as \<open>emulate_frame\<close> lowers it after each frame, and what they leave in the counters.
\<close>

fun mon_ppu_run :: "nat \<Rightarrow> mon_bus \<Rightarrow> (nat \<times> mon_bus) res" where
  "mon_ppu_run 0 s = Inr (0, s)"
| "mon_ppu_run (Suc n) s =
     bnd (mon_ppu_clock (mppu_upd (\<lambda>p. p\<lparr>m_frame_complete := False\<rparr>) s)) (\<lambda>s1.
     bnd (mon_ppu_run n s1) (\<lambda>(k, s2).
       Inr ((if m_frame_complete (mbus_ppu s1) then Suc k else k), s2)))"

definition mon_frame_counters :: "nat \<Rightarrow> mon_bus \<Rightarrow> (nat \<times> int \<times> int) option" where
  "mon_frame_counters n s =
     (case mon_ppu_run n s of
        Inl e \<Rightarrow> None
      | Inr (k, s') \<Rightarrow> Some (k, m_scanline (mbus_ppu s'), m_cycle (mbus_ppu s')))"

text \<open>
  What one call does to \<open>(scanline, cycle)\<close> in MonikaNES.py, and whether it raises
  \<open>frame_complete\<close>.
\<close>

definition mon_tick :: "int \<times> int \<Rightarrow> (int \<times> int) \<times> bool" where
  "mon_tick t =
     (case t of (sl, cyc) \<Rightarrow>
        if cyc + 1 > 340
        then (if sl + 1 > 261 then ((0, 0), True) else ((sl + 1, 0), False))
        else ((sl, cyc + 1), False))"

fun mon_tick_run :: "nat \<Rightarrow> int \<times> int \<Rightarrow> nat \<times> (int \<times> int)" where
  "mon_tick_run 0 t = (0, t)"
| "mon_tick_run (Suc n) t =
     (case mon_tick t of (t1, raised) \<Rightarrow>
        case mon_tick_run n t1 of (k, t2) \<Rightarrow> ((if raised then Suc k else k), t2))"
text \<open>
  A result that is a state, ready again, with the counters and the frame flag of \<open>s\<close>.
\<close>

definition emu_quiet :: "emu_bus \<Rightarrow> emu_bus res \<Rightarrow> bool" where
  "emu_quiet s r =
     (case r of
        Inl e \<Rightarrow> False
      | Inr s' \<Rightarrow> emu_ppu_ready s' \<and> emu_timing s' = emu_timing s
                 \<and> frame_complete (bus_ppu s') = frame_complete (bus_ppu s))"
text \<open>Two PPU records that agree on the memories, fine X, PPUCTRL and the counters.\<close>

definition emu_ppu_same :: "emu_ppu \<Rightarrow> emu_ppu \<Rightarrow> bool" where
  "emu_ppu_same p q =
     (vram q = vram p \<and> palette_ram q = palette_ram p \<and> oam q = oam p \<and> screen q = screen p
      \<and> ppu_x q = ppu_x p \<and> ppuctrl q = ppuctrl p \<and> scanline q = scanline p
      \<and> cycle q = cycle p \<and> ppu_f q = ppu_f p \<and> frame_complete q = frame_complete p)"
text \<open>
  \<open>ADC #$50\<close> in RAM at \<open>at\<close> with A = 0x50, the CPU about to fetch it; what one call of
  \<open>clock()\<close> leaves in A and in the flags V, C, N, Z.
\<close>

definition emu_adc_program :: "nat \<Rightarrow> int \<Rightarrow> emu_bus" where
  "emu_adc_program at status =
     cpu_upd (\<lambda>c. c\<lparr>cpu_a := 0x50\<rparr>) (emu_ram_program at 0x69 0x50 status)"

definition mon_adc_program :: "nat \<Rightarrow> int \<Rightarrow> mon_bus" where
  "mon_adc_program at status =
     mcpu_upd (\<lambda>c. c\<lparr>mc_a := 0x50\<rparr>) (mon_ram_program at 0x69 0x50 status)"

definition emu_clock_a_flags :: "emu_bus \<Rightarrow> (int \<times> bool \<times> bool \<times> bool \<times> bool) option" where
  "emu_clock_a_flags s =
     (case emu_cpu_clock s of
        Inl e \<Rightarrow> None
      | Inr s' \<Rightarrow> Some (cpu_a (bus_cpu s'), get_flag (bus_cpu s') FLAG_V,
                        get_flag (bus_cpu s') FLAG_C, get_flag (bus_cpu s') FLAG_N,
                        get_flag (bus_cpu s') FLAG_Z))"

definition mon_clock_a_flags :: "mon_bus \<Rightarrow> (int \<times> int \<times> int \<times> int \<times> int) option" where
  "mon_clock_a_flags s =
     (case mon_cpu_clock s of
        Inl e \<Rightarrow> None
      | Inr s' \<Rightarrow> Some (mc_a (mbus_cpu s'), mon_get_flag (mbus_cpu s') FLAG_V,
                        mon_get_flag (mbus_cpu s') FLAG_C, mon_get_flag (mbus_cpu s') FLAG_N,
                        mon_get_flag (mbus_cpu s') FLAG_Z))"
text \<open>A call that returns, whatever it returns.\<close>

definition py_returns :: "'a res \<Rightarrow> bool" where
  "py_returns r = (case r of Inl e \<Rightarrow> False | Inr x \<Rightarrow> True)"

lemma and_mask_mod: "(x::int) AND (2 ^ n - 1) = x mod 2 ^ n"
  by (simp add: take_bit_eq_mod [symmetric] take_bit_eq_mask mask_eq_exp_minus_1)

lemma and_1F: "(x::int) AND 0x1F = x mod 32" using and_mask_mod [of x 5] by simp
lemma and_3F: "(x::int) AND 0x3F = x mod 64" using and_mask_mod [of x 6] by simp
lemma and_FF: "(x::int) AND 0xFF = x mod 256" using and_mask_mod [of x 8] by simp
lemma and_3FFF: "(x::int) AND 0x3FFF = x mod 16384" using and_mask_mod [of x 14] by simp
lemma and_FFFF: "(x::int) AND 0xFFFF = x mod 65536" using and_mask_mod [of x 16] by simp

lemma py_get_in: "0 \<le> i \<Longrightarrow> i < int (length xs) \<Longrightarrow> py_get xs i = Inr (xs ! nat i)"
  by (simp add: py_get_def py_index_def)

lemma py_set_byte_in:
  "0 \<le> i \<Longrightarrow> i < int (length xs) \<Longrightarrow> 0 \<le> v \<Longrightarrow> v < 256
   \<Longrightarrow> py_set_byte xs i v = Inr (xs[nat i := v])"
  by (simp add: py_set_byte_def py_index_def)

lemma emu_palette_addr_range: "0 \<le> emu_palette_addr a \<and> emu_palette_addr a < 32"
  by (simp add: emu_palette_addr_def Let_def and_1F)

lemma mon_actual_addr_range: "0 \<le> mon_actual_addr a \<and> mon_actual_addr a < 32"
  by (simp add: mon_actual_addr_def Let_def and_1F)

lemma emu_palette_write:
  assumes "length (palette_ram (bus_ppu s)) = 32" "0x3F00 \<le> a" "a \<le> 0x3FFF"
  shows "emu_bus_ppu_write s a d = Inr (s\<lparr>bus_ppu := (bus_ppu s)\<lparr>palette_ram :=
           (palette_ram (bus_ppu s))[nat (emu_palette_addr a) := d AND 0x3F]\<rparr>\<rparr>)"
proof -
  have m: "a AND 0x3FFF = a" using assms by (simp add: and_3FFF)
  have r: "0 \<le> emu_palette_addr a \<and> emu_palette_addr a < 32" by (rule emu_palette_addr_range)
  have d: "0 \<le> d AND 0x3F \<and> d AND 0x3F < 256" by (simp add: and_3F)
  show ?thesis using assms r d
    by (cases "bus_cart s")
       (simp_all add: emu_bus_ppu_write_def m Let_def bnd_def emu_cart_ppu_write_def py_set_byte_in)
qed

lemma emu_palette_read:
  assumes "length (palette_ram (bus_ppu s)) = 32" "0x3F00 \<le> a" "a \<le> 0x3FFF"
  shows "emu_bus_ppu_read s a = Inr ((palette_ram (bus_ppu s) ! nat (emu_palette_addr a)) AND 0x3F)"
proof -
  have m: "a AND 0x3FFF = a" using assms by (simp add: and_3FFF)
  have r: "0 \<le> emu_palette_addr a \<and> emu_palette_addr a < 32" by (rule emu_palette_addr_range)
  show ?thesis using assms r
    by (cases "bus_cart s")
       (simp_all add: emu_bus_ppu_read_def m Let_def bnd_def emu_cart_ppu_read_def py_get_in)
qed

lemma mon_palette_write:
  assumes "length (m_palette_ram (mbus_ppu s)) = 32" "0x3F00 \<le> a" "a \<le> 0x3FFF"
  shows "mon_bus_ppu_write s a d = Inr (s\<lparr>mbus_ppu := (mbus_ppu s)\<lparr>m_palette_ram :=
           (m_palette_ram (mbus_ppu s))[nat (mon_actual_addr a) := d AND 0x3F]\<rparr>\<rparr>)"
proof -
  have r: "0 \<le> mon_actual_addr a \<and> mon_actual_addr a < 32" by (rule mon_actual_addr_range)
  have d: "0 \<le> d AND 0x3F \<and> d AND 0x3F < 256" by (simp add: and_3F)
  show ?thesis using assms r d
    by (cases "mbus_cart s")
       (simp_all add: mon_bus_ppu_write_def Let_def bnd_def mon_cart_ppu_write_def py_set_byte_in)
qed

lemma mon_palette_read:
  assumes "length (m_palette_ram (mbus_ppu s)) = 32" "0x3F00 \<le> a" "a \<le> 0x3FFF"
  shows "mon_bus_ppu_read s a = Inr ((m_palette_ram (mbus_ppu s) ! nat (mon_actual_addr a)) AND 0x3F)"
proof -
  have r: "0 \<le> mon_actual_addr a \<and> mon_actual_addr a < 32" by (rule mon_actual_addr_range)
  show ?thesis using assms r
    by (cases "mbus_cart s")
       (simp_all add: mon_bus_ppu_read_def Let_def bnd_def mon_cart_ppu_read_def py_get_in)
qed

lemma flag_bit: "((x::int) AND 2 ^ k \<noteq> 0) = bit x k"
  by (simp add: and_exp_eq_0_iff_not_bit)

lemma flag_bit_pos: "((x::int) AND 2 ^ k > 0) = bit x k"
proof -
  have "0 \<le> x AND 2 ^ k" by simp
  then have "(x AND 2 ^ k > 0) = (x AND 2 ^ k \<noteq> 0)" by linarith
  then show ?thesis by (simp add: flag_bit)
qed

lemma get_flag_set_flag:
  "get_flag (set_flag (2 ^ k) v c) (2 ^ j) = (if j = k then v else get_flag c (2 ^ j))"
  by (simp add: get_flag_def set_flag_def flag_bit bit_simps)

lemma mon_get_flag_set_flag:
  "mon_get_flag (mon_set_flag (2 ^ k) v c) (2 ^ j) =
     (if j = k then (if v then 1 else 0) else mon_get_flag c (2 ^ j))"
  by (simp add: mon_get_flag_def mon_set_flag_def flag_bit_pos bit_simps)

lemma set_flag_fields [simp]:
  "cpu_a (set_flag f v c) = cpu_a c" "cpu_x (set_flag f v c) = cpu_x c"
  "cpu_y (set_flag f v c) = cpu_y c" "cpu_stkp (set_flag f v c) = cpu_stkp c"
  "cpu_pc (set_flag f v c) = cpu_pc c" "cpu_fetched (set_flag f v c) = cpu_fetched c"
  "cpu_addr_abs (set_flag f v c) = cpu_addr_abs c" "cpu_addr_rel (set_flag f v c) = cpu_addr_rel c"
  "cpu_opcode (set_flag f v c) = cpu_opcode c" "cpu_cycles (set_flag f v c) = cpu_cycles c"
  by (simp_all add: set_flag_def)

lemma mon_set_flag_fields [simp]:
  "mc_a (mon_set_flag f v c) = mc_a c" "mc_x (mon_set_flag f v c) = mc_x c"
  "mc_y (mon_set_flag f v c) = mc_y c" "mc_stkp (mon_set_flag f v c) = mc_stkp c"
  "mc_pc (mon_set_flag f v c) = mc_pc c" "mc_fetched (mon_set_flag f v c) = mc_fetched c"
  "mc_addr_abs (mon_set_flag f v c) = mc_addr_abs c" "mc_addr_rel (mon_set_flag f v c) = mc_addr_rel c"
  "mc_opcode (mon_set_flag f v c) = mc_opcode c" "mc_cycles (mon_set_flag f v c) = mc_cycles c"
  by (simp_all add: mon_set_flag_def)

lemma set_ZN_fields [simp]:
  "cpu_a (set_ZN r c) = cpu_a c" "cpu_x (set_ZN r c) = cpu_x c"
  "cpu_y (set_ZN r c) = cpu_y c" "cpu_stkp (set_ZN r c) = cpu_stkp c"
  "cpu_pc (set_ZN r c) = cpu_pc c" "cpu_fetched (set_ZN r c) = cpu_fetched c"
  "cpu_addr_abs (set_ZN r c) = cpu_addr_abs c" "cpu_addr_rel (set_ZN r c) = cpu_addr_rel c"
  "cpu_opcode (set_ZN r c) = cpu_opcode c" "cpu_cycles (set_ZN r c) = cpu_cycles c"
  by (simp_all add: set_ZN_def)

lemma mon_set_ZN_fields [simp]:
  "mc_a (mon_set_ZN r c) = mc_a c" "mc_x (mon_set_ZN r c) = mc_x c"
  "mc_y (mon_set_ZN r c) = mc_y c" "mc_stkp (mon_set_ZN r c) = mc_stkp c"
  "mc_pc (mon_set_ZN r c) = mc_pc c" "mc_fetched (mon_set_ZN r c) = mc_fetched c"
  "mc_addr_abs (mon_set_ZN r c) = mc_addr_abs c" "mc_addr_rel (mon_set_ZN r c) = mc_addr_rel c"
  "mc_opcode (mon_set_ZN r c) = mc_opcode c" "mc_cycles (mon_set_ZN r c) = mc_cycles c"
  by (simp_all add: mon_set_ZN_def)

lemma get_flag_fields [simp]:
  "get_flag (c\<lparr>cpu_a := va\<rparr>) f = get_flag c f"
  "get_flag (c\<lparr>cpu_fetched := vf\<rparr>) f = get_flag c f"
  "get_flag (c\<lparr>cpu_pc := vp\<rparr>) f = get_flag c f"
  "get_flag (c\<lparr>cpu_cycles := vc\<rparr>) f = get_flag c f"
  "get_flag (c\<lparr>cpu_addr_abs := vb\<rparr>) f = get_flag c f"
  "get_flag (c\<lparr>cpu_addr_rel := vr\<rparr>) f = get_flag c f"
  "get_flag (c\<lparr>cpu_opcode := vo\<rparr>) f = get_flag c f"
  by (simp_all add: get_flag_def)

lemma mon_get_flag_fields [simp]:
  "mon_get_flag (c\<lparr>mc_a := va\<rparr>) f = mon_get_flag c f"
  "mon_get_flag (c\<lparr>mc_fetched := vf\<rparr>) f = mon_get_flag c f"
  "mon_get_flag (c\<lparr>mc_pc := vp\<rparr>) f = mon_get_flag c f"
  "mon_get_flag (c\<lparr>mc_cycles := vc\<rparr>) f = mon_get_flag c f"
  "mon_get_flag (c\<lparr>mc_addr_abs := vb\<rparr>) f = mon_get_flag c f"
  "mon_get_flag (c\<lparr>mc_addr_rel := vr\<rparr>) f = mon_get_flag c f"
  by (simp_all add: mon_get_flag_def)

lemma get_set_flags [simp]:
  "get_flag (set_flag FLAG_C v c) FLAG_C = v"
  "get_flag (set_flag FLAG_C v c) FLAG_Z = get_flag c FLAG_Z"
  "get_flag (set_flag FLAG_C v c) FLAG_I = get_flag c FLAG_I"
  "get_flag (set_flag FLAG_C v c) FLAG_D = get_flag c FLAG_D"
  "get_flag (set_flag FLAG_C v c) FLAG_B = get_flag c FLAG_B"
  "get_flag (set_flag FLAG_C v c) FLAG_U = get_flag c FLAG_U"
  "get_flag (set_flag FLAG_C v c) FLAG_V = get_flag c FLAG_V"
  "get_flag (set_flag FLAG_C v c) FLAG_N = get_flag c FLAG_N"
  "get_flag (set_flag FLAG_Z v c) FLAG_C = get_flag c FLAG_C"
  "get_flag (set_flag FLAG_Z v c) FLAG_Z = v"
  "get_flag (set_flag FLAG_Z v c) FLAG_I = get_flag c FLAG_I"
  "get_flag (set_flag FLAG_Z v c) FLAG_D = get_flag c FLAG_D"
  "get_flag (set_flag FLAG_Z v c) FLAG_B = get_flag c FLAG_B"
  "get_flag (set_flag FLAG_Z v c) FLAG_U = get_flag c FLAG_U"
  "get_flag (set_flag FLAG_Z v c) FLAG_V = get_flag c FLAG_V"
  "get_flag (set_flag FLAG_Z v c) FLAG_N = get_flag c FLAG_N"
  "get_flag (set_flag FLAG_I v c) FLAG_C = get_flag c FLAG_C"
  "get_flag (set_flag FLAG_I v c) FLAG_Z = get_flag c FLAG_Z"
  "get_flag (set_flag FLAG_I v c) FLAG_I = v"
  "get_flag (set_flag FLAG_I v c) FLAG_D = get_flag c FLAG_D"
  "get_flag (set_flag FLAG_I v c) FLAG_B = get_flag c FLAG_B"
  "get_flag (set_flag FLAG_I v c) FLAG_U = get_flag c FLAG_U"
  "get_flag (set_flag FLAG_I v c) FLAG_V = get_flag c FLAG_V"
  "get_flag (set_flag FLAG_I v c) FLAG_N = get_flag c FLAG_N"
  "get_flag (set_flag FLAG_D v c) FLAG_C = get_flag c FLAG_C"
  "get_flag (set_flag FLAG_D v c) FLAG_Z = get_flag c FLAG_Z"
  "get_flag (set_flag FLAG_D v c) FLAG_I = get_flag c FLAG_I"
  "get_flag (set_flag FLAG_D v c) FLAG_D = v"
  "get_flag (set_flag FLAG_D v c) FLAG_B = get_flag c FLAG_B"
  "get_flag (set_flag FLAG_D v c) FLAG_U = get_flag c FLAG_U"
  "get_flag (set_flag FLAG_D v c) FLAG_V = get_flag c FLAG_V"
  "get_flag (set_flag FLAG_D v c) FLAG_N = get_flag c FLAG_N"
  "get_flag (set_flag FLAG_B v c) FLAG_C = get_flag c FLAG_C"
  "get_flag (set_flag FLAG_B v c) FLAG_Z = get_flag c FLAG_Z"
  "get_flag (set_flag FLAG_B v c) FLAG_I = get_flag c FLAG_I"
  "get_flag (set_flag FLAG_B v c) FLAG_D = get_flag c FLAG_D"
  "get_flag (set_flag FLAG_B v c) FLAG_B = v"
  "get_flag (set_flag FLAG_B v c) FLAG_U = get_flag c FLAG_U"
  "get_flag (set_flag FLAG_B v c) FLAG_V = get_flag c FLAG_V"
  "get_flag (set_flag FLAG_B v c) FLAG_N = get_flag c FLAG_N"
  "get_flag (set_flag FLAG_U v c) FLAG_C = get_flag c FLAG_C"
  "get_flag (set_flag FLAG_U v c) FLAG_Z = get_flag c FLAG_Z"
  "get_flag (set_flag FLAG_U v c) FLAG_I = get_flag c FLAG_I"
  "get_flag (set_flag FLAG_U v c) FLAG_D = get_flag c FLAG_D"
  "get_flag (set_flag FLAG_U v c) FLAG_B = get_flag c FLAG_B"
  "get_flag (set_flag FLAG_U v c) FLAG_U = v"
  "get_flag (set_flag FLAG_U v c) FLAG_V = get_flag c FLAG_V"
  "get_flag (set_flag FLAG_U v c) FLAG_N = get_flag c FLAG_N"
  "get_flag (set_flag FLAG_V v c) FLAG_C = get_flag c FLAG_C"
  "get_flag (set_flag FLAG_V v c) FLAG_Z = get_flag c FLAG_Z"
  "get_flag (set_flag FLAG_V v c) FLAG_I = get_flag c FLAG_I"
  "get_flag (set_flag FLAG_V v c) FLAG_D = get_flag c FLAG_D"
  "get_flag (set_flag FLAG_V v c) FLAG_B = get_flag c FLAG_B"
  "get_flag (set_flag FLAG_V v c) FLAG_U = get_flag c FLAG_U"
  "get_flag (set_flag FLAG_V v c) FLAG_V = v"
  "get_flag (set_flag FLAG_V v c) FLAG_N = get_flag c FLAG_N"
  "get_flag (set_flag FLAG_N v c) FLAG_C = get_flag c FLAG_C"
  "get_flag (set_flag FLAG_N v c) FLAG_Z = get_flag c FLAG_Z"
  "get_flag (set_flag FLAG_N v c) FLAG_I = get_flag c FLAG_I"
  "get_flag (set_flag FLAG_N v c) FLAG_D = get_flag c FLAG_D"
  "get_flag (set_flag FLAG_N v c) FLAG_B = get_flag c FLAG_B"
  "get_flag (set_flag FLAG_N v c) FLAG_U = get_flag c FLAG_U"
  "get_flag (set_flag FLAG_N v c) FLAG_V = get_flag c FLAG_V"
  "get_flag (set_flag FLAG_N v c) FLAG_N = v"
  by (simp_all add: get_flag_def set_flag_def FLAG_C_def FLAG_Z_def FLAG_I_def FLAG_D_def
        FLAG_B_def FLAG_U_def FLAG_V_def FLAG_N_def
        flag_bit [of _ 0, simplified] flag_bit [of _ 1, simplified] flag_bit [of _ 2, simplified]
        flag_bit [of _ 3, simplified] flag_bit [of _ 4, simplified] flag_bit [of _ 5, simplified]
        flag_bit [of _ 6, simplified] flag_bit [of _ 7, simplified] bit_simps)

lemma mon_get_set_flags [simp]:
  "mon_get_flag (mon_set_flag FLAG_C v c) FLAG_C = (if v then 1 else 0)"
  "mon_get_flag (mon_set_flag FLAG_C v c) FLAG_Z = mon_get_flag c FLAG_Z"
  "mon_get_flag (mon_set_flag FLAG_C v c) FLAG_I = mon_get_flag c FLAG_I"
  "mon_get_flag (mon_set_flag FLAG_C v c) FLAG_D = mon_get_flag c FLAG_D"
  "mon_get_flag (mon_set_flag FLAG_C v c) FLAG_B = mon_get_flag c FLAG_B"
  "mon_get_flag (mon_set_flag FLAG_C v c) FLAG_U = mon_get_flag c FLAG_U"
  "mon_get_flag (mon_set_flag FLAG_C v c) FLAG_V = mon_get_flag c FLAG_V"
  "mon_get_flag (mon_set_flag FLAG_C v c) FLAG_N = mon_get_flag c FLAG_N"
  "mon_get_flag (mon_set_flag FLAG_Z v c) FLAG_C = mon_get_flag c FLAG_C"
  "mon_get_flag (mon_set_flag FLAG_Z v c) FLAG_Z = (if v then 1 else 0)"
  "mon_get_flag (mon_set_flag FLAG_Z v c) FLAG_I = mon_get_flag c FLAG_I"
  "mon_get_flag (mon_set_flag FLAG_Z v c) FLAG_D = mon_get_flag c FLAG_D"
  "mon_get_flag (mon_set_flag FLAG_Z v c) FLAG_B = mon_get_flag c FLAG_B"
  "mon_get_flag (mon_set_flag FLAG_Z v c) FLAG_U = mon_get_flag c FLAG_U"
  "mon_get_flag (mon_set_flag FLAG_Z v c) FLAG_V = mon_get_flag c FLAG_V"
  "mon_get_flag (mon_set_flag FLAG_Z v c) FLAG_N = mon_get_flag c FLAG_N"
  "mon_get_flag (mon_set_flag FLAG_I v c) FLAG_C = mon_get_flag c FLAG_C"
  "mon_get_flag (mon_set_flag FLAG_I v c) FLAG_Z = mon_get_flag c FLAG_Z"
  "mon_get_flag (mon_set_flag FLAG_I v c) FLAG_I = (if v then 1 else 0)"
  "mon_get_flag (mon_set_flag FLAG_I v c) FLAG_D = mon_get_flag c FLAG_D"
  "mon_get_flag (mon_set_flag FLAG_I v c) FLAG_B = mon_get_flag c FLAG_B"
  "mon_get_flag (mon_set_flag FLAG_I v c) FLAG_U = mon_get_flag c FLAG_U"
  "mon_get_flag (mon_set_flag FLAG_I v c) FLAG_V = mon_get_flag c FLAG_V"
  "mon_get_flag (mon_set_flag FLAG_I v c) FLAG_N = mon_get_flag c FLAG_N"
  "mon_get_flag (mon_set_flag FLAG_D v c) FLAG_C = mon_get_flag c FLAG_C"
  "mon_get_flag (mon_set_flag FLAG_D v c) FLAG_Z = mon_get_flag c FLAG_Z"
  "mon_get_flag (mon_set_flag FLAG_D v c) FLAG_I = mon_get_flag c FLAG_I"
  "mon_get_flag (mon_set_flag FLAG_D v c) FLAG_D = (if v then 1 else 0)"
  "mon_get_flag (mon_set_flag FLAG_D v c) FLAG_B = mon_get_flag c FLAG_B"
  "mon_get_flag (mon_set_flag FLAG_D v c) FLAG_U = mon_get_flag c FLAG_U"
  "mon_get_flag (mon_set_flag FLAG_D v c) FLAG_V = mon_get_flag c FLAG_V"
  "mon_get_flag (mon_set_flag FLAG_D v c) FLAG_N = mon_get_flag c FLAG_N"
  "mon_get_flag (mon_set_flag FLAG_B v c) FLAG_C = mon_get_flag c FLAG_C"
  "mon_get_flag (mon_set_flag FLAG_B v c) FLAG_Z = mon_get_flag c FLAG_Z"
  "mon_get_flag (mon_set_flag FLAG_B v c) FLAG_I = mon_get_flag c FLAG_I"
  "mon_get_flag (mon_set_flag FLAG_B v c) FLAG_D = mon_get_flag c FLAG_D"
  "mon_get_flag (mon_set_flag FLAG_B v c) FLAG_B = (if v then 1 else 0)"
  "mon_get_flag (mon_set_flag FLAG_B v c) FLAG_U = mon_get_flag c FLAG_U"
  "mon_get_flag (mon_set_flag FLAG_B v c) FLAG_V = mon_get_flag c FLAG_V"
  "mon_get_flag (mon_set_flag FLAG_B v c) FLAG_N = mon_get_flag c FLAG_N"
  "mon_get_flag (mon_set_flag FLAG_U v c) FLAG_C = mon_get_flag c FLAG_C"
  "mon_get_flag (mon_set_flag FLAG_U v c) FLAG_Z = mon_get_flag c FLAG_Z"
  "mon_get_flag (mon_set_flag FLAG_U v c) FLAG_I = mon_get_flag c FLAG_I"
  "mon_get_flag (mon_set_flag FLAG_U v c) FLAG_D = mon_get_flag c FLAG_D"
  "mon_get_flag (mon_set_flag FLAG_U v c) FLAG_B = mon_get_flag c FLAG_B"
  "mon_get_flag (mon_set_flag FLAG_U v c) FLAG_U = (if v then 1 else 0)"
  "mon_get_flag (mon_set_flag FLAG_U v c) FLAG_V = mon_get_flag c FLAG_V"
  "mon_get_flag (mon_set_flag FLAG_U v c) FLAG_N = mon_get_flag c FLAG_N"
  "mon_get_flag (mon_set_flag FLAG_V v c) FLAG_C = mon_get_flag c FLAG_C"
  "mon_get_flag (mon_set_flag FLAG_V v c) FLAG_Z = mon_get_flag c FLAG_Z"
  "mon_get_flag (mon_set_flag FLAG_V v c) FLAG_I = mon_get_flag c FLAG_I"
  "mon_get_flag (mon_set_flag FLAG_V v c) FLAG_D = mon_get_flag c FLAG_D"
  "mon_get_flag (mon_set_flag FLAG_V v c) FLAG_B = mon_get_flag c FLAG_B"
  "mon_get_flag (mon_set_flag FLAG_V v c) FLAG_U = mon_get_flag c FLAG_U"
  "mon_get_flag (mon_set_flag FLAG_V v c) FLAG_V = (if v then 1 else 0)"
  "mon_get_flag (mon_set_flag FLAG_V v c) FLAG_N = mon_get_flag c FLAG_N"
  "mon_get_flag (mon_set_flag FLAG_N v c) FLAG_C = mon_get_flag c FLAG_C"
  "mon_get_flag (mon_set_flag FLAG_N v c) FLAG_Z = mon_get_flag c FLAG_Z"
  "mon_get_flag (mon_set_flag FLAG_N v c) FLAG_I = mon_get_flag c FLAG_I"
  "mon_get_flag (mon_set_flag FLAG_N v c) FLAG_D = mon_get_flag c FLAG_D"
  "mon_get_flag (mon_set_flag FLAG_N v c) FLAG_B = mon_get_flag c FLAG_B"
  "mon_get_flag (mon_set_flag FLAG_N v c) FLAG_U = mon_get_flag c FLAG_U"
  "mon_get_flag (mon_set_flag FLAG_N v c) FLAG_V = mon_get_flag c FLAG_V"
  "mon_get_flag (mon_set_flag FLAG_N v c) FLAG_N = (if v then 1 else 0)"
  by (simp_all add: mon_get_flag_def mon_set_flag_def FLAG_C_def FLAG_Z_def FLAG_I_def FLAG_D_def
        FLAG_B_def FLAG_U_def FLAG_V_def FLAG_N_def
        flag_bit_pos [of _ 0, simplified] flag_bit_pos [of _ 1, simplified]
        flag_bit_pos [of _ 2, simplified] flag_bit_pos [of _ 3, simplified]
        flag_bit_pos [of _ 4, simplified] flag_bit_pos [of _ 5, simplified]
        flag_bit_pos [of _ 6, simplified] flag_bit_pos [of _ 7, simplified] bit_simps)

lemma emu_alias_iff:
  "emu_palette_addr a = emu_palette_addr b \<longleftrightarrow> spec_alias (a AND 0x1F) (b AND 0x1F)"
  by (simp add: emu_palette_addr_def spec_alias_def Let_def)

lemma mon_alias_iff:
  "mon_actual_addr a = mon_actual_addr b \<longleftrightarrow> fold_alias (a AND 0x1F) (b AND 0x1F)"
  by (auto simp add: mon_actual_addr_def fold_alias_def Let_def)

lemma and_3F_idem: "((d::int) AND 0x3F) AND 0x3F = d AND 0x3F"
  by (simp add: and.assoc)

text \<open>
  C7, as the code has it. Palette RAM is 32 bytes and a write stores the value masked with
  0x3F. In EMUNES5.23.251.0A.py entries 0x10/0x14/0x18/0x1C alias 0x00/0x04/0x08/0x0C:
  a write through one address is read back through every address of the same cell, and
  a read of any other cell is what it was before. In MonikaNES.py the cells are those
  of \<open>fold_alias\<close>: the eight entries 0x00, 0x04, ..., 0x1C are one cell.
\<close>

theorem palette_alias:
  assumes "length (palette_ram (bus_ppu s)) = 32" and "length (m_palette_ram (mbus_ppu m)) = 32"
    and "0x3F00 \<le> a" and "a \<le> 0x3FFF" and "0x3F00 \<le> b" and "b \<le> 0x3FFF"
  shows "emu_write_then_read s a d b =
           (if spec_alias (a AND 0x1F) (b AND 0x1F) then Inr (d AND 0x3F)
            else emu_bus_ppu_read s b)
       \<and> mon_write_then_read m a d b =
           (if fold_alias (a AND 0x1F) (b AND 0x1F) then Inr (d AND 0x3F)
            else mon_bus_ppu_read m b)"
proof
  let ?s' = "s\<lparr>bus_ppu := (bus_ppu s)\<lparr>palette_ram :=
                (palette_ram (bus_ppu s))[nat (emu_palette_addr a) := d AND 0x3F]\<rparr>\<rparr>"
  have ra: "0 \<le> emu_palette_addr a \<and> emu_palette_addr a < 32"
    and rb: "0 \<le> emu_palette_addr b \<and> emu_palette_addr b < 32"
    by (rule emu_palette_addr_range)+
  have w: "emu_bus_ppu_write s a d = Inr ?s'"
    using assms by (simp add: emu_palette_write)
  have r': "emu_bus_ppu_read ?s' b = Inr ((palette_ram (bus_ppu ?s') ! nat (emu_palette_addr b)) AND 0x3F)"
    using assms by (intro emu_palette_read) simp_all
  have r: "emu_bus_ppu_read s b = Inr ((palette_ram (bus_ppu s) ! nat (emu_palette_addr b)) AND 0x3F)"
    using assms by (intro emu_palette_read) simp_all
  have eq: "nat (emu_palette_addr a) = nat (emu_palette_addr b)
              \<longleftrightarrow> spec_alias (a AND 0x1F) (b AND 0x1F)"
    using ra rb emu_alias_iff [of a b] by auto
  show "emu_write_then_read s a d b =
           (if spec_alias (a AND 0x1F) (b AND 0x1F) then Inr (d AND 0x3F)
            else emu_bus_ppu_read s b)"
  proof -
    have wr: "emu_write_then_read s a d b =
                Inr ((palette_ram (bus_ppu s))[nat (emu_palette_addr a) := d AND 0x3F]
                       ! nat (emu_palette_addr b) AND 0x3F)"
      by (simp add: emu_write_then_read_def w bnd_def r')
    have nb: "nat (emu_palette_addr b) < 32" using rb by linarith
    show ?thesis using assms(1) nb
      by (simp add: wr r nth_list_update and_3F_idem eq [symmetric])
  qed
next
  let ?m' = "m\<lparr>mbus_ppu := (mbus_ppu m)\<lparr>m_palette_ram :=
                (m_palette_ram (mbus_ppu m))[nat (mon_actual_addr a) := d AND 0x3F]\<rparr>\<rparr>"
  have ra: "0 \<le> mon_actual_addr a \<and> mon_actual_addr a < 32"
    and rb: "0 \<le> mon_actual_addr b \<and> mon_actual_addr b < 32"
    by (rule mon_actual_addr_range)+
  have w: "mon_bus_ppu_write m a d = Inr ?m'"
    using assms by (simp add: mon_palette_write)
  have r': "mon_bus_ppu_read ?m' b = Inr ((m_palette_ram (mbus_ppu ?m') ! nat (mon_actual_addr b)) AND 0x3F)"
    using assms by (intro mon_palette_read) simp_all
  have r: "mon_bus_ppu_read m b = Inr ((m_palette_ram (mbus_ppu m) ! nat (mon_actual_addr b)) AND 0x3F)"
    using assms by (intro mon_palette_read) simp_all
  have eq: "nat (mon_actual_addr a) = nat (mon_actual_addr b)
              \<longleftrightarrow> fold_alias (a AND 0x1F) (b AND 0x1F)"
    using ra rb mon_alias_iff [of a b] by auto
  show "mon_write_then_read m a d b =
           (if fold_alias (a AND 0x1F) (b AND 0x1F) then Inr (d AND 0x3F)
            else mon_bus_ppu_read m b)"
  proof -
    have wr: "mon_write_then_read m a d b =
                Inr ((m_palette_ram (mbus_ppu m))[nat (mon_actual_addr a) := d AND 0x3F]
                       ! nat (mon_actual_addr b) AND 0x3F)"
      by (simp add: mon_write_then_read_def w bnd_def r')
    have nb: "nat (mon_actual_addr b) < 32" using rb by linarith
    show ?thesis using assms(2) nb
      by (simp add: wr r nth_list_update and_3F_idem eq [symmetric])
  qed
qed

theorem palette_alias_witness:
  "emu_write_then_read emu_bus_init 0x3F10 0x2A 0x3F00 = Inr 0x2A
   \<and> mon_write_then_read mon_bus_init 0x3F14 0x2A 0x3F00 = Inr 0x2A"
  using palette_alias [of emu_bus_init mon_bus_init "0x3F10" "0x3F00" "0x2A"]
        palette_alias [of emu_bus_init mon_bus_init "0x3F14" "0x3F00" "0x2A"]
  by (simp add: emu_bus_init_def emu_ppu_init_def mon_bus_init_def mon_ppu_init_def
        spec_alias_def fold_alias_def)

theorem palette_alias_counterexample:
  "mon_bus_ppu_read mon_bus_init 0x3F08 = Inr 0
   \<and> mon_write_then_read mon_bus_init 0x3F14 5 0x3F08 = Inr 5
   \<and> \<not> spec_alias 0x14 0x08"
  by (simp add: mon_write_then_read_def mon_bus_ppu_write_def mon_bus_ppu_read_def
        mon_bus_init_def mon_ppu_init_def mon_actual_addr_def bnd_def py_set_byte_def
        py_get_def py_index_def Let_def spec_alias_def)

lemma keeps_Inr [simp]: "keeps P s (Inr (x, s')) = (P s \<longrightarrow> P s')"
  by (simp add: keeps_def)

lemma keeps0_Inr [simp]: "keeps0 P s (Inr s') = (P s \<longrightarrow> P s')"
  by (simp add: keeps0_def)

lemma keeps_Inl [simp]: "keeps P s (Inl e)" by (simp add: keeps_def)
lemma keeps0_Inl [simp]: "keeps0 P s (Inl e)" by (simp add: keeps0_def)












lemma pal_inv_cpu_upd [simp]: "pal_inv (cpu_upd g s) = pal_inv s"
  by (simp add: pal_inv_def cpu_upd_def)

lemma pal_inv_bus_cpu [simp]: "pal_inv (s\<lparr>bus_cpu := c\<rparr>) = pal_inv s"
  by (simp add: pal_inv_def)


lemma palette_v_increment [simp]: "palette_ram (emu_v_increment p) = palette_ram p"
  by (simp add: emu_v_increment_def)

lemma pal_inv_misc [simp]:
  "pal_inv (s\<lparr>cpu_ram := r\<rparr>) = pal_inv s"
  "pal_inv (s\<lparr>controller1_shift := k\<rparr>) = pal_inv s"
  "pal_inv (s\<lparr>system_clock_counter := n\<rparr>) = pal_inv s"
  by (simp_all add: pal_inv_def)






















































































lemma palette_ppu_ops [simp]:
  "palette_ram (update_shifters p) = palette_ram p"
  "palette_ram (load_background_shifters p) = palette_ram p"
  "palette_ram (increment_scroll_x p) = palette_ram p"
  "palette_ram (increment_scroll_y p) = palette_ram p"
  "palette_ram (transfer_address_x p) = palette_ram p"
  "palette_ram (transfer_address_y p) = palette_ram p"
  "palette_ram (emu_prerender_scanline p) = palette_ram p"
  "palette_ram (emu_advance p) = palette_ram p"
  by (simp_all add: update_shifters_def load_background_shifters_def increment_scroll_x_def
        increment_scroll_y_def transfer_address_x_def transfer_address_y_def
        emu_prerender_scanline_def emu_advance_def Let_def)







lemma mon_pal_inv_simps [simp]:
  "mon_pal_inv (mcpu_upd g s) = mon_pal_inv s"
  "mon_pal_inv (s\<lparr>mbus_cpu := c\<rparr>) = mon_pal_inv s"
  "mon_pal_inv (s\<lparr>mbus_cpu_ram := r\<rparr>) = mon_pal_inv s"
  "mon_pal_inv (s\<lparr>mbus_cart := k\<rparr>) = mon_pal_inv s"
  by (simp_all add: mon_pal_inv_def mcpu_upd_def)


lemma m_palette_ops [simp]:
  "m_palette_ram (mon_vram_increment p) = m_palette_ram p"
  "m_palette_ram (mon_advance p) = m_palette_ram p"
  by (simp_all add: mon_vram_increment_def mon_advance_def Let_def)
















































































lemma m_palette_clock_ops [simp]:
  "m_palette_ram (mon_increment_h p) = m_palette_ram p"
  "m_palette_ram (mon_increment_v p) = m_palette_ram p"
  "m_palette_ram (mon_transfer_x p) = m_palette_ram p"
  "m_palette_ram (mon_transfer_y p) = m_palette_ram p"
  "m_palette_ram (mon_prerender_scanline p) = m_palette_ram p"
  by (simp_all add: mon_increment_h_def mon_increment_v_def mon_transfer_x_def
        mon_transfer_y_def mon_prerender_scanline_def Let_def)












lemma mon_pal_inv_counter [simp]:
  "mon_pal_inv (s\<lparr>mbus_system_clock_counter := n\<rparr>) = mon_pal_inv s"
  by (simp add: mon_pal_inv_def)







lemma emu_ppu_cpu_read_cpu: "emu_ppu_cpu_read s a = Inr (d, s') \<Longrightarrow> bus_cpu s' = bus_cpu s"
  by (auto simp: emu_ppu_cpu_read_def Let_def bnd_def ppu_upd_def split: if_splits sum.splits)

lemma emu_bus_cpu_read_cpu: "emu_bus_cpu_read s a = Inr (d, s') \<Longrightarrow> bus_cpu s' = bus_cpu s"
  by (auto simp: emu_bus_cpu_read_def Let_def bnd_def
        split: if_splits sum.splits option.splits dest: emu_ppu_cpu_read_cpu)

lemma mon_ppu_cpu_read_cpu: "mon_ppu_cpu_read s a = Inr (d, s') \<Longrightarrow> mbus_cpu s' = mbus_cpu s"
  by (auto simp: mon_ppu_cpu_read_def Let_def bnd_def mppu_upd_def split: if_splits sum.splits)

lemma mon_bus_cpu_read_cpu: "mon_bus_cpu_read s a = Inr (d, s') \<Longrightarrow> mbus_cpu s' = mbus_cpu s"
  by (auto simp: mon_bus_cpu_read_def Let_def bnd_def
        split: if_splits sum.splits option.splits dest: mon_ppu_cpu_read_cpu)

lemma emu_fetch_cpu:
  "emu_fetch s = Inr (d, s') \<Longrightarrow> bus_cpu s' = (bus_cpu s)\<lparr>cpu_fetched := d\<rparr>"
  by (auto simp: emu_fetch_def bnd_def cpu_upd_def split: if_splits sum.splits
        dest: emu_bus_cpu_read_cpu)

lemma mon_fetch_cpu:
  "mon_fetch s = Inr (d, s') \<Longrightarrow> mbus_cpu s' = (mbus_cpu s)\<lparr>mc_fetched := d\<rparr>"
  by (auto simp: mon_fetch_def bnd_def mcpu_upd_def split: if_splits sum.splits
        dest: mon_bus_cpu_read_cpu)

lemma emu_lookup_0x69: "emu_lookup 0x69 = Inr (M_IMM, I_ADC, 2)"
  by (simp add: emu_lookup_def py_index_def emu_instructions_def)

lemma mon_lookup_0x69: "mon_lookup_dict 0x69 = Inr (M_IMM, I_ADC, 2)"
  by (simp add: mon_lookup_dict_def mon_lookup_def)
lemma emu_read_high:
  assumes "0x8000 \<le> a" and "a \<le> 0xFFFF"
  shows "emu_bus_cpu_read s a =
           (case bus_cart s of
              None \<Rightarrow> Inr (0, s)
            | Some rom \<Rightarrow> bnd (emu_read_prg rom (a - 0x8000)) (\<lambda>d. Inr (d, s)))"
proof -
  have m: "a AND 0xFFFF = a" using assms by (simp add: and_FFFF)
  show ?thesis using assms
    by (cases "bus_cart s")
       (auto simp: emu_bus_cpu_read_def m Let_def bnd_def emu_cart_cpu_read_def split: sum.splits)
qed

lemma emu_read_high_same:
  assumes "0x8000 \<le> a" and "a \<le> 0xFFFF" and "emu_bus_cpu_read s a = Inr (d, s')"
  shows "s' = s \<and> emu_bus_cpu_read (cpu_upd g s) a = Inr (d, cpu_upd g s)"
  using assms(3)
  by (cases "bus_cart s")
     (auto simp: emu_read_high [OF assms(1,2)] bnd_def cpu_upd_def split: sum.splits)

lemma mon_read_high:
  assumes "0x8000 \<le> a" and "a \<le> 0xFFFF"
  shows "mon_bus_cpu_read s a =
           (case mbus_cart s of
              None \<Rightarrow> Inr (0, s)
            | Some rom \<Rightarrow> bnd (mon_read_prg rom (a - 0x8000)) (\<lambda>d. Inr (d, s)))"
  using assms
  by (cases "mbus_cart s")
     (auto simp: mon_bus_cpu_read_def Let_def bnd_def mon_cart_cpu_read_def split: sum.splits)

lemma mon_read_high_same:
  assumes "0x8000 \<le> a" and "a \<le> 0xFFFF" and "mon_bus_cpu_read s a = Inr (d, s')"
  shows "s' = s \<and> mon_bus_cpu_read (mcpu_upd g s) a = Inr (d, mcpu_upd g s)"
  using assms(3)
  by (cases "mbus_cart s")
     (auto simp: mon_read_high [OF assms(1,2)] bnd_def mcpu_upd_def split: sum.splits)

text \<open>
  C3, as the code has it. Whatever the state, when the bus reads \<open>lo\<close> at 0xFFFC and
  \<open>hi\<close> at 0xFFFD, \<open>reset()\<close> returns with PC = \<open>(hi << 8) | lo\<close>, SP = 0xFD and the
  interrupt-disable flag set, and it loads the cycle counter with 8 (not 7), in
  EMUNES5.23.251.0A.py and in MonikaNES.py.
\<close>

theorem reset_loads_vector:
  "(emu_bus_cpu_read s 0xFFFC = Inr (lo, s1) \<and> emu_bus_cpu_read s 0xFFFD = Inr (hi, s2)
      \<longrightarrow> (\<exists>s'. emu_reset s = Inr s' \<and> cpu_pc (bus_cpu s') = (push_bit 8 hi) OR lo
             \<and> cpu_stkp (bus_cpu s') = 0xFD \<and> get_flag (bus_cpu s') FLAG_I
             \<and> cpu_cycles (bus_cpu s') = 8))
   \<and> (mon_bus_cpu_read m 0xFFFC = Inr (mlo, m1) \<and> mon_bus_cpu_read m 0xFFFD = Inr (mhi, m2)
      \<longrightarrow> (\<exists>m'. mon_reset m = Inr m' \<and> mc_pc (mbus_cpu m') = (push_bit 8 mhi) OR mlo
             \<and> mc_stkp (mbus_cpu m') = 0xFD \<and> mon_get_flag (mbus_cpu m') FLAG_I = 1
             \<and> mc_cycles (mbus_cpu m') = 8))"
proof (intro conjI impI)
  assume h: "emu_bus_cpu_read s 0xFFFC = Inr (lo, s1) \<and> emu_bus_cpu_read s 0xFFFD = Inr (hi, s2)"
  let ?g = "\<lambda>c. c\<lparr>cpu_a := 0x00, cpu_x := 0x00, cpu_y := 0x00, cpu_stkp := 0xFD, cpu_status := 0x24\<rparr>"
  from h have r1: "emu_bus_cpu_read (cpu_upd ?g s) 0xFFFC = Inr (lo, cpu_upd ?g s)"
    using emu_read_high_same [of "0xFFFC" s lo s1 ?g] by simp
  from h have r2: "emu_bus_cpu_read (cpu_upd ?g s) 0xFFFD = Inr (hi, cpu_upd ?g s)"
    using emu_read_high_same [of "0xFFFD" s hi s2 ?g] by simp
  show "\<exists>s'. emu_reset s = Inr s' \<and> cpu_pc (bus_cpu s') = (push_bit 8 hi) OR lo
             \<and> cpu_stkp (bus_cpu s') = 0xFD \<and> get_flag (bus_cpu s') FLAG_I
             \<and> cpu_cycles (bus_cpu s') = 8"
    using r1 r2
    by (simp add: emu_reset_def Let_def bnd_def cpu_upd_def get_flag_def FLAG_I_def)
next
  assume h: "mon_bus_cpu_read m 0xFFFC = Inr (mlo, m1) \<and> mon_bus_cpu_read m 0xFFFD = Inr (mhi, m2)"
  let ?g = "\<lambda>c. c\<lparr>mc_addr_abs := 0xFFFC\<rparr>"
  from h have r1: "mon_bus_cpu_read (mcpu_upd ?g m) 0xFFFC = Inr (mlo, mcpu_upd ?g m)"
    using mon_read_high_same [of "0xFFFC" m mlo m1 ?g] by simp
  from h have r2: "mon_bus_cpu_read (mcpu_upd ?g m) 0xFFFD = Inr (mhi, mcpu_upd ?g m)"
    using mon_read_high_same [of "0xFFFD" m mhi m2 ?g] by simp
  show "\<exists>m'. mon_reset m = Inr m' \<and> mc_pc (mbus_cpu m') = (push_bit 8 mhi) OR mlo
             \<and> mc_stkp (mbus_cpu m') = 0xFD \<and> mon_get_flag (mbus_cpu m') FLAG_I = 1
             \<and> mc_cycles (mbus_cpu m') = 8"
    using r1 r2
    by (simp add: mon_reset_def Let_def bnd_def mcpu_upd_def mon_get_flag_def FLAG_I_def FLAG_U_def)
qed

lemma prg_reset_8000_vec:
  "py_get prg_reset_8000 0x3FFC = Inr 0x00" "py_get prg_reset_8000 0x3FFD = Inr 0x80"
  by (simp_all add: py_get_def py_index_def prg_reset_8000_def nth_append)

lemma emu_bus_8000_vec:
  "emu_bus_cpu_read emu_bus_8000 0xFFFC = Inr (0x00, emu_bus_8000)"
  "emu_bus_cpu_read emu_bus_8000 0xFFFD = Inr (0x80, emu_bus_8000)"
  by (simp_all add: emu_read_high emu_bus_8000_def emu_read_prg_def emu_rom_16k_def
        prg_reset_8000_vec bnd_def)

lemma mon_bus_8000_vec:
  "mon_bus_cpu_read mon_bus_8000 0xFFFC = Inr (0x00, mon_bus_8000)"
  "mon_bus_cpu_read mon_bus_8000 0xFFFD = Inr (0x80, mon_bus_8000)"
  by (simp_all add: mon_read_high mon_bus_8000_def mon_read_prg_def mon_rom_16k_def
        prg_reset_8000_vec bnd_def)

theorem reset_loads_vector_witness:
  "(\<exists>s'. emu_reset emu_bus_8000 = Inr s' \<and> cpu_pc (bus_cpu s') = 0x8000
       \<and> cpu_stkp (bus_cpu s') = 0xFD \<and> get_flag (bus_cpu s') FLAG_I
       \<and> cpu_cycles (bus_cpu s') = 8)
   \<and> (\<exists>m'. mon_reset mon_bus_8000 = Inr m' \<and> mc_pc (mbus_cpu m') = 0x8000
       \<and> mc_stkp (mbus_cpu m') = 0xFD \<and> mon_get_flag (mbus_cpu m') FLAG_I = 1
       \<and> mc_cycles (mbus_cpu m') = 8)"
  using reset_loads_vector [of emu_bus_8000 "0x00" emu_bus_8000 "0x80" emu_bus_8000
          mon_bus_8000 "0x00" mon_bus_8000 "0x80" mon_bus_8000]
        emu_bus_8000_vec mon_bus_8000_vec
  by simp

theorem reset_seven_cycles_counterexample:
  "emu_reset_cycles emu_bus_8000 = Some 8 \<and> mon_reset_cycles mon_bus_8000 = Some 8"
proof -
  let ?g = "\<lambda>c. c\<lparr>cpu_a := 0x00, cpu_x := 0x00, cpu_y := 0x00, cpu_stkp := 0xFD, cpu_status := 0x24\<rparr>"
  have e: "emu_bus_cpu_read (cpu_upd ?g emu_bus_8000) 0xFFFC = Inr (0x00, cpu_upd ?g emu_bus_8000)"
          "emu_bus_cpu_read (cpu_upd ?g emu_bus_8000) 0xFFFD = Inr (0x80, cpu_upd ?g emu_bus_8000)"
    using emu_read_high_same [OF _ _ emu_bus_8000_vec(1), of ?g]
          emu_read_high_same [OF _ _ emu_bus_8000_vec(2), of ?g] by simp_all
  let ?h = "\<lambda>c. c\<lparr>mc_addr_abs := 0xFFFC\<rparr>"
  have m: "mon_bus_cpu_read (mcpu_upd ?h mon_bus_8000) 0xFFFC = Inr (0x00, mcpu_upd ?h mon_bus_8000)"
          "mon_bus_cpu_read (mcpu_upd ?h mon_bus_8000) 0xFFFD = Inr (0x80, mcpu_upd ?h mon_bus_8000)"
    using mon_read_high_same [OF _ _ mon_bus_8000_vec(1), of ?h]
          mon_read_high_same [OF _ _ mon_bus_8000_vec(2), of ?h] by simp_all
  have "emu_reset_cycles emu_bus_8000 = Some 8"
    using e by (simp add: emu_reset_cycles_def emu_reset_def Let_def bnd_def cpu_upd_def)
  moreover have "mon_reset_cycles mon_bus_8000 = Some 8"
    using m by (simp add: mon_reset_cycles_def mon_reset_def Let_def bnd_def mcpu_upd_def)
  ultimately show ?thesis by simp
qed
lemma and_3FFF_small: "0 \<le> x \<Longrightarrow> x < 16384 \<Longrightarrow> (x::int) AND 0x3FFF = x"
  by (simp add: and_3FFF)

text \<open>
  C1, as the code has it. \<open>Cartridge.__init__\<close> of CATNES5.23.251.0AA.py never fails:
  for a mapper id other than 0 it prints a warning and goes on. The cartridge it builds
  answers CPU reads exactly as the one built from the same ROM with mapper id 0, and for
  a 16 KB or 32 KB PRG image that answer is the NROM decoding
  \<open>prg[(addr - 0x8000) % prg_len]\<close>.
\<close>

theorem cartridge_runs_any_mapper_as_nrom:
  "(\<exists>cart cart0.
      cat_Cartridge rom = Inr (if c_mapper_id rom \<noteq> 0 then [c_mapper_id rom] else [], cart)
      \<and> cat_Cartridge (rom\<lparr>c_mapper_id := 0\<rparr>) = Inr ([], cart0)
      \<and> cat_cart_cpu_read cart addr = cat_cart_cpu_read cart0 addr
      \<and> ((length (c_prg_rom rom) = 16384 \<or> length (c_prg_rom rom) = 32768)
            \<and> 0x8000 \<le> addr \<and> addr \<le> 0xFFFF
          \<longrightarrow> cat_cart_cpu_read cart addr
                = Inr (c_prg_rom rom ! nat (nrom_prg_index (length (c_prg_rom rom)) addr))))"
proof -
  have nrom: "cat_cart_cpu_read \<lparr> cc_rom = rom, cc_prg_ram = replicate 8192 0,
            cc_prg_banks = int (length (c_prg_rom rom)) div 16384,
            cc_chr_banks = int (length (c_chr_rom rom)) div 8192 \<rparr> addr
          = Inr (c_prg_rom rom ! nat (nrom_prg_index (length (c_prg_rom rom)) addr))"
    if len: "length (c_prg_rom rom) = 16384 \<or> length (c_prg_rom rom) = 32768"
      and lo: "0x8000 \<le> addr" and hi: "addr \<le> 0xFFFF"
  proof -
    from len show ?thesis
    proof
      assume l: "length (c_prg_rom rom) = 16384"
      have "(addr - 0x8000) AND 0x3FFF = (addr - 0x8000) mod 16384" by (simp add: and_3FFF)
      then show ?thesis using l lo hi
        by (simp add: cat_cart_cpu_read_def nrom_prg_index_def py_get_in)
    next
      assume l: "length (c_prg_rom rom) = 32768"
      have "0 \<le> addr - 0x8000 \<and> addr - 0x8000 < 32768" using lo hi by linarith
      then have "(addr - 0x8000) mod 32768 = addr - 0x8000" by (simp only: mod_pos_pos_trivial)
      then show ?thesis using l lo hi
        by (simp add: cat_cart_cpu_read_def nrom_prg_index_def py_get_in)
    qed
  qed
  show ?thesis
    using nrom by (simp add: cat_Cartridge_def cat_cart_cpu_read_def)
qed

lemma mapper1_rom:
  "cat_NESRom mapper1_file = \<lparr> c_prg_rom = replicate 16384 0xEA, c_chr_rom = replicate 8192 0,
     c_mapper_id = 1, c_mirroring = 0, c_has_battery = 0, c_valid = True \<rparr>"
  by (simp add: cat_NESRom_def mapper1_file_def py_slice_def NES_MAGIC_def py_get_def
        py_index_def bnd_def Let_def)

theorem cartridge_runs_any_mapper_as_nrom_witness:
  "\<exists>cart. cat_Cartridge (cat_NESRom mapper1_file) = Inr ([1], cart)
      \<and> cat_cart_cpu_read cart 0xC000 = Inr 0xEA"
proof -
  have a: "nat (nrom_prg_index 16384 0xC000) = 0" by (simp add: nrom_prg_index_def)
  from cartridge_runs_any_mapper_as_nrom [of "cat_NESRom mapper1_file" "0xC000"]
  show ?thesis by (auto simp: mapper1_rom a)
qed

theorem unsupported_mapper_counterexample:
  "c_mapper_id (cat_NESRom mapper1_file) = 1
   \<and> cat_Cartridge (cat_NESRom mapper1_file) =
       Inr ([1], \<lparr> cc_rom = cat_NESRom mapper1_file, cc_prg_ram = replicate 8192 0,
                    cc_prg_banks = 1, cc_chr_banks = 1 \<rparr>)"
  by (simp add: mapper1_rom cat_Cartridge_def)
lemma py_slice_nth:
  "i < length (py_slice xs a b) \<Longrightarrow>
     nat a + i < length xs \<and> py_slice xs a b ! i = xs ! (nat a + i)"
  by (auto simp: py_slice_def)

lemma py_slice_length: "length (py_slice xs a b) = min (nat b - nat a) (length xs - nat a)"
  by (simp add: py_slice_def min.commute)

lemma nat_span: "0 \<le> a \<Longrightarrow> nat (a + p) - nat a = nat p"
  by arith

lemma header_get:
  "int k < 16 \<Longrightarrow> k < length data \<Longrightarrow> py_get (py_slice data 0 16) (int k) = Inr (data ! k)"
  by (simp add: py_get_def py_index_def py_slice_def)

text \<open>
  C2, as the code has it. \<open>NESRom.__init__\<close> of EMUNES5.23.251.0A.py has no check of the
  declared sizes against the buffer: a buffer that starts with the magic number and
  holds the eight header bytes it reads always yields a ROM object, whose PRG and CHR
  regions are the declared slices cut off at the end of the buffer. Every byte of them
  is a byte of the buffer, at an index inside it. \<open>INESHeader.__init__\<close> of
  ChatGPTPRO5.23.25EMUAINES.py refuses a header shorter than 16 bytes, with the one
  \<open>ValueError\<close> it also raises for a bad magic number.
\<close>

theorem load_clamps_declared_sizes:
  "(8 \<le> length data \<and> py_slice data 0 4 = NES_MAGIC \<and> (\<forall>b\<in>set data. 0 \<le> b \<and> b < 256) \<longrightarrow>
      (\<exists>rom. emu_NESRom data = Inr rom
         \<and> length (prg_rom rom)
             = min (nat (prg_rom_size rom)) (length data - nat (prg_rom_start rom))
         \<and> length (chr_rom rom)
             = min (nat (chr_rom_size rom)) (length data - nat (chr_rom_start rom))
         \<and> (\<forall>i < length (prg_rom rom). nat (prg_rom_start rom) + i < length data
               \<and> prg_rom rom ! i = data ! (nat (prg_rom_start rom) + i))
         \<and> (\<forall>i < length (chr_rom rom). nat (chr_rom_start rom) + i < length data
               \<and> chr_rom rom ! i = data ! (nat (chr_rom_start rom) + i))))
   \<and> (length hdr < 16 \<longrightarrow> gpt_INESHeader hdr = Inl ValueError)
   \<and> (py_slice hdr 0 4 \<noteq> NES_MAGIC \<longrightarrow> gpt_INESHeader hdr = Inl ValueError)"
proof (intro conjI impI)
  assume h: "8 \<le> length data \<and> py_slice data 0 4 = NES_MAGIC \<and> (\<forall>b\<in>set data. 0 \<le> b \<and> b < 256)"
  then have "data ! 4 \<in> set data" by (intro nth_mem) simp
  with h have b4: "0 \<le> data ! 4" by blast
  have magic: "py_slice (py_slice data 0 16) 0 4 = py_slice data 0 4"
    by (simp add: py_slice_def)
  have g: "py_get (py_slice data 0 16) 4 = Inr (data ! 4)"
          "py_get (py_slice data 0 16) 5 = Inr (data ! 5)"
          "py_get (py_slice data 0 16) 6 = Inr (data ! 6)"
          "py_get (py_slice data 0 16) 7 = Inr (data ! 7)"
    using h header_get [of 4 data] header_get [of 5 data] header_get [of 6 data]
      header_get [of 7 data] by simp_all
  define start where "start = (if (data ! 6 AND 0x04) \<noteq> 0 then 16 + 512 else (16::int))"
  have sp: "0 \<le> start" by (simp add: start_def)
  obtain rom where rom: "emu_NESRom data = Inr rom"
    and f: "prg_rom_size rom = data ! 4 * 16384" "chr_rom_size rom = data ! 5 * 8192"
       "prg_rom_start rom = start" "chr_rom_start rom = start + data ! 4 * 16384"
       "prg_rom rom = py_slice data start (start + data ! 4 * 16384)"
       "chr_rom rom = py_slice data (start + data ! 4 * 16384)
                        (start + data ! 4 * 16384 + data ! 5 * 8192)"
    using h by (simp add: emu_NESRom_def Let_def magic g bnd_def start_def)
  have sp2: "0 \<le> start + data ! 4 * 16384" using sp b4 by simp
  have l1: "length (prg_rom rom)
             = min (nat (prg_rom_size rom)) (length data - nat (prg_rom_start rom))"
    using nat_span [OF sp, of "data ! 4 * 16384"] by (simp add: f py_slice_length)
  have l2: "length (chr_rom rom)
             = min (nat (chr_rom_size rom)) (length data - nat (chr_rom_start rom))"
    using nat_span [OF sp2, of "data ! 5 * 8192"] by (simp add: f py_slice_length)
  have n1: "\<forall>i < length (prg_rom rom). nat (prg_rom_start rom) + i < length data
               \<and> prg_rom rom ! i = data ! (nat (prg_rom_start rom) + i)"
    unfolding f(3) f(5) by (intro allI impI py_slice_nth)
  have n2: "\<forall>i < length (chr_rom rom). nat (chr_rom_start rom) + i < length data
               \<and> chr_rom rom ! i = data ! (nat (chr_rom_start rom) + i)"
    unfolding f(4) f(6) by (intro allI impI py_slice_nth)
  show "\<exists>rom. emu_NESRom data = Inr rom
         \<and> length (prg_rom rom)
             = min (nat (prg_rom_size rom)) (length data - nat (prg_rom_start rom))
         \<and> length (chr_rom rom)
             = min (nat (chr_rom_size rom)) (length data - nat (chr_rom_start rom))
         \<and> (\<forall>i < length (prg_rom rom). nat (prg_rom_start rom) + i < length data
               \<and> prg_rom rom ! i = data ! (nat (prg_rom_start rom) + i))
         \<and> (\<forall>i < length (chr_rom rom). nat (chr_rom_start rom) + i < length data
               \<and> chr_rom rom ! i = data ! (nat (chr_rom_start rom) + i))"
    using rom l1 l2 n1 n2 by (intro exI [of _ rom]) simp
next
  assume "length hdr < 16"
  then show "gpt_INESHeader hdr = Inl ValueError"
    by (simp add: gpt_INESHeader_def INES_HEADER_SIZE_def)
next
  assume "py_slice hdr 0 4 \<noteq> NES_MAGIC"
  then show "gpt_INESHeader hdr = Inl ValueError"
    by (simp add: gpt_INESHeader_def)
qed

lemma ten_byte_rom:
  "emu_NESRom ten_byte_file = Inr \<lparr> prg_rom_size = 16384, chr_rom_size = 8192, mapper = 0,
     mirror_mode = 0, battery_backed = False, trainer_present = False, prg_rom_start = 16,
     prg_rom = [], chr_rom_start = 16400, chr_rom = [], chr_ram = None \<rparr>"
  by (simp add: emu_NESRom_def ten_byte_file_def py_slice_def NES_MAGIC_def py_get_def
        py_index_def bnd_def Let_def)

theorem load_clamps_declared_sizes_witness:
  "(\<exists>rom. emu_NESRom ten_byte_file = Inr rom \<and> length (prg_rom rom) = 0
       \<and> length (chr_rom rom) = 0)
   \<and> gpt_INESHeader ten_byte_file = Inl ValueError"
proof -
  have h: "8 \<le> length ten_byte_file \<and> py_slice ten_byte_file 0 4 = NES_MAGIC
           \<and> (\<forall>b\<in>set ten_byte_file. 0 \<le> b \<and> b < 256)"
    by (simp add: ten_byte_file_def py_slice_def NES_MAGIC_def)
  have l: "length ten_byte_file < 16" by (simp add: ten_byte_file_def)
  from load_clamps_declared_sizes [of ten_byte_file ten_byte_file] h l
  show ?thesis by (auto simp: ten_byte_rom)
qed

theorem truncated_load_counterexample:
  "length ten_byte_file = 10
   \<and> emu_NESRom ten_byte_file = Inr \<lparr> prg_rom_size = 16384, chr_rom_size = 8192, mapper = 0,
       mirror_mode = 0, battery_backed = False, trainer_present = False, prg_rom_start = 16,
       prg_rom = [], chr_rom_start = 16400, chr_rom = [], chr_ram = None \<rparr>"
  by (simp add: ten_byte_rom) (simp add: ten_byte_file_def)
lemma emu_read_ram:
  assumes "0 \<le> a" and "a < 2048" and "length (cpu_ram s) = 2048"
  shows "emu_bus_cpu_read s a = Inr (cpu_ram s ! nat a, s)"
proof -
  have m: "a AND 0xFFFF = a" "a AND 0x07FF = a"
    using assms and_mask_mod [of a 11] by (simp_all add: and_FFFF)
  show ?thesis using assms
    by (cases "bus_cart s")
       (simp_all add: emu_bus_cpu_read_def m Let_def bnd_def emu_cart_cpu_read_def py_get_in)
qed

lemma mon_read_ram:
  assumes "0 \<le> a" and "a < 2048" and "length (mbus_cpu_ram s) = 2048"
  shows "mon_bus_cpu_read s a = Inr (mbus_cpu_ram s ! nat a, s)"
proof -
  have m: "a AND 0x07FF = a" using assms and_mask_mod [of a 11] by simp
  show ?thesis using assms
    by (cases "mbus_cart s")
       (auto simp: mon_bus_cpu_read_def m Let_def bnd_def mon_cart_cpu_read_def py_get_in
          split: sum.splits)
qed

lemma emu_lookup_branches:
  "emu_lookup 0xD0 = Inr (M_REL, I_BNE, 2)" "emu_lookup 0xA9 = Inr (M_IMM, I_LDA, 2)"
  by (simp_all add: emu_lookup_def py_index_def emu_instructions_def)

lemma mon_lookup_branches:
  "map_of mon_lookup 0xD0 = Some (M_REL, I_BNE, 2)"
  by (simp add: mon_lookup_def)

text \<open>
  C8, at the failing input. With PC = 0xFFFE and \<open>LDA #$42\<close> there, one call of
  \<open>clock()\<close> leaves PC = 0x10000: the opcode fetch masks its increment, the operand fetch
  of \<open>IMM\<close> does not. A taken backward branch does the same from any address: \<open>BNE\<close>
  with offset 0xFE at 0x0000 leaves PC = 0x10000 as well.
\<close>

theorem pc_exceeds_16_bits:
  "emu_pc_after_clock emu_bus_fffe = Some 0x10000
   \<and> emu_pc_after_clock (emu_ram_program 0 0xD0 0xFE 0x24) = Some 0x10000"
proof
  have c0: "bus_cpu emu_bus_fffe = emu_cpu_init\<lparr>cpu_pc := 0xFFFE\<rparr>"
    by (simp add: emu_bus_fffe_def)
  have r0: "emu_bus_cpu_read (emu_bus_fffe\<lparr>bus_cpu := c\<rparr>) 0xFFFE
              = Inr (0xA9, emu_bus_fffe\<lparr>bus_cpu := c\<rparr>)" for c
    by (simp add: emu_read_high emu_bus_fffe_def emu_read_prg_def emu_rom_16k_def bnd_def
          py_get_def py_index_def nth_append)
  have r1: "emu_bus_cpu_read (emu_bus_fffe\<lparr>bus_cpu := c\<rparr>) 0xFFFF
              = Inr (0x42, emu_bus_fffe\<lparr>bus_cpu := c\<rparr>)" for c
    by (simp add: emu_read_high emu_bus_fffe_def emu_read_prg_def emu_rom_16k_def bnd_def
          py_get_def py_index_def nth_append)
  have r0': "emu_bus_cpu_read emu_bus_fffe 0xFFFE = Inr (0xA9, emu_bus_fffe)"
    using r0 [of "bus_cpu emu_bus_fffe"] by simp
  show "emu_pc_after_clock emu_bus_fffe = Some 0x10000"
    by (simp add: emu_pc_after_clock_def emu_cpu_clock_def c0 r0' r1 bnd_def Let_def cpu_upd_def
          emu_lookup_branches emu_IMM_def emu_LDA_def emu_fetch_def emu_cur_mode_def
          emu_cpu_init_def)
next
  let ?s = "emu_ram_program 0 0xD0 0xFE 0x24"
  have c0: "bus_cpu ?s = emu_cpu_init\<lparr>cpu_pc := 0, cpu_status := 0x24\<rparr>"
    by (simp add: emu_ram_program_def)
  have r0: "emu_bus_cpu_read (?s\<lparr>bus_cpu := c\<rparr>) 0 = Inr (0xD0, ?s\<lparr>bus_cpu := c\<rparr>)" for c
    by (subst emu_read_ram) (simp_all add: emu_ram_program_def emu_bus_init_def)
  have r1: "emu_bus_cpu_read (?s\<lparr>bus_cpu := c\<rparr>) 1 = Inr (0xFE, ?s\<lparr>bus_cpu := c\<rparr>)" for c
    by (subst emu_read_ram) (simp_all add: emu_ram_program_def emu_bus_init_def)
  have r0': "emu_bus_cpu_read ?s 0 = Inr (0xD0, ?s)"
    using r0 [of "bus_cpu ?s"] by simp
  show "emu_pc_after_clock ?s = Some 0x10000"
    by (simp add: emu_pc_after_clock_def emu_cpu_clock_def c0 r0' r1 bnd_def Let_def cpu_upd_def
          emu_lookup_branches emu_REL_def emu_BNE_def emu_branch_def get_flag_def FLAG_Z_def
          emu_cpu_init_def)
qed
lemma ff00_mask: "(0xFF00::int) = push_bit 8 (mask 8)"
  by (simp add: mask_eq_exp_minus_1 push_bit_eq_mult)
lemma and_FF00: "(x::int) AND 0xFF00 = 256 * ((x div 256) mod 256)"
proof -
  have "x AND push_bit 8 (mask 8) = push_bit 8 (take_bit 8 (drop_bit 8 x))"
    by (auto simp: bit_eq_iff bit_simps)
  then show ?thesis
    unfolding ff00_mask by (simp add: push_bit_eq_mult take_bit_eq_mod drop_bit_eq_div)
qed
lemma page_of_alt: "page_of x = (x div 256) mod 256"
proof -
  have a: "x mod 65536 = 256 * (x div 256 mod 256) + x mod 256"
    using zmod_zmult2_eq [of 256 x 256] by simp
  have b: "x mod 256 div 256 = 0" by simp
  show ?thesis unfolding page_of_def a by (simp add: b)
qed
lemma page_and: "((x::int) AND 0xFF00 \<noteq> y AND 0xFF00) = (page_of x \<noteq> page_of y)"
  by (simp add: and_FF00 page_of_alt)
lemma page_of_mod: "page_of (x mod 65536) = page_of x"
  by (simp add: page_of_def)
lemma sign_ext:
  assumes "0 \<le> off" "off < 256"
  shows "page_of (pc + (if off AND 0x80 \<noteq> 0 then off OR 0xFF00 else off)) = page_of (branch_target pc off)"
proof -
  have "(off AND 2 ^ 7 \<noteq> 0) = odd (off div 2 ^ 7)"
    unfolding flag_bit by (rule bit_iff_odd)
  then have hi0: "(off AND 0x80 \<noteq> 0) = odd (off div 128)" by simp
  have "off div 128 = (if off \<ge> 128 then 1 else 0)" using assms by auto
  then have hi: "(off AND 0x80 \<noteq> 0) = (off \<ge> 128)" unfolding hi0 by simp
  have orr: "off OR 0xFF00 = off + 0xFF00"
  proof -
    have "off AND 0xFF00 = 0" using assms by (simp add: and_FF00)
    then show ?thesis by (simp add: disjunctive_add_eq_or)
  qed
  have "pc + (off + 0xFF00) = pc + (off - 256) + 65536" by simp
  then have m: "(pc + (off + 0xFF00)) mod 65536 = (pc + (off - 256)) mod 65536"
    by (metis mod_add_self2)
  have "page_of (pc + (off + 0xFF00)) = page_of (pc + (off - 256))"
    unfolding page_of_def m ..
  then show ?thesis
    unfolding branch_target_def page_of_mod hi orr by simp
qed
lemma page_test:
  assumes "0 \<le> off" "off < 256"
  shows "((pc + (if off AND 0x80 \<noteq> 0 then off OR 0xFF00 else off)) AND 0xFF00 \<noteq> pc AND 0xFF00)
         = (page_of (branch_target pc off) \<noteq> page_of pc)"
  unfolding page_and sign_ext [OF assms] ..

lemma emu_lookup_rel:
  "emu_lookup 0x10 = Inr (M_REL, I_BPL, 2)" "emu_lookup 0x30 = Inr (M_REL, I_BMI, 2)"
  "emu_lookup 0x50 = Inr (M_REL, I_BVC, 2)" "emu_lookup 0x70 = Inr (M_REL, I_BVS, 2)"
  "emu_lookup 0x90 = Inr (M_REL, I_BCC, 2)" "emu_lookup 0xB0 = Inr (M_REL, I_BCS, 2)"
  "emu_lookup 0xF0 = Inr (M_REL, I_BEQ, 2)"
  by (simp_all add: emu_lookup_def py_index_def emu_instructions_def)

lemma mon_lookup_rel:
  "map_of mon_lookup 0x10 = Some (M_REL, I_BPL, 2)" "map_of mon_lookup 0x30 = Some (M_REL, I_BMI, 2)"
  "map_of mon_lookup 0x50 = Some (M_REL, I_BVC, 2)" "map_of mon_lookup 0x70 = Some (M_REL, I_BVS, 2)"
  "map_of mon_lookup 0x90 = Some (M_REL, I_BCC, 2)" "map_of mon_lookup 0xB0 = Some (M_REL, I_BCS, 2)"
  "map_of mon_lookup 0xF0 = Some (M_REL, I_BEQ, 2)"
  by (simp_all add: mon_lookup_def)

lemma branch_opcodes_cases:
  assumes "opc \<in> set branch_opcodes"
  shows "opc = 0x10 \<or> opc = 0x30 \<or> opc = 0x50 \<or> opc = 0x70
         \<or> opc = 0x90 \<or> opc = 0xB0 \<or> opc = 0xD0 \<or> opc = 0xF0"
  using assms by (simp add: branch_opcodes_def)

lemma mon_branch_eval:
  assumes at: "at + 1 < 2048" and opc: "opc \<in> set branch_opcodes"
  shows "mon_instr_cycles (mon_ram_program at opc off st) = Some 2"
proof -
  let ?s = "mon_ram_program at opc off st"
  have c0: "mbus_cpu ?s = mon_cpu_init\<lparr>mc_pc := int at, mc_status := st\<rparr>"
    by (simp add: mon_ram_program_def)
  have r0: "mon_bus_cpu_read (?s\<lparr>mbus_cpu := c\<rparr>) (int at) = Inr (opc, ?s\<lparr>mbus_cpu := c\<rparr>)" for c
    using at by (subst mon_read_ram) (simp_all add: mon_ram_program_def mon_bus_init_def)
  have r1: "mon_bus_cpu_read (?s\<lparr>mbus_cpu := c\<rparr>) (int at + 1) = Inr (off, ?s\<lparr>mbus_cpu := c\<rparr>)" for c
    using at by (subst mon_read_ram) (simp_all add: mon_ram_program_def mon_bus_init_def nat_add_distrib)
  have r0': "mon_bus_cpu_read ?s (int at) = Inr (opc, ?s)"
    using r0 [of "mbus_cpu ?s"] by simp
  have clk: "mon_instr_cycles ?s = Some 2"
    if "map_of mon_lookup opc = Some (M_REL, op, 2)"
      and "\<And>s. mon_operation op s = mon_branch (cnd (mbus_cpu s)) s" for op cnd
    using that
    by (simp add: mon_instr_cycles_def mon_cpu_clock_def c0 r0' r1 bnd_def Let_def mcpu_upd_def
          mon_REL_def mon_branch_def mon_cpu_init_def)
  from branch_opcodes_cases [OF opc] show ?thesis
  proof (elim disjE)
    assume "opc = 0x10" then show ?thesis
      by (intro clk [of I_BPL "\<lambda>c. mon_get_flag c FLAG_N = 0"]) (simp_all add: mon_lookup_rel mon_BPL_def)
  next
    assume "opc = 0x30" then show ?thesis
      by (intro clk [of I_BMI "\<lambda>c. mon_get_flag c FLAG_N = 1"]) (simp_all add: mon_lookup_rel mon_BMI_def)
  next
    assume "opc = 0x50" then show ?thesis
      by (intro clk [of I_BVC "\<lambda>c. mon_get_flag c FLAG_V = 0"]) (simp_all add: mon_lookup_rel mon_BVC_def)
  next
    assume "opc = 0x70" then show ?thesis
      by (intro clk [of I_BVS "\<lambda>c. mon_get_flag c FLAG_V = 1"]) (simp_all add: mon_lookup_rel mon_BVS_def)
  next
    assume "opc = 0x90" then show ?thesis
      by (intro clk [of I_BCC "\<lambda>c. mon_get_flag c FLAG_C = 0"]) (simp_all add: mon_lookup_rel mon_BCC_def)
  next
    assume "opc = 0xB0" then show ?thesis
      by (intro clk [of I_BCS "\<lambda>c. mon_get_flag c FLAG_C = 1"]) (simp_all add: mon_lookup_rel mon_BCS_def)
  next
    assume "opc = 0xD0" then show ?thesis
      by (intro clk [of I_BNE "\<lambda>c. mon_get_flag c FLAG_Z = 0"]) (simp_all add: mon_lookup_branches mon_BNE_def)
  next
    assume "opc = 0xF0" then show ?thesis
      by (intro clk [of I_BEQ "\<lambda>c. mon_get_flag c FLAG_Z = 1"]) (simp_all add: mon_lookup_rel mon_BEQ_def)
  qed
qed
lemma emu_branch_eval:
  assumes at: "at + 1 < 2048" and opc: "opc \<in> set branch_opcodes"
    and off: "0 \<le> off" "off < 256"
  shows "emu_instr_cycles (emu_ram_program at opc off st) =
           Some (2 + (if branch_taken opc st
                      then (if page_of (branch_target (int at + 2) off) \<noteq> page_of (int at + 2)
                            then 2 else 1)
                      else 0))"
proof -
  let ?s = "emu_ram_program at opc off st"
  have c0: "bus_cpu ?s = emu_cpu_init\<lparr>cpu_pc := int at, cpu_status := st\<rparr>"
    by (simp add: emu_ram_program_def)
  have r0: "emu_bus_cpu_read (?s\<lparr>bus_cpu := c\<rparr>) (int at) = Inr (opc, ?s\<lparr>bus_cpu := c\<rparr>)" for c
    using at by (subst emu_read_ram) (simp_all add: emu_ram_program_def emu_bus_init_def)
  have r1: "emu_bus_cpu_read (?s\<lparr>bus_cpu := c\<rparr>) (int at + 1) = Inr (off, ?s\<lparr>bus_cpu := c\<rparr>)" for c
    using at by (subst emu_read_ram) (simp_all add: emu_ram_program_def emu_bus_init_def nat_add_distrib)
  have r0': "emu_bus_cpu_read ?s (int at) = Inr (opc, ?s)"
    using r0 [of "bus_cpu ?s"] by simp
  have pc1: "(int at + 1) AND 0xFFFF = int at + 1"
    using at by (simp add: and_FFFF)
  have clk: "emu_instr_cycles ?s =
               Some (2 + (if cnd st
                      then (if page_of (branch_target (int at + 2) off) \<noteq> page_of (int at + 2)
                            then 2 else 1)
                      else 0))"
    if "emu_lookup opc = Inr (M_REL, op, 2)"
      and "\<And>s. emu_operation op s = emu_branch (cnd (cpu_status (bus_cpu s))) s" for op cnd
    using that page_test [OF off, of "2 + int at"]
    by (simp add: emu_instr_cycles_def emu_cpu_clock_def c0 r0' r1 pc1 bnd_def Let_def cpu_upd_def
          emu_REL_def emu_branch_def emu_cpu_init_def) (simp add: add.commute)
  from branch_opcodes_cases [OF opc] show ?thesis
  proof (elim disjE)
    assume "opc = 0x10" then show ?thesis
      using clk [of I_BPL "\<lambda>st. st AND FLAG_N = 0"]
      by (simp add: emu_lookup_rel emu_BPL_def get_flag_def branch_taken_def)
  next
    assume "opc = 0x30" then show ?thesis
      using clk [of I_BMI "\<lambda>st. st AND FLAG_N \<noteq> 0"]
      by (simp add: emu_lookup_rel emu_BMI_def get_flag_def branch_taken_def)
  next
    assume "opc = 0x50" then show ?thesis
      using clk [of I_BVC "\<lambda>st. st AND FLAG_V = 0"]
      by (simp add: emu_lookup_rel emu_BVC_def get_flag_def branch_taken_def)
  next
    assume "opc = 0x70" then show ?thesis
      using clk [of I_BVS "\<lambda>st. st AND FLAG_V \<noteq> 0"]
      by (simp add: emu_lookup_rel emu_BVS_def get_flag_def branch_taken_def)
  next
    assume "opc = 0x90" then show ?thesis
      using clk [of I_BCC "\<lambda>st. st AND FLAG_C = 0"]
      by (simp add: emu_lookup_rel emu_BCC_def get_flag_def branch_taken_def)
  next
    assume "opc = 0xB0" then show ?thesis
      using clk [of I_BCS "\<lambda>st. st AND FLAG_C \<noteq> 0"]
      by (simp add: emu_lookup_rel emu_BCS_def get_flag_def branch_taken_def)
  next
    assume "opc = 0xD0" then show ?thesis
      using clk [of I_BNE "\<lambda>st. st AND FLAG_Z = 0"]
      by (simp add: emu_lookup_branches emu_BNE_def get_flag_def branch_taken_def)
  next
    assume "opc = 0xF0" then show ?thesis
      using clk [of I_BEQ "\<lambda>st. st AND FLAG_Z \<noteq> 0"]
      by (simp add: emu_lookup_rel emu_BEQ_def get_flag_def branch_taken_def)
  qed
qed
text \<open>
  C6. A conditional branch placed anywhere in RAM, for each of the eight branch opcodes,
  every operand byte and every status register. In EMUNES5.23.251.0A.py the instruction
  costs its base of 2 cycles when the condition is false, 3 when the branch is taken
  within the page of the incremented PC and 4 when the target lies on another page. In
  MonikaNES.py \<open>branch\<close> adds to \<open>self.cycles\<close> (1, and 2 more on a page cross), but
  \<open>clock\<close> then assigns \<open>self.cycles\<close> from the table's base count and the two return
  values, both 0: every branch costs 2 cycles, taken or not.
\<close>

theorem branch_cycle_cost:
  assumes "at + 1 < 2048" and "opc \<in> set branch_opcodes" and "0 \<le> off" and "off < 256"
  shows "emu_instr_cycles (emu_ram_program at opc off st) =
           Some (2 + (if branch_taken opc st
                      then (if page_of (branch_target (int at + 2) off) \<noteq> page_of (int at + 2)
                            then 2 else 1)
                      else 0))
         \<and> mon_instr_cycles (mon_ram_program at opc off st) = Some 2"
  using emu_branch_eval [OF assms] mon_branch_eval [OF assms(1,2)] by simp

theorem branch_cycle_cost_witness:
  "emu_instr_cycles (emu_ram_program 0xF0 0xD0 0x7F 0x24) = Some 4
   \<and> mon_instr_cycles (mon_ram_program 0xF0 0xD0 0x7F 0x24) = Some 2
   \<and> emu_instr_cycles (emu_ram_program 0x10 0xD0 0x02 0x24) = Some 3
   \<and> mon_instr_cycles (mon_ram_program 0x10 0xD0 0x02 0x24) = Some 2"
  using branch_cycle_cost [of "0xF0" "0xD0" "0x7F" "0x24"]
    branch_cycle_cost [of "0x10" "0xD0" "0x02" "0x24"]
  by (simp add: branch_opcodes_def branch_taken_def branch_target_def page_of_def FLAG_Z_def)
lemma mon_lookup_0x00: "mon_lookup_dict 0x00 = Inr (M_IMP, I_BRK, 7)"
  by (simp add: mon_lookup_dict_def mon_lookup_def)

lemma mon_map_of_0x69: "map_of mon_lookup 0x69 = Some (M_IMM, I_ADC, 2)"
  by (simp add: mon_lookup_def)

lemma emu_adc_clock:
  assumes at: "at + 1 < 2048" and c: "st AND FLAG_C = 0"
  shows "emu_clock_a_flags (emu_adc_program at st) = Some (0xA0, True, False, True, False)"
proof -
  let ?s = "emu_ram_program at 0x69 0x50 st"
  have c0: "bus_cpu (emu_adc_program at st)
              = emu_cpu_init\<lparr>cpu_pc := int at, cpu_status := st, cpu_a := 0x50\<rparr>"
    by (simp add: emu_adc_program_def emu_ram_program_def cpu_upd_def)
  have e: "emu_adc_program at st = ?s\<lparr>bus_cpu := bus_cpu (emu_adc_program at st)\<rparr>"
    by (simp add: emu_adc_program_def cpu_upd_def)
  have r0: "emu_bus_cpu_read (?s\<lparr>bus_cpu := k\<rparr>) (int at) = Inr (0x69, ?s\<lparr>bus_cpu := k\<rparr>)" for k
    using at by (subst emu_read_ram) (simp_all add: emu_ram_program_def emu_bus_init_def)
  have r1: "emu_bus_cpu_read (?s\<lparr>bus_cpu := k\<rparr>) (int at + 1) = Inr (0x50, ?s\<lparr>bus_cpu := k\<rparr>)" for k
    using at by (subst emu_read_ram) (simp_all add: emu_ram_program_def emu_bus_init_def nat_add_distrib)
  have pc1: "(int at + 1) AND 0xFFFF = int at + 1"
    using at by (simp add: and_FFFF)
  have fc: "\<not> get_flag (emu_cpu_init\<lparr>cpu_pc := p, cpu_status := st, cpu_a := a\<rparr>) FLAG_C" for p a
    using c by (simp add: get_flag_def)
  show ?thesis
    unfolding emu_clock_a_flags_def
    apply (subst e)
    apply (simp add: emu_cpu_clock_def c0 r0 r1 pc1 bnd_def Let_def cpu_upd_def emu_lookup_0x69
        emu_IMM_def emu_ADC_def emu_fetch_def emu_cur_mode_def emu_cpu_init_def)
    using c apply (simp add: get_flag_def)
    done
qed
lemma mon_adc_clock:
  assumes at: "at + 1 < 2048" and c: "st AND FLAG_C = 0"
  shows "mon_clock_a_flags (mon_adc_program at st) = Some (0x50, 0, 0, 0, 0)"
proof -
  let ?s = "mon_ram_program at 0x69 0x50 st"
  have c0: "mbus_cpu (mon_adc_program at st)
              = mon_cpu_init\<lparr>mc_pc := int at, mc_status := st, mc_a := 0x50\<rparr>"
    by (simp add: mon_adc_program_def mon_ram_program_def mcpu_upd_def)
  have e: "mon_adc_program at st = ?s\<lparr>mbus_cpu := mbus_cpu (mon_adc_program at st)\<rparr>"
    by (simp add: mon_adc_program_def mcpu_upd_def)
  have r0: "mon_bus_cpu_read (?s\<lparr>mbus_cpu := k\<rparr>) (int at) = Inr (0x69, ?s\<lparr>mbus_cpu := k\<rparr>)" for k
    using at by (subst mon_read_ram) (simp_all add: mon_ram_program_def mon_bus_init_def)
  have fc: "(st OR FLAG_U) AND FLAG_C = 0"
    using c by (simp add: FLAG_U_def FLAG_C_def bit.conj_disj_distrib2)
  show ?thesis
    unfolding mon_clock_a_flags_def
    apply (subst e)
    apply (simp add: mon_cpu_clock_def c0 r0 bnd_def Let_def mcpu_upd_def mon_map_of_0x69
        mon_IMM_def mon_ADC_def mon_fetch_def mon_cur_mode_def mon_lookup_0x00 mon_cpu_init_def)
    using fc c apply (simp add: mon_get_flag_def mon_set_flag_def)
    done
qed

text \<open>
  C9. \<open>ADC #$50\<close> anywhere in RAM, executed by one call of \<open>clock()\<close> with A = 0x50 and
  the carry clear. EMUNES5.23.251.0A.py leaves A = 0xA0 with V set, C clear, N set and
  Z clear. MonikaNES.py leaves A = 0x50 with V, C, N and Z all clear: its \<open>clock()\<close> keeps
  the opcode in a local variable and never assigns \<open>self.opcode\<close>, which stays 0x00, an
  implied-mode entry of the table, so \<open>fetch()\<close> reads no operand and \<open>ADC\<close> adds the
  stale \<open>fetched\<close>, 0.
\<close>

theorem adc_through_clock:
  "(at + 1 < 2048 \<and> st AND FLAG_C = 0 \<longrightarrow>
      emu_clock_a_flags (emu_adc_program at st) = Some (0xA0, True, False, True, False))
   \<and> (at + 1 < 2048 \<and> st AND FLAG_C = 0 \<longrightarrow>
      mon_clock_a_flags (mon_adc_program at st) = Some (0x50, 0, 0, 0, 0))"
  using emu_adc_clock [of at st] mon_adc_clock [of at st] by blast

theorem adc_through_clock_witness:
  "emu_clock_a_flags (emu_adc_program 0x10 0x24) = Some (0xA0, True, False, True, False)
   \<and> mon_clock_a_flags (mon_adc_program 0x10 0x24) = Some (0x50, 0, 0, 0, 0)"
  using adc_through_clock [of "0x10" "0x24"] by (simp add: FLAG_C_def)
lemma and_8000_small:
  assumes "0 \<le> (t::int)" "t < 0x8000"
  shows "t AND 0x8000 = 0"
proof -
  have "t div 2 ^ 15 = 0" using assms by simp
  then have "\<not> bit t 15" by (simp add: bit_iff_odd)
  then have "t AND 2 ^ 15 = 0" using and_exp_eq_0_iff_not_bit [of t 15] by blast
  then show ?thesis by simp
qed

lemma ppuaddr_masks:
  "((t::int) AND 0x80FF) AND 0xFF00 = t AND 0x8000" "((t::int) AND 0x00FF) AND 0xFF00 = 0"
  by (simp_all add: and.assoc)

lemma emu_ppuaddr_zero_eval:
  assumes "ppu_w (bus_ppu s) = 0"
  shows "emu_ppuaddr_zero s =
           Inr (ppu_upd (\<lambda>p. p\<lparr>ppu_t := ppu_t p AND 0x8000, ppu_v := ppu_t p AND 0x8000,
                               ppu_w := 0\<rparr>) s)"
  using assms
  by (cases "bus_cart s")
     (simp_all add: emu_ppuaddr_zero_def emu_bus_cpu_write_def emu_ppu_cpu_write_def
        emu_cart_cpu_write_def bnd_def Let_def ppu_upd_def ppuaddr_masks)

lemma mon_ppuaddr_zero_eval:
  assumes "m_address_latch (mbus_ppu s) = 0"
  shows "mon_ppuaddr_zero s =
           Inr (mppu_upd (\<lambda>p. p\<lparr>m_temp_vram_addr := 0, m_vram_addr := 0,
                                m_address_latch := 0\<rparr>) s)"
  using assms
  by (simp add: mon_ppuaddr_zero_def mon_bus_cpu_write_def mon_ppu_cpu_write_def
        bnd_def Let_def mppu_upd_def ppuaddr_masks)
lemma palette_range_test:
  assumes "0 \<le> (v::int)" "v \<le> 0x3FFF"
  shows "((v AND 0x3F00) = 0x3F00) = (0x3F00 \<le> v)"
proof -
  have m: "v AND 0x3FFF = v" using assms by (simp add: and_3FFF)
  have "v AND 0x3F00 = (v AND 0x3FFF) AND 0xFF00" by (simp add: and.assoc)
  also have "\<dots> = v AND 0xFF00" unfolding m ..
  also have "\<dots> = 256 * ((v div 256) mod 256)" by (rule and_FF00)
  also have "\<dots> = 256 * (v div 256)" using assms by simp
  finally have e: "v AND 0x3F00 = 256 * (v div 256)" .
  show ?thesis unfolding e using assms by auto
qed

lemma emu_ppudata_read_eval:
  assumes "emu_bus_ppu_read s (ppu_v (bus_ppu s)) = Inr fresh"
  shows "emu_ppudata_read s =
           Some (if 0x3F00 \<le> ppu_v (bus_ppu s) then fresh else ppudata_buffer (bus_ppu s),
                 fresh,
                 (ppu_v (bus_ppu s) + (if (ppuctrl (bus_ppu s) AND 0x04) \<noteq> 0 then 32 else 1))
                   AND 0x3FFF)"
  using assms
  by (cases "bus_cart s")
     (simp_all add: emu_ppudata_read_def emu_bus_cpu_read_def emu_ppu_cpu_read_def
        emu_cart_cpu_read_def emu_v_increment_def bnd_def Let_def ppu_upd_def)

lemma mon_ppudata_read_eval:
  assumes "mon_bus_ppu_read s (m_vram_addr (mbus_ppu s)) = Inr fresh"
    and "(m_vram_addr (mbus_ppu s) AND 0x3F00) = 0x3F00 \<Longrightarrow> 0x3000 \<le> m_vram_addr (mbus_ppu s)
         \<Longrightarrow> mon_bus_ppu_read s (m_vram_addr (mbus_ppu s) - 0x1000) = Inr below"
  shows "mon_ppudata_read s =
           Some (if (m_vram_addr (mbus_ppu s) AND 0x3F00) = 0x3F00 then fresh
                 else m_buffer_data (mbus_ppu s),
                 if (m_vram_addr (mbus_ppu s) AND 0x3F00) = 0x3F00
                 then (if 0x3000 \<le> m_vram_addr (mbus_ppu s) then below else 0) else fresh,
                 (m_vram_addr (mbus_ppu s)
                    + (if (drop_bit 2 (m_PPUCTRL (mbus_ppu s))) AND 1 \<noteq> 0 then 32 else 1))
                   AND 0x3FFF)"
  using assms
  by (cases "mbus_cart s")
     (simp_all add: mon_ppudata_read_def mon_bus_cpu_read_def mon_ppu_cpu_read_def
        mon_cart_cpu_read_def mon_vram_increment_def bnd_def Let_def mppu_upd_def)
lemma emu_ppudata_state_reads:
  "emu_bus_ppu_read (emu_ppudata_state 0x2000 0x55) 0x2000 = Inr 0x77"
  "emu_bus_ppu_read (emu_ppudata_state 0x3F00 0x55) 0x3F00 = Inr 0x2A"
  "emu_bus_ppu_read (emu_ppudata_state 0x6000 0x55) 0x6000 = Inr 0x77"
  by (simp_all add: emu_ppudata_state_def emu_bus_8000_def emu_bus_init_def emu_ppu_init_def
        ppu_upd_def emu_bus_ppu_read_def emu_cart_ppu_read_def emu_rom_16k_def
        emu_mirror_addr_def emu_palette_addr_def bnd_def Let_def py_get_def py_index_def)

lemma mon_ppudata_state_reads:
  "mon_bus_ppu_read (mon_ppudata_state 0x2000 0x55) 0x2000 = Inr 0x77"
  "mon_bus_ppu_read (mon_ppudata_state 0x3F00 0x55) 0x3F00 = Inr 0x2A"
  "mon_bus_ppu_read (mon_ppudata_state 0x3F00 0x55) 0x2F00 = Inr 0x00"
  "mon_bus_ppu_read (mon_ppudata_state 0x7F00 0x55) 0x7F00 = Inr 0x00"
  "mon_bus_ppu_read (mon_ppudata_state 0x7F00 0x55) 0x6F00 = Inr 0x00"
  by (simp_all add: mon_ppudata_state_def mon_bus_8000_def mon_bus_init_def mon_ppu_init_def
        mppu_upd_def mon_bus_ppu_read_def mon_cart_ppu_read_def mon_rom_16k_def
        mon_actual_addr_def bnd_def Let_def py_get_def py_index_def)

text \<open>
  C5. With the write toggle clear and \<open>t\<close> within its 15 bits, two writes of 0x00 to
  0x2006 leave \<open>v = 0\<close> and the toggle clear again, in EMUNES5.23.251.0A.py and in
  MonikaNES.py. A read of 0x2007, for every \<open>v\<close>: EMUNES returns what the PPU bus holds at
  \<open>v\<close> at once when \<open>v >= 0x3F00\<close>, and the old buffer otherwise; MonikaNES returns it at
  once when \<open>v & 0x3F00 == 0x3F00\<close>, and the old buffer otherwise. Within the 14-bit address
  space both tests say "palette range". Above it they do not: the scroll increments of
  rendering add 0x1000 to \<open>v\<close> unmasked, and at \<open>v = 0x6000\<close> EMUNES returns the nametable
  byte of 0x2000 at once, not the buffer.
\<close>

theorem ppudata_read_buffering:
  "(ppu_w (bus_ppu s) = 0 \<and> 0 \<le> ppu_t (bus_ppu s) \<and> ppu_t (bus_ppu s) < 0x8000 \<longrightarrow>
      (\<exists>s'. emu_ppuaddr_zero s = Inr s' \<and> ppu_v (bus_ppu s') = 0 \<and> ppu_w (bus_ppu s') = 0))
   \<and> (m_address_latch (mbus_ppu m) = 0 \<longrightarrow>
      (\<exists>m'. mon_ppuaddr_zero m = Inr m' \<and> m_vram_addr (mbus_ppu m') = 0
         \<and> m_address_latch (mbus_ppu m') = 0))
   \<and> (emu_bus_ppu_read r (ppu_v (bus_ppu r)) = Inr fresh \<longrightarrow>
      emu_ppudata_read r =
        Some (if 0x3F00 \<le> ppu_v (bus_ppu r) then fresh else ppudata_buffer (bus_ppu r),
              fresh,
              (ppu_v (bus_ppu r) + (if (ppuctrl (bus_ppu r) AND 0x04) \<noteq> 0 then 32 else 1))
                AND 0x3FFF))
   \<and> (mon_bus_ppu_read n (m_vram_addr (mbus_ppu n)) = Inr direct
        \<and> ((m_vram_addr (mbus_ppu n) AND 0x3F00) = 0x3F00 \<and> 0x3000 \<le> m_vram_addr (mbus_ppu n)
             \<longrightarrow> mon_bus_ppu_read n (m_vram_addr (mbus_ppu n) - 0x1000) = Inr below) \<longrightarrow>
      mon_ppudata_read n =
        Some (if (m_vram_addr (mbus_ppu n) AND 0x3F00) = 0x3F00 then direct
              else m_buffer_data (mbus_ppu n),
              if (m_vram_addr (mbus_ppu n) AND 0x3F00) = 0x3F00
              then (if 0x3000 \<le> m_vram_addr (mbus_ppu n) then below else 0) else direct,
              (m_vram_addr (mbus_ppu n)
                 + (if (drop_bit 2 (m_PPUCTRL (mbus_ppu n))) AND 1 \<noteq> 0 then 32 else 1))
                AND 0x3FFF))
   \<and> (0 \<le> v \<and> v \<le> 0x3FFF \<longrightarrow> ((v AND 0x3F00) = 0x3F00) = (0x3F00 \<le> (v :: int)))"
proof (intro conjI impI)
  assume h: "ppu_w (bus_ppu s) = 0 \<and> 0 \<le> ppu_t (bus_ppu s) \<and> ppu_t (bus_ppu s) < 0x8000"
  then have z: "ppu_t (bus_ppu s) AND 0x8000 = 0" by (simp add: and_8000_small)
  from h have "emu_ppuaddr_zero s =
           Inr (ppu_upd (\<lambda>p. p\<lparr>ppu_t := ppu_t p AND 0x8000, ppu_v := ppu_t p AND 0x8000,
                               ppu_w := 0\<rparr>) s)"
    by (intro emu_ppuaddr_zero_eval) simp
  then show "\<exists>s'. emu_ppuaddr_zero s = Inr s' \<and> ppu_v (bus_ppu s') = 0 \<and> ppu_w (bus_ppu s') = 0"
    using z by (simp add: ppu_upd_def)
next
  assume "m_address_latch (mbus_ppu m) = 0"
  then show "\<exists>m'. mon_ppuaddr_zero m = Inr m' \<and> m_vram_addr (mbus_ppu m') = 0
         \<and> m_address_latch (mbus_ppu m') = 0"
    by (simp add: mon_ppuaddr_zero_eval mppu_upd_def)
next
  assume "emu_bus_ppu_read r (ppu_v (bus_ppu r)) = Inr fresh"
  then show "emu_ppudata_read r =
        Some (if 0x3F00 \<le> ppu_v (bus_ppu r) then fresh else ppudata_buffer (bus_ppu r),
              fresh,
              (ppu_v (bus_ppu r) + (if (ppuctrl (bus_ppu r) AND 0x04) \<noteq> 0 then 32 else 1))
                AND 0x3FFF)"
    by (rule emu_ppudata_read_eval)
next
  assume h: "mon_bus_ppu_read n (m_vram_addr (mbus_ppu n)) = Inr direct
        \<and> ((m_vram_addr (mbus_ppu n) AND 0x3F00) = 0x3F00 \<and> 0x3000 \<le> m_vram_addr (mbus_ppu n)
             \<longrightarrow> mon_bus_ppu_read n (m_vram_addr (mbus_ppu n) - 0x1000) = Inr below)"
  then show "mon_ppudata_read n =
        Some (if (m_vram_addr (mbus_ppu n) AND 0x3F00) = 0x3F00 then direct
              else m_buffer_data (mbus_ppu n),
              if (m_vram_addr (mbus_ppu n) AND 0x3F00) = 0x3F00
              then (if 0x3000 \<le> m_vram_addr (mbus_ppu n) then below else 0) else direct,
              (m_vram_addr (mbus_ppu n)
                 + (if (drop_bit 2 (m_PPUCTRL (mbus_ppu n))) AND 1 \<noteq> 0 then 32 else 1))
                AND 0x3FFF)"
    by (intro mon_ppudata_read_eval) simp_all
next
  assume "0 \<le> v \<and> v \<le> 0x3FFF"
  then show "((v AND 0x3F00) = 0x3F00) = (0x3F00 \<le> v)"
    by (intro palette_range_test) simp_all
qed

lemma scroll_leaves_14_bits:
  "ppu_v (increment_scroll_y (emu_ppu_init\<lparr>ppumask := 0x08, ppu_v := 0x5000\<rparr>)) = 0x6000"
  by (simp add: increment_scroll_y_def rendering_enabled_def emu_ppu_init_def)

theorem ppudata_read_buffering_witness:
  "(\<exists>s'. emu_ppuaddr_zero emu_bus_8000 = Inr s' \<and> ppu_v (bus_ppu s') = 0)
   \<and> (\<exists>m'. mon_ppuaddr_zero mon_bus_8000 = Inr m' \<and> m_vram_addr (mbus_ppu m') = 0)
   \<and> emu_ppudata_read (emu_ppudata_state 0x2000 0x55) = Some (0x55, 0x77, 0x2001)
   \<and> emu_ppudata_read (emu_ppudata_state 0x3F00 0x55) = Some (0x2A, 0x2A, 0x3F01)
   \<and> emu_ppudata_read (emu_ppudata_state 0x6000 0x55) = Some (0x77, 0x77, 0x2001)
   \<and> mon_ppudata_read (mon_ppudata_state 0x2000 0x55) = Some (0x55, 0x77, 0x2001)
   \<and> mon_ppudata_read (mon_ppudata_state 0x3F00 0x55) = Some (0x2A, 0x00, 0x3F01)
   \<and> mon_ppudata_read (mon_ppudata_state 0x7F00 0x55) = Some (0x00, 0x00, 0x3F01)"
proof -
  have e: "bus_ppu (emu_ppudata_state v b)
             = emu_ppu_init\<lparr>ppu_v := v, ppudata_buffer := b, vram := (replicate 2048 0)[0 := 0x77],
                 palette_ram := (replicate 32 0)[0 := 0x2A]\<rparr>" for v b
    by (simp add: emu_ppudata_state_def emu_bus_8000_def emu_bus_init_def emu_ppu_init_def
          ppu_upd_def)
  have m: "mbus_ppu (mon_ppudata_state v b)
             = mon_ppu_init\<lparr>m_vram_addr := v, m_buffer_data := b,
                 m_vram := (replicate 4096 0)[0 := 0x77],
                 m_palette_ram := (replicate 32 0)[0 := 0x2A]\<rparr>" for v b
    by (simp add: mon_ppudata_state_def mon_bus_8000_def mon_bus_init_def mon_ppu_init_def
          mppu_upd_def)
  have i: "bus_ppu emu_bus_8000 = emu_ppu_init" "mbus_ppu mon_bus_8000 = mon_ppu_init"
    by (simp_all add: emu_bus_8000_def emu_bus_init_def mon_bus_8000_def mon_bus_init_def)
  show ?thesis
    using ppudata_read_buffering [of emu_bus_8000 mon_bus_8000 "emu_ppudata_state 0x2000 0x55" "0x77"
            "mon_ppudata_state 0x2000 0x55" "0x77" 0 0]
      ppudata_read_buffering [of emu_bus_8000 mon_bus_8000 "emu_ppudata_state 0x3F00 0x55" "0x2A"
            "mon_ppudata_state 0x3F00 0x55" "0x2A" "0x00" 0]
      ppudata_read_buffering [of emu_bus_8000 mon_bus_8000 "emu_ppudata_state 0x6000 0x55" "0x77"
            "mon_ppudata_state 0x7F00 0x55" "0x00" "0x00" 0]
    by (auto simp add: e m i emu_ppudata_state_reads mon_ppudata_state_reads emu_ppu_init_def
          mon_ppu_init_def)
qed
lemma emu_tick_run_add:
  "emu_tick_run (m + n) t =
     (case emu_tick_run m t of (k1, t1) \<Rightarrow>
        case emu_tick_run n t1 of (k2, t2) \<Rightarrow> (k1 + k2, t2))"
  by (induction m arbitrary: t) (auto split: prod.splits)

lemma emu_tick_run_1: "emu_tick_run (Suc 0) t = (case emu_tick t of (t1, r) \<Rightarrow> (if r then 1 else 0, t1))"
  by (simp split: prod.splits)

lemma emu_line:
  assumes "c + int n \<le> 340" and "sl \<noteq> 0 \<or> 1 \<le> c" and "sl \<noteq> 261 \<or> f = 0"
  shows "emu_tick_run n (sl, c, f) = (0, (sl, c + int n, f))"
  using assms
proof (induction n arbitrary: c)
  case 0
  then show ?case by simp
next
  case (Suc n)
  have t: "emu_tick (sl, c, f) = ((sl, c + 1, f), False)"
    using Suc.prems by (auto simp: emu_tick_def)
  have "emu_tick_run n (sl, c + 1, f) = (0, (sl, c + 1 + int n, f))"
    using Suc.prems by (intro Suc.IH) auto
  then show ?case by (simp add: t add.assoc)
qed

lemma emu_line0: "emu_tick_run 340 (0, 0, f) = (0, (1, 0, f))"
proof -
  have n: "(340::nat) = Suc 0 + (338 + Suc 0)" by simp
  have a: "emu_tick (0, 0, f) = ((0, 2, f), False)" by (simp add: emu_tick_def)
  have b: "emu_tick_run 338 (0, 2, f) = (0, (0, 2 + int 338, f))"
    by (rule emu_line) simp_all
  have c: "emu_tick (0, 340, f) = ((1, 0, f), False)" by (simp add: emu_tick_def)
  show ?thesis
    unfolding n emu_tick_run_add emu_tick_run_1 by (simp add: a b c)
qed

lemma emu_full_line:
  assumes "1 \<le> sl" and "sl \<le> 260"
  shows "emu_tick_run 341 (sl, 0, f) = (0, (sl + 1, 0, f))"
proof -
  have n: "(341::nat) = 340 + Suc 0" by simp
  have b: "emu_tick_run 340 (sl, 0, f) = (0, (sl, 0 + int 340, f))"
    using assms by (intro emu_line) simp_all
  have c: "emu_tick (sl, 340, f) = ((sl + 1, 0, f), False)"
    using assms by (simp add: emu_tick_def)
  show ?thesis
    unfolding n emu_tick_run_add emu_tick_run_1 by (simp add: b c)
qed

lemma emu_lines:
  assumes "1 \<le> sl" and "sl + int k \<le> 261"
  shows "emu_tick_run (341 * k) (sl, 0, f) = (0, (sl + int k, 0, f))"
  using assms
proof (induction k arbitrary: sl)
  case 0
  then show ?case by simp
next
  case (Suc k)
  have n: "341 * Suc k = 341 + 341 * k" by simp
  have a: "emu_tick_run 341 (sl, 0, f) = (0, (sl + 1, 0, f))"
    using Suc.prems by (intro emu_full_line) simp_all
  have b: "emu_tick_run (341 * k) (sl + 1, 0, f) = (0, (sl + 1 + int k, 0, f))"
    using Suc.prems by (intro Suc.IH) simp_all
  show ?case unfolding n emu_tick_run_add by (simp add: a b add.assoc)
qed

lemma emu_last_line_even: "emu_tick_run 341 (261, 0, 0) = (1, (0, 0, 1))"
proof -
  have n: "(341::nat) = 340 + Suc 0" by simp
  have b: "emu_tick_run 340 (261, 0, 0) = (0, (261, 0 + int 340, 0))"
    by (intro emu_line) simp_all
  have c: "emu_tick (261, 340, 0) = ((0, 0, 1), True)"
    by (simp add: emu_tick_def)
  show ?thesis
    unfolding n emu_tick_run_add emu_tick_run_1 by (simp add: b c)
qed

lemma emu_first_frame: "emu_tick_run 89341 (0, 0, 0) = (1, (0, 0, 1))"
proof -
  have n: "(89341::nat) = 340 + (88660 + 341)" by simp
  have b: "emu_tick_run 88660 (1, 0, 0) = (0, (261, 0, 0))"
    using emu_lines [of 1 260 0] by simp
  show ?thesis
    unfolding n emu_tick_run_add by (simp add: emu_line0 b emu_last_line_even)
qed

lemma emu_first_frame_plus_one: "emu_tick_run 89342 (0, 0, 0) = (1, (0, 2, 1))"
proof -
  have n: "(89342::nat) = 89341 + Suc 0" by simp
  have c: "emu_tick (0, 0, 1) = ((0, 2, 1), False)" by (simp add: emu_tick_def)
  show ?thesis
    unfolding n emu_tick_run_add emu_tick_run_1 by (simp add: emu_first_frame c)
qed

lemma mon_tick_run_add:
  "mon_tick_run (m + n) t =
     (case mon_tick_run m t of (k1, t1) \<Rightarrow>
        case mon_tick_run n t1 of (k2, t2) \<Rightarrow> (k1 + k2, t2))"
  by (induction m arbitrary: t) (auto split: prod.splits)

lemma mon_tick_run_1: "mon_tick_run (Suc 0) t = (case mon_tick t of (t1, r) \<Rightarrow> (if r then 1 else 0, t1))"
  by (simp split: prod.splits)

lemma mon_line:
  assumes "c + int n \<le> 340"
  shows "mon_tick_run n (sl, c) = (0, (sl, c + int n))"
  using assms
proof (induction n arbitrary: c)
  case 0
  then show ?case by simp
next
  case (Suc n)
  have t: "mon_tick (sl, c) = ((sl, c + 1), False)"
    using Suc.prems by (auto simp: mon_tick_def)
  have "mon_tick_run n (sl, c + 1) = (0, (sl, c + 1 + int n))"
    using Suc.prems by (intro Suc.IH) auto
  then show ?case by (simp add: t add.assoc)
qed

lemma mon_full_line:
  assumes "sl \<le> 260"
  shows "mon_tick_run 341 (sl, 0) = (0, (sl + 1, 0))"
proof -
  have n: "(341::nat) = 340 + Suc 0" by simp
  have b: "mon_tick_run 340 (sl, 0) = (0, (sl, 0 + int 340))"
    by (intro mon_line) simp_all
  have c: "mon_tick (sl, 340) = ((sl + 1, 0), False)"
    using assms by (simp add: mon_tick_def)
  show ?thesis
    unfolding n mon_tick_run_add mon_tick_run_1 by (simp add: b c)
qed

lemma mon_lines:
  assumes "sl + int k \<le> 261"
  shows "mon_tick_run (341 * k) (sl, 0) = (0, (sl + int k, 0))"
  using assms
proof (induction k arbitrary: sl)
  case 0
  then show ?case by simp
next
  case (Suc k)
  have n: "341 * Suc k = 341 + 341 * k" by simp
  have a: "mon_tick_run 341 (sl, 0) = (0, (sl + 1, 0))"
    using Suc.prems by (intro mon_full_line) simp_all
  have b: "mon_tick_run (341 * k) (sl + 1, 0) = (0, (sl + 1 + int k, 0))"
    using Suc.prems by (intro Suc.IH) simp_all
  show ?case unfolding n mon_tick_run_add by (simp add: a b add.assoc)
qed

lemma mon_last_line: "mon_tick_run 341 (261, 0) = (1, (0, 0))"
proof -
  have n: "(341::nat) = 340 + Suc 0" by simp
  have b: "mon_tick_run 340 (261, 0) = (0, (261, 0 + int 340))"
    by (intro mon_line) simp_all
  have c: "mon_tick (261, 340) = ((0, 0), True)"
    by (simp add: mon_tick_def)
  show ?thesis
    unfolding n mon_tick_run_add mon_tick_run_1 by (simp add: b c)
qed

lemma mon_frame: "mon_tick_run 89342 (0, 0) = (1, (0, 0))"
proof -
  have n: "(89342::nat) = 89001 + 341" by simp
  have b: "mon_tick_run 89001 (0, 0) = (0, (261, 0))"
    using mon_lines [of 0 261] by simp
  show ?thesis
    unfolding n mon_tick_run_add by (simp add: b mon_last_line)
qed

lemma mon_advance_tick:
  "(m_scanline (mon_advance p), m_cycle (mon_advance p)) = fst (mon_tick (m_scanline p, m_cycle p))"
  "m_frame_complete (mon_advance p) = (m_frame_complete p \<or> snd (mon_tick (m_scanline p, m_cycle p)))"
  by (auto simp: mon_advance_def mon_tick_def Let_def)
lemma and_range: "0 \<le> (m::int) \<Longrightarrow> 0 \<le> x AND m \<and> x AND m \<le> m"
  by (simp add: AND_upper2)

lemma emu_mirror_addr_range: "0 \<le> emu_mirror_addr rom a \<and> emu_mirror_addr rom a < 2048"
proof (cases "mirror_mode rom = 0")
  case True
  have a: "0 \<le> a AND 0x0800 \<and> a AND 0x0800 \<le> 0x0800" by (rule and_range) simp
  have b: "0 \<le> a AND 0x03FF \<and> a AND 0x03FF \<le> 0x03FF" by (rule and_range) simp
  have c: "0 \<le> drop_bit 1 (a AND 0x0800) \<and> drop_bit 1 (a AND 0x0800) < 2 ^ 11"
  proof -
    have "drop_bit 1 (a AND 0x0800) = (a AND 0x0800) div 2" by (simp add: drop_bit_eq_div)
    moreover have "0 \<le> (a AND 0x0800) div 2 \<and> (a AND 0x0800) div 2 < 2048" using a by linarith
    ultimately show ?thesis by simp
  qed
  have "drop_bit 1 (a AND 0x0800) OR (a AND 0x03FF) < 2 ^ 11"
    using b c by (intro OR_upper) simp_all
  then show ?thesis using True by (simp add: emu_mirror_addr_def)
next
  case False
  have "0 \<le> a AND 0x07FF \<and> a AND 0x07FF \<le> 0x07FF" by (rule and_range) simp
  then show ?thesis using False by (simp add: emu_mirror_addr_def)
qed

lemma emu_read_chr_ok:
  assumes "emu_chr_ok rom" and "0 \<le> a"
  shows "\<exists>d. emu_read_chr rom a = Inr d"
proof (cases "chr_rom_size rom > 0")
  case True
  have "0 \<le> a AND (chr_rom_size rom - 1) \<and> a AND (chr_rom_size rom - 1) \<le> chr_rom_size rom - 1"
    using True by (intro and_range) simp
  then show ?thesis using True assms
    by (simp add: emu_read_chr_def emu_chr_ok_def py_get_in)
next
  case False
  have "0 \<le> a AND 0x1FFF \<and> a AND 0x1FFF \<le> 0x1FFF" by (rule and_range) simp
  then show ?thesis using False assms
    by (auto simp: emu_read_chr_def emu_chr_ok_def py_get_in split: option.splits)
qed

lemma ready_read:
  assumes "emu_ppu_ready s"
  shows "\<exists>d. emu_bus_ppu_read s a = Inr d"
proof -
  obtain rom where rom: "bus_cart s = Some rom" and chr: "emu_chr_ok rom"
    using assms by (auto simp: emu_ppu_ready_def Let_def split: option.splits)
  have len: "length (vram (bus_ppu s)) = 2048" "length (palette_ram (bus_ppu s)) = 32"
    using assms by (simp_all add: emu_ppu_ready_def Let_def)
  have r: "0 \<le> a AND 0x3FFF \<and> a AND 0x3FFF \<le> 0x3FFF" by (rule and_range) simp
  obtain d where d: "emu_read_chr rom (a AND 0x3FFF) = Inr d"
    using emu_read_chr_ok [OF chr, of "a AND 0x3FFF"] r by auto
  show ?thesis
    using r len emu_mirror_addr_range [of rom "a AND 0x3FFF"]
      emu_palette_addr_range [of "a AND 0x3FFF"]
    by (simp add: emu_bus_ppu_read_def Let_def rom emu_cart_ppu_read_def d bnd_def py_get_in)
qed

lemma quiet_Inr:
  "emu_quiet s (Inr s') =
     (emu_ppu_ready s' \<and> emu_timing s' = emu_timing s
      \<and> frame_complete (bus_ppu s') = frame_complete (bus_ppu s))"
  by (simp add: emu_quiet_def)

lemma quiet_read:
  assumes "emu_ppu_ready s1" and "\<And>d. emu_quiet s0 (k d)"
  shows "emu_quiet s0 (bnd (emu_bus_ppu_read s1 a) k)"
proof -
  obtain d where "emu_bus_ppu_read s1 a = Inr d" using ready_read [OF assms(1)] by blast
  then show ?thesis using assms(2) by (simp add: bnd_def)
qed

lemma quiet_trans:
  assumes "emu_timing s1 = emu_timing s0"
    and "frame_complete (bus_ppu s1) = frame_complete (bus_ppu s0)"
    and "emu_quiet s1 r"
  shows "emu_quiet s0 r"
  using assms by (simp add: emu_quiet_def split: sum.splits)

lemma quiet_bnd:
  assumes "emu_quiet s0 r"
    and "\<And>s1. emu_ppu_ready s1 \<Longrightarrow> emu_timing s1 = emu_timing s0
           \<Longrightarrow> frame_complete (bus_ppu s1) = frame_complete (bus_ppu s0) \<Longrightarrow> emu_quiet s0 (k s1)"
  shows "emu_quiet s0 (bnd r k)"
  using assms by (cases r) (simp_all add: emu_quiet_def bnd_def)
lemma same_ppu_ops:
  "emu_ppu_same p (update_shifters p)" "emu_ppu_same p (load_background_shifters p)"
  "emu_ppu_same p (increment_scroll_x p)" "emu_ppu_same p (increment_scroll_y p)"
  "emu_ppu_same p (transfer_address_x p)" "emu_ppu_same p (transfer_address_y p)"
  by (simp_all add: emu_ppu_same_def update_shifters_def load_background_shifters_def
        increment_scroll_x_def increment_scroll_y_def transfer_address_x_def
        transfer_address_y_def Let_def)

lemma same_trans: "emu_ppu_same p q \<Longrightarrow> emu_ppu_same q r \<Longrightarrow> emu_ppu_same p r"
  by (simp add: emu_ppu_same_def)

lemma quiet_upd:
  assumes "emu_quiet s0 (Inr s1)" and "emu_ppu_same (bus_ppu s1) (g (bus_ppu s1))"
  shows "emu_quiet s0 (Inr (ppu_upd g s1))"
  using assms
  by (simp add: emu_quiet_def emu_ppu_same_def emu_ppu_ready_def emu_timing_def ppu_upd_def Let_def)

lemma quiet_read_at:
  assumes "emu_quiet s0 (Inr s1)" and "\<And>d. emu_quiet s0 (k d)"
  shows "emu_quiet s0 (bnd (emu_bus_ppu_read s1 a) k)"
  using assms by (intro quiet_read) (simp_all add: quiet_Inr)

lemma quiet_refl: "emu_ppu_ready s \<Longrightarrow> emu_quiet s (Inr s)"
  by (simp add: quiet_Inr)

lemma bg_fetch_quiet:
  assumes "emu_ppu_ready s"
  shows "emu_quiet s (emu_bg_fetch s)"
proof -
  have u: "emu_quiet s (Inr (ppu_upd update_shifters s))"
    using assms by (intro quiet_upd quiet_refl same_ppu_ops)
  have l: "emu_quiet s (Inr (ppu_upd load_background_shifters (ppu_upd update_shifters s)))"
    by (intro quiet_upd u same_ppu_ops)
  have x: "emu_quiet s (Inr (ppu_upd increment_scroll_x (ppu_upd update_shifters s)))"
    by (intro quiet_upd u same_ppu_ops)
  have f: "emu_quiet s (Inr (ppu_upd g s1))"
    if "emu_quiet s (Inr s1)"
      and "\<And>p. emu_ppu_same p (g p)" for g s1
    using that by (intro quiet_upd) simp_all
  show ?thesis
    unfolding emu_bg_fetch_def Let_def
    by (auto intro!: quiet_read_at u l x f simp: emu_ppu_same_def)
qed
lemma emu_palette_length: "length emu_palette = 64"
  by (simp add: emu_palette_def)

lemma list_all_update:
  assumes "list_all P xs" and "P y"
  shows "list_all P (xs[j := y])"
  using assms set_update_subset_insert [of xs j y] by (auto simp: list_all_iff)

lemma render_pixel_quiet:
  assumes r: "emu_ppu_ready s"
    and sl: "0 \<le> scanline (bus_ppu s)" "scanline (bus_ppu s) \<le> 239"
    and cy: "1 \<le> cycle (bus_ppu s)" "cycle (bus_ppu s) \<le> 256"
  shows "emu_quiet s (emu_render_pixel s)"
proof -
  let ?p = "bus_ppu s"
  have len: "length (screen ?p) = 240" and rows: "list_all (\<lambda>row. length row = 256) (screen ?p)"
    and x: "0 \<le> ppu_x ?p"
    using r by (simp_all add: emu_ppu_ready_def Let_def)
  have row: "length (screen ?p ! nat (scanline ?p)) = 256"
    using rows sl len by (simp add: list_all_length)
  have g: "py_get (screen ?p) (scanline ?p) = Inr (screen ?p ! nat (scanline ?p))"
    using sl len by (intro py_get_in) simp_all
  have i1: "py_index 256 (cycle ?p - 1) = Some (nat (cycle ?p - 1))"
    using cy by (simp add: py_index_def)
  have i2: "py_index 240 (scanline ?p) = Some (nat (scanline ?p))"
    using sl by (simp add: py_index_def)
  have pal: "\<exists>rgb. py_get emu_palette (d AND 0x3F) = Inr rgb" for d
  proof -
    have "0 \<le> d AND 0x3F \<and> d AND 0x3F \<le> 0x3F" by (rule and_range) simp
    then show ?thesis by (simp add: py_get_in emu_palette_length)
  qed
  have fin: "emu_quiet s (Inr (ppu_upd (\<lambda>p. p\<lparr>screen :=
               (screen p)[j := (screen ?p ! nat (scanline ?p))[k := rgb]]\<rparr>) s))" for j k rgb
    using r row
    by (simp add: quiet_Inr emu_ppu_ready_def emu_timing_def ppu_upd_def Let_def list_all_update)
  have body: "emu_quiet s
      (bnd (emu_bus_ppu_read s a) (\<lambda>d.
       bnd (py_get emu_palette (d AND 0x3F)) (\<lambda>rgb.
       bnd (py_get (screen ?p) (scanline ?p)) (\<lambda>row.
         case py_index (length row) (cycle ?p - 1) of
           None \<Rightarrow> Inl IndexError
         | Some k \<Rightarrow>
             (case py_index (length (screen ?p)) (scanline ?p) of
                None \<Rightarrow> Inl IndexError
              | Some j \<Rightarrow> Inr (ppu_upd (\<lambda>p. p\<lparr>screen := (screen p)[j := row[k := rgb]]\<rparr>) s))))))"
    for a
  proof (rule quiet_read [OF r])
    fix d
    obtain rgb where "py_get emu_palette (d AND 0x3F) = Inr rgb" using pal by blast
    then show "emu_quiet s
       (bnd (py_get emu_palette (d AND 0x3F)) (\<lambda>rgb.
        bnd (py_get (screen ?p) (scanline ?p)) (\<lambda>row.
         case py_index (length row) (cycle ?p - 1) of
           None \<Rightarrow> Inl IndexError
         | Some k \<Rightarrow>
             (case py_index (length (screen ?p)) (scanline ?p) of
                None \<Rightarrow> Inl IndexError
              | Some j \<Rightarrow> Inr (ppu_upd (\<lambda>p. p\<lparr>screen := (screen p)[j := row[k := rgb]]\<rparr>) s)))))"
      using fin by (simp add: bnd_def g row len i1 i2)
  qed
  show ?thesis
    unfolding emu_render_pixel_def Let_def
    using x body by (simp add: bnd_def)
qed
lemma visible_scanline_quiet:
  assumes r: "emu_ppu_ready s"
    and sl: "0 \<le> scanline (bus_ppu s)" "scanline (bus_ppu s) \<le> 239"
  shows "emu_quiet (if scanline (bus_ppu s) = 0 \<and> cycle (bus_ppu s) = 0
                    then ppu_upd (\<lambda>p. p\<lparr>cycle := 1\<rparr>) s else s)
           (emu_visible_scanline s)"
proof -
  define s1 where "s1 = (if scanline (bus_ppu s) = 0 \<and> cycle (bus_ppu s) = 0
                    then ppu_upd (\<lambda>p. p\<lparr>cycle := 1\<rparr>) s else s)"
  define cyc where "cyc = cycle (bus_ppu s1)"
  have r1: "emu_ppu_ready s1"
    using r by (simp add: s1_def emu_ppu_ready_def ppu_upd_def Let_def)
  have sl1: "0 \<le> scanline (bus_ppu s1)" "scanline (bus_ppu s1) \<le> 239"
    using sl by (simp_all add: s1_def ppu_upd_def)
  have q1: "emu_quiet s1 (Inr s1)" using r1 by (rule quiet_refl)
  have b1: "emu_quiet s1 (if (2 \<le> cyc \<and> cyc \<le> 257) \<or> (321 \<le> cyc \<and> cyc \<le> 336)
                          then emu_bg_fetch s1 else Inr s1)"
    using r1 by (simp add: bg_fetch_quiet quiet_refl)
  have b2: "emu_quiet s1 (Inr (if cyc = 257
              then ppu_upd (\<lambda>p. transfer_address_x (load_background_shifters p))
                     (if cyc = 256 then ppu_upd increment_scroll_y s2 else s2)
              else (if cyc = 256 then ppu_upd increment_scroll_y s2 else s2)))"
    if "emu_quiet s1 (Inr s2)" for s2
  proof -
    have a: "emu_quiet s1 (Inr (if cyc = 256 then ppu_upd increment_scroll_y s2 else s2))"
      using that by (auto intro!: quiet_upd same_ppu_ops)
    have "emu_ppu_same p (transfer_address_x (load_background_shifters p))" for p
      by (rule same_trans [OF same_ppu_ops(2) same_ppu_ops(5)])
    then show ?thesis using a by (auto intro!: quiet_upd)
  qed
  have b3: "emu_quiet s1 (if cyc = 338 \<or> cyc = 340 then
             bnd (emu_bus_ppu_read s4 (0x2000 OR (ppu_v (bus_ppu s4) AND 0x0FFF))) (\<lambda>d.
               Inr (ppu_upd (\<lambda>p. p\<lparr>bg_next_tile_id := d\<rparr>) s4))
           else Inr s4)"
    if "emu_quiet s1 (Inr s4)" for s4
    using that by (auto intro!: quiet_read_at quiet_upd simp: emu_ppu_same_def)
  have b4: "emu_quiet s1 (if 1 \<le> cyc \<and> cyc \<le> 256 then emu_render_pixel s5 else Inr s5)"
    if "emu_quiet s1 (Inr s5)" for s5
  proof (cases "1 \<le> cyc \<and> cyc \<le> 256")
    case True
    have e: "emu_ppu_ready s5" "emu_timing s5 = emu_timing s1"
      "frame_complete (bus_ppu s5) = frame_complete (bus_ppu s1)"
      using that by (simp_all add: quiet_Inr)
    then have c: "scanline (bus_ppu s5) = scanline (bus_ppu s1)" "cycle (bus_ppu s5) = cyc"
      by (simp_all add: emu_timing_def cyc_def)
    have "emu_quiet s5 (emu_render_pixel s5)"
      using e(1) sl1 True by (intro render_pixel_quiet) (simp_all add: c)
    then have "emu_quiet s1 (emu_render_pixel s5)"
      using e by (intro quiet_trans [of s5 s1]) simp_all
    then show ?thesis using True by simp
  next
    case False
    then show ?thesis using that by auto
  qed
  have "emu_quiet s1
     (bnd (if (2 \<le> cyc \<and> cyc \<le> 257) \<or> (321 \<le> cyc \<and> cyc \<le> 336) then emu_bg_fetch s1
           else Inr s1) (\<lambda>s2.
      bnd (if cyc = 338 \<or> cyc = 340 then
             bnd (emu_bus_ppu_read
                    (if cyc = 257
                     then ppu_upd (\<lambda>p. transfer_address_x (load_background_shifters p))
                            (if cyc = 256 then ppu_upd increment_scroll_y s2 else s2)
                     else (if cyc = 256 then ppu_upd increment_scroll_y s2 else s2))
                    (0x2000 OR (ppu_v (bus_ppu
                       (if cyc = 257
                        then ppu_upd (\<lambda>p. transfer_address_x (load_background_shifters p))
                               (if cyc = 256 then ppu_upd increment_scroll_y s2 else s2)
                        else (if cyc = 256 then ppu_upd increment_scroll_y s2 else s2))) AND 0x0FFF)))
               (\<lambda>d. Inr (ppu_upd (\<lambda>p. p\<lparr>bg_next_tile_id := d\<rparr>)
                  (if cyc = 257
                   then ppu_upd (\<lambda>p. transfer_address_x (load_background_shifters p))
                          (if cyc = 256 then ppu_upd increment_scroll_y s2 else s2)
                   else (if cyc = 256 then ppu_upd increment_scroll_y s2 else s2))))
           else Inr (if cyc = 257
                     then ppu_upd (\<lambda>p. transfer_address_x (load_background_shifters p))
                            (if cyc = 256 then ppu_upd increment_scroll_y s2 else s2)
                     else (if cyc = 256 then ppu_upd increment_scroll_y s2 else s2))) (\<lambda>s5.
      if 1 \<le> cyc \<and> cyc \<le> 256 then emu_render_pixel s5 else Inr s5)))"
  proof (rule quiet_bnd [OF b1])
    fix s2
    assume "emu_ppu_ready s2" "emu_timing s2 = emu_timing s1"
      "frame_complete (bus_ppu s2) = frame_complete (bus_ppu s1)"
    then have q2: "emu_quiet s1 (Inr s2)" by (simp add: quiet_Inr)
    show "emu_quiet s1
      (bnd (if cyc = 338 \<or> cyc = 340 then
             bnd (emu_bus_ppu_read
                    (if cyc = 257
                     then ppu_upd (\<lambda>p. transfer_address_x (load_background_shifters p))
                            (if cyc = 256 then ppu_upd increment_scroll_y s2 else s2)
                     else (if cyc = 256 then ppu_upd increment_scroll_y s2 else s2))
                    (0x2000 OR (ppu_v (bus_ppu
                       (if cyc = 257
                        then ppu_upd (\<lambda>p. transfer_address_x (load_background_shifters p))
                               (if cyc = 256 then ppu_upd increment_scroll_y s2 else s2)
                        else (if cyc = 256 then ppu_upd increment_scroll_y s2 else s2))) AND 0x0FFF)))
               (\<lambda>d. Inr (ppu_upd (\<lambda>p. p\<lparr>bg_next_tile_id := d\<rparr>)
                  (if cyc = 257
                   then ppu_upd (\<lambda>p. transfer_address_x (load_background_shifters p))
                          (if cyc = 256 then ppu_upd increment_scroll_y s2 else s2)
                   else (if cyc = 256 then ppu_upd increment_scroll_y s2 else s2))))
           else Inr (if cyc = 257
                     then ppu_upd (\<lambda>p. transfer_address_x (load_background_shifters p))
                            (if cyc = 256 then ppu_upd increment_scroll_y s2 else s2)
                     else (if cyc = 256 then ppu_upd increment_scroll_y s2 else s2))) (\<lambda>s5.
      if 1 \<le> cyc \<and> cyc \<le> 256 then emu_render_pixel s5 else Inr s5))"
    proof (rule quiet_bnd [OF b3 [OF b2 [OF q2]]])
      fix s5
      assume "emu_ppu_ready s5" "emu_timing s5 = emu_timing s1"
        "frame_complete (bus_ppu s5) = frame_complete (bus_ppu s1)"
      then have "emu_quiet s1 (Inr s5)" by (simp add: quiet_Inr)
      then show "emu_quiet s1 (if 1 \<le> cyc \<and> cyc \<le> 256 then emu_render_pixel s5 else Inr s5)"
        by (rule b4)
    qed
  qed
  then show ?thesis
    unfolding emu_visible_scanline_def Let_def s1_def [symmetric] cyc_def [symmetric] .
qed
lemma vblank_scanline_quiet:
  assumes "emu_ppu_ready s"
  shows "emu_quiet s (emu_vblank_scanline s)"
proof -
  have c: "(ppuctrl (bus_ppu s) AND 0x80) = 0"
    using assms by (simp add: emu_ppu_ready_def Let_def)
  have "emu_quiet s (Inr (ppu_upd (\<lambda>p. p\<lparr>ppustatus := ppustatus p OR 0x80\<rparr>) s))"
    using assms by (intro quiet_upd quiet_refl) (simp_all add: emu_ppu_same_def)
  then show ?thesis
    using assms c by (simp add: emu_vblank_scanline_def Let_def ppu_upd_def quiet_refl)
qed

lemma prerender_fields:
  "vram (emu_prerender_scanline p) = vram p"
  "palette_ram (emu_prerender_scanline p) = palette_ram p"
  "oam (emu_prerender_scanline p) = oam p"
  "screen (emu_prerender_scanline p) = screen p"
  "ppu_x (emu_prerender_scanline p) = ppu_x p"
  "ppuctrl (emu_prerender_scanline p) = ppuctrl p"
  "ppumask (emu_prerender_scanline p) = ppumask p"
  "scanline (emu_prerender_scanline p) = scanline p"
  "ppu_f (emu_prerender_scanline p) = ppu_f p"
  "frame_complete (emu_prerender_scanline p) = frame_complete p"
  "cycle (emu_prerender_scanline p) = (if cycle p = 339 \<and> ppu_f p \<noteq> 0 then 340 else cycle p)"
  by (simp_all add: emu_prerender_scanline_def transfer_address_y_def Let_def)

lemma sprite_zero_ok:
  assumes "length (oam p) = 256"
  shows "\<exists>st. emu_sprite_zero p = Inr (p\<lparr>ppustatus := st\<rparr>)"
proof -
  have g: "py_get (oam p) 0 = Inr (oam p ! 0)" "py_get (oam p) 3 = Inr (oam p ! 3)"
    using assms by (simp_all add: py_get_def py_index_def)
  have e: "p = p\<lparr>ppustatus := ppustatus p\<rparr>" by simp
  show ?thesis
    unfolding emu_sprite_zero_def g bnd_def
    by (auto intro: exI [of _ "ppustatus p"] exI [of _ "ppustatus p OR 0x40"])
qed

lemma advance_timing:
  "(scanline (emu_advance p), cycle (emu_advance p), ppu_f (emu_advance p)) =
     (if cycle p + 1 > 340
      then (if scanline p + 1 > 261 then (0, 0, ppu_f p XOR 1) else (scanline p + 1, 0, ppu_f p))
      else (scanline p, cycle p + 1, ppu_f p))"
  "frame_complete (emu_advance p) =
     (frame_complete p \<or> (cycle p + 1 > 340 \<and> scanline p + 1 > 261))"
  "vram (emu_advance p) = vram p" "palette_ram (emu_advance p) = palette_ram p"
  "oam (emu_advance p) = oam p" "screen (emu_advance p) = screen p"
  "ppu_x (emu_advance p) = ppu_x p" "ppuctrl (emu_advance p) = ppuctrl p"
  by (simp_all add: emu_advance_def Let_def)
lemma ppu_clock_scanline_part:
  assumes r: "emu_ppu_ready s"
  shows "\<exists>s1. (let sl = scanline (bus_ppu s) in
                if 0 \<le> sl \<and> sl \<le> 239 then emu_visible_scanline s
                else if sl = 240 then Inr s
                else if 241 \<le> sl \<and> sl \<le> 260 then emu_vblank_scanline s
                else if sl = 261 then Inr (ppu_upd emu_prerender_scanline s)
                else Inr s) = Inr s1
          \<and> emu_ppu_ready s1
          \<and> scanline (bus_ppu s1) = scanline (bus_ppu s)
          \<and> ppu_f (bus_ppu s1) = ppu_f (bus_ppu s)
          \<and> frame_complete (bus_ppu s1) = frame_complete (bus_ppu s)
          \<and> cycle (bus_ppu s1) =
                (if scanline (bus_ppu s) = 0 \<and> cycle (bus_ppu s) = 0 then 1
                 else if scanline (bus_ppu s) = 261 \<and> cycle (bus_ppu s) = 339
                         \<and> ppu_f (bus_ppu s) \<noteq> 0 then 340
                 else cycle (bus_ppu s))"
proof -
  let ?sl = "scanline (bus_ppu s)"
  consider (vis) "0 \<le> ?sl \<and> ?sl \<le> 239" | (vbl) "241 \<le> ?sl \<and> ?sl \<le> 260" | (pre) "?sl = 261"
    | (idle) "\<not> (0 \<le> ?sl \<and> ?sl \<le> 239) \<and> \<not> (241 \<le> ?sl \<and> ?sl \<le> 260) \<and> ?sl \<noteq> 261"
    by linarith
  then show ?thesis
  proof cases
    case vis
    have "emu_quiet (if ?sl = 0 \<and> cycle (bus_ppu s) = 0
                     then ppu_upd (\<lambda>p. p\<lparr>cycle := 1\<rparr>) s else s) (emu_visible_scanline s)"
      using r vis by (intro visible_scanline_quiet) simp_all
    then obtain s1 where "emu_visible_scanline s = Inr s1" and "emu_ppu_ready s1"
      and "emu_timing s1 = emu_timing (if ?sl = 0 \<and> cycle (bus_ppu s) = 0
                     then ppu_upd (\<lambda>p. p\<lparr>cycle := 1\<rparr>) s else s)"
      and "frame_complete (bus_ppu s1) = frame_complete (bus_ppu (if ?sl = 0 \<and> cycle (bus_ppu s) = 0
                     then ppu_upd (\<lambda>p. p\<lparr>cycle := 1\<rparr>) s else s))"
      by (auto simp: emu_quiet_def split: sum.splits)
    then show ?thesis using vis
      by (auto simp: Let_def emu_timing_def ppu_upd_def split: if_splits)
  next
    case vbl
    have "emu_quiet s (emu_vblank_scanline s)" using r by (rule vblank_scanline_quiet)
    then obtain s1 where "emu_vblank_scanline s = Inr s1" and "emu_ppu_ready s1"
      and "emu_timing s1 = emu_timing s"
      and "frame_complete (bus_ppu s1) = frame_complete (bus_ppu s)"
      by (auto simp: emu_quiet_def split: sum.splits)
    then show ?thesis using vbl
      by (auto simp: Let_def emu_timing_def)
  next
    case pre
    have "emu_ppu_ready (ppu_upd emu_prerender_scanline s)"
      using r by (simp add: emu_ppu_ready_def ppu_upd_def Let_def prerender_fields)
    then show ?thesis using pre
      by (simp add: Let_def ppu_upd_def prerender_fields)
  next
    case idle
    then show ?thesis using r by (auto simp: Let_def)
  qed
qed

lemma ppu_clock_advance_part:
  assumes r: "emu_ppu_ready s1"
  shows "\<exists>s'. bnd (emu_sprite_zero (bus_ppu s1)) (\<lambda>p. Inr (s1\<lparr>bus_ppu := emu_advance p\<rparr>)) = Inr s'
          \<and> emu_ppu_ready s'
          \<and> emu_timing s' =
               (if cycle (bus_ppu s1) + 1 > 340
                then (if scanline (bus_ppu s1) + 1 > 261 then (0, 0, ppu_f (bus_ppu s1) XOR 1)
                      else (scanline (bus_ppu s1) + 1, 0, ppu_f (bus_ppu s1)))
                else (scanline (bus_ppu s1), cycle (bus_ppu s1) + 1, ppu_f (bus_ppu s1)))
          \<and> frame_complete (bus_ppu s') =
               (frame_complete (bus_ppu s1)
                \<or> (cycle (bus_ppu s1) + 1 > 340 \<and> scanline (bus_ppu s1) + 1 > 261))"
proof -
  have "length (oam (bus_ppu s1)) = 256" using r by (simp add: emu_ppu_ready_def Let_def)
  then obtain st where z: "emu_sprite_zero (bus_ppu s1) = Inr ((bus_ppu s1)\<lparr>ppustatus := st\<rparr>)"
    using sprite_zero_ok by blast
  show ?thesis
    using r advance_timing [of "(bus_ppu s1)\<lparr>ppustatus := st\<rparr>"]
    by (simp add: z bnd_def emu_ppu_ready_def emu_timing_def Let_def)
qed

lemma ppu_clock_step:
  assumes r: "emu_ppu_ready s"
  shows "\<exists>s'. emu_ppu_clock s = Inr s' \<and> emu_ppu_ready s'
          \<and> emu_timing s' = fst (emu_tick (emu_timing s))
          \<and> frame_complete (bus_ppu s') =
                (frame_complete (bus_ppu s) \<or> snd (emu_tick (emu_timing s)))"
proof -
  obtain s1 where a: "(let sl = scanline (bus_ppu s) in
                if 0 \<le> sl \<and> sl \<le> 239 then emu_visible_scanline s
                else if sl = 240 then Inr s
                else if 241 \<le> sl \<and> sl \<le> 260 then emu_vblank_scanline s
                else if sl = 261 then Inr (ppu_upd emu_prerender_scanline s)
                else Inr s) = Inr s1"
    and r1: "emu_ppu_ready s1"
    and f1: "scanline (bus_ppu s1) = scanline (bus_ppu s)" "ppu_f (bus_ppu s1) = ppu_f (bus_ppu s)"
      "frame_complete (bus_ppu s1) = frame_complete (bus_ppu s)"
      "cycle (bus_ppu s1) =
                (if scanline (bus_ppu s) = 0 \<and> cycle (bus_ppu s) = 0 then 1
                 else if scanline (bus_ppu s) = 261 \<and> cycle (bus_ppu s) = 339
                         \<and> ppu_f (bus_ppu s) \<noteq> 0 then 340
                 else cycle (bus_ppu s))"
    using ppu_clock_scanline_part [OF r] by blast
  obtain s' where b: "bnd (emu_sprite_zero (bus_ppu s1)) (\<lambda>p. Inr (s1\<lparr>bus_ppu := emu_advance p\<rparr>)) = Inr s'"
    and r': "emu_ppu_ready s'"
    and t': "emu_timing s' =
               (if cycle (bus_ppu s1) + 1 > 340
                then (if scanline (bus_ppu s1) + 1 > 261 then (0, 0, ppu_f (bus_ppu s1) XOR 1)
                      else (scanline (bus_ppu s1) + 1, 0, ppu_f (bus_ppu s1)))
                else (scanline (bus_ppu s1), cycle (bus_ppu s1) + 1, ppu_f (bus_ppu s1)))"
    and c': "frame_complete (bus_ppu s') =
               (frame_complete (bus_ppu s1)
                \<or> (cycle (bus_ppu s1) + 1 > 340 \<and> scanline (bus_ppu s1) + 1 > 261))"
    using ppu_clock_advance_part [OF r1] by blast
  have clk: "emu_ppu_clock s = Inr s'"
    unfolding emu_ppu_clock_def a using b by (simp add: bnd_def)
  have tm: "emu_timing s' = fst (emu_tick (emu_timing s))"
    unfolding t' f1 by (simp add: emu_tick_def emu_timing_def Let_def)
  have fc: "frame_complete (bus_ppu s') =
                (frame_complete (bus_ppu s) \<or> snd (emu_tick (emu_timing s)))"
    unfolding c' f1 by (auto simp: emu_tick_def emu_timing_def Let_def)
  show ?thesis using clk r' tm fc by blast
qed
lemma mon_ready_read:
  assumes "mon_ppu_ready s"
  shows "\<exists>d. mon_bus_ppu_read s a = Inr d"
proof -
  have len: "length (m_vram (mbus_ppu s)) = 4096" "length (m_palette_ram (mbus_ppu s)) = 32"
    using assms by (simp_all add: mon_ppu_ready_def Let_def)
  have v: "0 \<le> a AND 0x0FFF \<and> a AND 0x0FFF \<le> 0x0FFF" by (rule and_range) simp
  have cart: "\<exists>d. (case mbus_cart s of None \<Rightarrow> Inr 0 | Some rom \<Rightarrow> mon_cart_ppu_read rom a) = Inr d"
  proof (cases "mbus_cart s")
    case None
    then show ?thesis by simp
  next
    case (Some rom)
    then have "mon_chr_ok rom" using assms by (simp add: mon_ppu_ready_def Let_def)
    then show ?thesis using Some
      by (auto simp: mon_cart_ppu_read_def mon_read_chr_def mon_chr_ok_def py_get_in
            split: option.splits)
  qed
  then obtain d where d: "(case mbus_cart s of None \<Rightarrow> Inr 0 | Some rom \<Rightarrow> mon_cart_ppu_read rom a) = Inr d"
    by blast
  show ?thesis
    using v len mon_actual_addr_range [of a]
    by (simp add: mon_bus_ppu_read_def d bnd_def py_get_in)
qed

lemma mquiet_Inr:
  "mon_quiet s (Inr s') =
     (mon_ppu_ready s' \<and> mon_timing s' = mon_timing s
      \<and> m_frame_complete (mbus_ppu s') = m_frame_complete (mbus_ppu s))"
  by (simp add: mon_quiet_def)

lemma mquiet_refl: "mon_ppu_ready s \<Longrightarrow> mon_quiet s (Inr s)"
  by (simp add: mquiet_Inr)

lemma mquiet_read:
  assumes "mon_ppu_ready s1" and "\<And>d. mon_quiet s0 (k d)"
  shows "mon_quiet s0 (bnd (mon_bus_ppu_read s1 a) k)"
proof -
  obtain d where "mon_bus_ppu_read s1 a = Inr d" using mon_ready_read [OF assms(1)] by blast
  then show ?thesis using assms(2) by (simp add: bnd_def)
qed

lemma mquiet_trans:
  assumes "mon_timing s1 = mon_timing s0"
    and "m_frame_complete (mbus_ppu s1) = m_frame_complete (mbus_ppu s0)"
    and "mon_quiet s1 r"
  shows "mon_quiet s0 r"
  using assms by (simp add: mon_quiet_def split: sum.splits)

lemma mquiet_bnd:
  assumes "mon_quiet s0 r"
    and "\<And>s1. mon_ppu_ready s1 \<Longrightarrow> mon_timing s1 = mon_timing s0
           \<Longrightarrow> m_frame_complete (mbus_ppu s1) = m_frame_complete (mbus_ppu s0)
           \<Longrightarrow> mon_quiet s0 (k s1)"
  shows "mon_quiet s0 (bnd r k)"
  using assms by (cases r) (simp_all add: mon_quiet_def bnd_def)

lemma mquiet_upd:
  assumes "mon_quiet s0 (Inr s1)" and "mon_ppu_same (mbus_ppu s1) (g (mbus_ppu s1))"
  shows "mon_quiet s0 (Inr (mppu_upd g s1))"
  using assms
  by (simp add: mon_quiet_def mon_ppu_same_def mon_ppu_ready_def mon_timing_def mppu_upd_def
        Let_def)

lemma mon_same_ops:
  "mon_ppu_same p (mon_increment_h p)" "mon_ppu_same p (mon_increment_v p)"
  "mon_ppu_same p (mon_transfer_x p)" "mon_ppu_same p (mon_transfer_y p)"
  by (simp_all add: mon_ppu_same_def mon_increment_h_def mon_increment_v_def
        mon_transfer_x_def mon_transfer_y_def Let_def)

lemma mon_palette_length: "length mon_palette = 64"
  by (simp add: mon_palette_def)

lemma mon_colour_ok: "\<exists>c. mon_get_color_from_palette_ram d = Inr c"
proof -
  have "0 \<le> d mod 64 \<and> d mod 64 < 64" by simp
  then show ?thesis
    unfolding mon_get_color_from_palette_ram_def
    by (simp add: py_get_in mon_palette_length)
qed

lemma py_set_cell_in:
  assumes "0 \<le> r" and "r < int (length rows)" and "0 \<le> c"
    and "c < int (length (rows ! nat r))"
  shows "py_set_cell rows r c v = Inr (rows[nat r := (rows ! nat r)[nat c := v]])"
  using assms by (simp add: py_set_cell_def py_index_def)

lemma mon_pixel_write_quiet:
  assumes r: "mon_ppu_ready s"
    and sl: "0 \<le> m_scanline (mbus_ppu s)" "m_scanline (mbus_ppu s) \<le> 239"
    and cy: "1 \<le> m_cycle (mbus_ppu s)" "m_cycle (mbus_ppu s) \<le> 256"
  shows "mon_quiet s
           (bnd (py_set_cell (m_pixel_buffer (mbus_ppu s)) (m_scanline (mbus_ppu s))
                   (m_cycle (mbus_ppu s) - 1) colour)
              (\<lambda>buf. Inr (mppu_upd (\<lambda>p. p\<lparr>m_pixel_buffer := buf\<rparr>) s)))"
proof -
  let ?p = "mbus_ppu s"
  have len: "length (m_pixel_buffer ?p) = 240"
    and rows: "list_all (\<lambda>row. length row = 256) (m_pixel_buffer ?p)"
    using r by (simp_all add: mon_ppu_ready_def Let_def)
  have row: "length (m_pixel_buffer ?p ! nat (m_scanline ?p)) = 256"
    using rows sl len by (simp add: list_all_length)
  have w: "py_set_cell (m_pixel_buffer ?p) (m_scanline ?p) (m_cycle ?p - 1) colour
             = Inr ((m_pixel_buffer ?p)[nat (m_scanline ?p) :=
                      (m_pixel_buffer ?p ! nat (m_scanline ?p))[nat (m_cycle ?p - 1) := colour]])"
    using sl cy len row by (intro py_set_cell_in) simp_all
  show ?thesis
    using r row
    by (simp add: w bnd_def mquiet_Inr mon_ppu_ready_def mon_timing_def mppu_upd_def Let_def
          list_all_update)
qed

lemma returns_Inr [simp]: "py_returns (Inr x)"
  by (simp add: py_returns_def)

lemma returnsD: "py_returns r \<Longrightarrow> \<exists>x. r = Inr x"
  by (cases r) (simp_all add: py_returns_def)

lemma returns_read:
  assumes "mon_ppu_ready s" and "\<And>d. py_returns (k d)"
  shows "py_returns (bnd (mon_bus_ppu_read s a) k)"
proof -
  obtain d where "mon_bus_ppu_read s a = Inr d" using mon_ready_read [OF assms(1)] by blast
  then show ?thesis using assms(2) by (simp add: bnd_def)
qed

lemma returns_read0:
  assumes "mon_ppu_ready s"
  shows "py_returns (mon_bus_ppu_read s a)"
  using mon_ready_read [OF assms, of a] by auto

lemma returns_bnd:
  assumes "py_returns r" and "\<And>x. py_returns (k x)"
  shows "py_returns (bnd r k)"
  using assms by (cases r) (simp_all add: bnd_def py_returns_def)

lemma mon_background_pixel_ok:
  assumes r: "mon_ppu_ready s"
  shows "py_returns (mon_background_pixel s)"
  unfolding mon_background_pixel_def Let_def
  by (rule returns_bnd) (auto intro!: returns_read returns_read0 r)

lemma render_pixel_mquiet:
  assumes r: "mon_ppu_ready s"
    and sl: "0 \<le> m_scanline (mbus_ppu s)" "m_scanline (mbus_ppu s) \<le> 239"
    and cy: "1 \<le> m_cycle (mbus_ppu s)" "m_cycle (mbus_ppu s) \<le> 256"
  shows "mon_quiet s (mon_render_pixel s)"
proof -
  obtain d where d: "mon_background_pixel s = Inr d"
    using returnsD [OF mon_background_pixel_ok [OF r]] by blast
  obtain c where c: "mon_get_color_from_palette_ram d = Inr c" using mon_colour_ok by blast
  show ?thesis
    unfolding mon_render_pixel_def
    using mon_pixel_write_quiet [OF r sl cy, of c] by (simp add: d c bnd_def)
qed
lemma bnd_Inr: "bnd (Inr x) k = k x"
  by (simp add: bnd_def)

lemma sprite_at_mquiet:
  assumes r: "mon_ppu_ready s" and k: "k < 64"
    and sl: "0 \<le> m_scanline (mbus_ppu s)" "m_scanline (mbus_ppu s) \<le> 239"
  shows "mon_quiet s (mon_sprite_at (4 * int k) s)"
proof -
  let ?p = "mbus_ppu s"
  let ?x = "m_oam ?p ! (4 * k + 3)"
  have len: "length (m_oam ?p) = 256"
    and xs: "list_all (\<lambda>k. 0 \<le> m_oam ?p ! (4 * k + 3) \<and> m_oam ?p ! (4 * k + 3) \<le> 248) [0..<64]"
    using r by (simp_all add: mon_ppu_ready_def Let_def)
  have x: "0 \<le> ?x" "?x \<le> 248"
    using xs k by (simp_all add: list_all_iff)
  have g: "py_get (m_oam ?p) (4 * int k) = Inr (m_oam ?p ! (4 * k))"
    "py_get (m_oam ?p) (4 * int k + 1) = Inr (m_oam ?p ! (4 * k + 1))"
    "py_get (m_oam ?p) (4 * int k + 2) = Inr (m_oam ?p ! (4 * k + 2))"
    "py_get (m_oam ?p) (4 * int k + 3) = Inr ?x"
    using k len by (simp_all add: py_get_in nat_add_distrib nat_mult_distrib)
  have tail: "mon_quiet s
      (bnd (mon_bus_ppu_read s a) (\<lambda>final_sprite_color_index.
       bnd (mon_get_color_from_palette_ram final_sprite_color_index) (\<lambda>colour.
       bnd (py_set_cell (m_pixel_buffer ?p) (m_scanline ?p) (m_cycle ?p - 1) colour)
         (\<lambda>buf. Inr (mppu_upd (\<lambda>p. p\<lparr>m_pixel_buffer := buf\<rparr>) s)))))"
    if "?x \<le> m_cycle ?p - 1" and "m_cycle ?p - 1 < ?x + 8" for a
  proof (rule mquiet_read [OF r])
    fix d
    have cy: "1 \<le> m_cycle ?p" "m_cycle ?p \<le> 256" using that x by linarith+
    obtain c where c: "mon_get_color_from_palette_ram d = Inr c" using mon_colour_ok by blast
    show "mon_quiet s
       (bnd (mon_get_color_from_palette_ram d) (\<lambda>colour.
        bnd (py_set_cell (m_pixel_buffer ?p) (m_scanline ?p) (m_cycle ?p - 1) colour)
          (\<lambda>buf. Inr (mppu_upd (\<lambda>p. p\<lparr>m_pixel_buffer := buf\<rparr>) s))))"
      using mon_pixel_write_quiet [OF r sl cy, of c] by (simp add: c bnd_Inr)
  qed
  show ?thesis
    unfolding mon_sprite_at_def Let_def g bnd_Inr
    using r by (auto intro!: mquiet_read tail mquiet_refl)
qed

lemma sprite_loop_mquiet:
  assumes "\<forall>i \<in> set idx. \<exists>k < 64. i = 4 * int k" and "mon_ppu_ready s"
    and "0 \<le> m_scanline (mbus_ppu s)" and "m_scanline (mbus_ppu s) \<le> 239"
  shows "mon_quiet s (mon_sprite_loop idx s)"
  using assms
proof (induction idx arbitrary: s)
  case Nil
  then show ?case by (simp add: mquiet_refl)
next
  case (Cons i rest)
  obtain k where k: "k < 64" "i = 4 * int k" using Cons.prems(1) by auto
  have a: "mon_quiet s (mon_sprite_at i s)"
    unfolding k(2) using Cons.prems k(1) by (intro sprite_at_mquiet) simp_all
  show ?case
    unfolding mon_sprite_loop.simps
  proof (rule mquiet_bnd [OF a])
    fix s1
    assume r1: "mon_ppu_ready s1" and t1: "mon_timing s1 = mon_timing s"
      and f1: "m_frame_complete (mbus_ppu s1) = m_frame_complete (mbus_ppu s)"
    have sl1: "m_scanline (mbus_ppu s1) = m_scanline (mbus_ppu s)"
      using t1 by (simp add: mon_timing_def)
    have "mon_quiet s1 (mon_sprite_loop rest s1)"
      using Cons.prems r1 by (intro Cons.IH) (simp_all add: sl1)
    then show "mon_quiet s (mon_sprite_loop rest s1)"
      using t1 f1 by (intro mquiet_trans [of s1 s]) simp_all
  qed
qed

lemma sprites_mquiet:
  assumes "mon_ppu_ready s"
    and "0 \<le> m_scanline (mbus_ppu s)" and "m_scanline (mbus_ppu s) \<le> 239"
  shows "mon_quiet s (mon_sprites s)"
  unfolding mon_sprites_def
  using assms by (intro sprite_loop_mquiet) auto
lemma visible_scanline_mquiet:
  assumes r: "mon_ppu_ready s"
    and sl: "0 \<le> m_scanline (mbus_ppu s)" "m_scanline (mbus_ppu s) \<le> 239"
  shows "mon_quiet s (mon_visible_scanline s)"
  unfolding mon_visible_scanline_def
proof (rule mquiet_bnd)
  show "mon_quiet s (if m_cycle (mbus_ppu s) \<ge> 1 \<and> m_cycle (mbus_ppu s) \<le> 256
                     then mon_render_pixel s else Inr s)"
    using r sl by (auto intro!: render_pixel_mquiet mquiet_refl)
next
  fix s1
  assume r1: "mon_ppu_ready s1" and t1: "mon_timing s1 = mon_timing s"
    and f1: "m_frame_complete (mbus_ppu s1) = m_frame_complete (mbus_ppu s)"
  have sl1: "m_scanline (mbus_ppu s1) = m_scanline (mbus_ppu s)"
    using t1 by (simp add: mon_timing_def)
  have "mon_quiet s1 (if (drop_bit 4 (m_PPUMASK (mbus_ppu s1))) AND 1 \<noteq> 0 then mon_sprites s1
                      else Inr s1)"
    using r1 sl by (auto intro!: sprites_mquiet mquiet_refl simp: sl1)
  then have a: "mon_quiet s (if (drop_bit 4 (m_PPUMASK (mbus_ppu s1))) AND 1 \<noteq> 0 then mon_sprites s1
                      else Inr s1)"
    using t1 f1 by (intro mquiet_trans [of s1 s]) simp_all
  show "mon_quiet s
     (bnd (if (drop_bit 4 (m_PPUMASK (mbus_ppu s1))) AND 1 \<noteq> 0 then mon_sprites s1
          else Inr s1) (\<lambda>s2.
       let p = mbus_ppu s2 in
       if m_cycle p = 256 then
         (if mon_rendering p then Inr (mppu_upd mon_increment_h s2) else Inr s2)
       else if m_cycle p = 257 then
         (if mon_rendering p then Inr (mppu_upd mon_transfer_x s2) else Inr s2)
       else Inr s2))"
  proof (rule mquiet_bnd [OF a])
    fix s2
    assume "mon_ppu_ready s2" "mon_timing s2 = mon_timing s"
      "m_frame_complete (mbus_ppu s2) = m_frame_complete (mbus_ppu s)"
    then have q: "mon_quiet s (Inr s2)" by (simp add: mquiet_Inr)
    show "mon_quiet s (let p = mbus_ppu s2 in
       if m_cycle p = 256 then
         (if mon_rendering p then Inr (mppu_upd mon_increment_h s2) else Inr s2)
       else if m_cycle p = 257 then
         (if mon_rendering p then Inr (mppu_upd mon_transfer_x s2) else Inr s2)
       else Inr s2)"
      unfolding Let_def using q by (auto intro!: mquiet_upd mon_same_ops)
  qed
qed

lemma vblank_start_mquiet:
  assumes "mon_ppu_ready s"
  shows "mon_quiet s (mon_vblank_start s)"
proof -
  have c: "(drop_bit 7 (m_PPUCTRL (mbus_ppu s))) AND 1 = 0"
    using assms by (simp add: mon_ppu_ready_def Let_def)
  have "mon_quiet s (Inr (mppu_upd (\<lambda>p. p\<lparr>m_PPUSTATUS := m_PPUSTATUS p OR 0x80\<rparr>) s))"
    using assms by (intro mquiet_upd mquiet_refl) (simp_all add: mon_ppu_same_def)
  then show ?thesis
    using c by (simp add: mon_vblank_start_def Let_def mppu_upd_def)
qed

lemma mon_prerender_same: "mon_ppu_same p (mon_prerender_scanline p)"
  by (simp add: mon_ppu_same_def mon_prerender_scanline_def mon_increment_v_def
        mon_transfer_x_def mon_transfer_y_def Let_def)

lemma mon_ppu_clock_step:
  assumes r: "mon_ppu_ready s"
  shows "\<exists>s'. mon_ppu_clock s = Inr s' \<and> mon_ppu_ready s'
          \<and> mon_timing s' = fst (mon_tick (mon_timing s))
          \<and> m_frame_complete (mbus_ppu s') =
                (m_frame_complete (mbus_ppu s) \<or> snd (mon_tick (mon_timing s)))"
proof -
  have "mon_quiet s (let p = mbus_ppu s in
          if m_scanline p \<ge> 0 \<and> m_scanline p \<le> 239 then mon_visible_scanline s
          else if m_scanline p = 241 \<and> m_cycle p = 1 then mon_vblank_start s
          else if m_scanline p = 261 then Inr (mppu_upd mon_prerender_scanline s)
          else Inr s)"
    unfolding Let_def using r
    by (auto intro!: visible_scanline_mquiet vblank_start_mquiet mquiet_upd mquiet_refl
          mon_prerender_same)
  then obtain s1 where a: "(let p = mbus_ppu s in
          if m_scanline p \<ge> 0 \<and> m_scanline p \<le> 239 then mon_visible_scanline s
          else if m_scanline p = 241 \<and> m_cycle p = 1 then mon_vblank_start s
          else if m_scanline p = 261 then Inr (mppu_upd mon_prerender_scanline s)
          else Inr s) = Inr s1"
    and r1: "mon_ppu_ready s1" and t1: "mon_timing s1 = mon_timing s"
    and f1: "m_frame_complete (mbus_ppu s1) = m_frame_complete (mbus_ppu s)"
    by (auto simp: mon_quiet_def split: sum.splits)
  have clk: "mon_ppu_clock s = Inr (mppu_upd mon_advance s1)"
    unfolding mon_ppu_clock_def a by (simp add: bnd_Inr)
  have adv: "m_vram (mon_advance p) = m_vram p" "m_palette_ram (mon_advance p) = m_palette_ram p"
    "m_oam (mon_advance p) = m_oam p" "m_pixel_buffer (mon_advance p) = m_pixel_buffer p"
    "m_PPUCTRL (mon_advance p) = m_PPUCTRL p" for p
    by (simp_all add: mon_advance_def Let_def)
  have r': "mon_ppu_ready (mppu_upd mon_advance s1)"
    using r1 by (simp add: mon_ppu_ready_def mppu_upd_def Let_def adv)
  have t': "mon_timing (mppu_upd mon_advance s1) = fst (mon_tick (mon_timing s))"
    using mon_advance_tick(1) [of "mbus_ppu s1"] t1
    by (simp add: mon_timing_def mppu_upd_def)
  have f': "m_frame_complete (mbus_ppu (mppu_upd mon_advance s1)) =
                (m_frame_complete (mbus_ppu s) \<or> snd (mon_tick (mon_timing s)))"
    using mon_advance_tick(2) [of "mbus_ppu s1"] t1 f1
    by (simp add: mon_timing_def mppu_upd_def)
  show ?thesis using clk r' t' f' by blast
qed

lemma mon_ppu_run_sim:
  assumes "mon_ppu_ready s"
  shows "\<exists>k s'. mon_ppu_run n s = Inr (k, s') \<and> mon_ppu_ready s'
           \<and> (k, mon_timing s') = mon_tick_run n (mon_timing s)"
  using assms
proof (induction n arbitrary: s)
  case 0
  then show ?case by simp
next
  case (Suc n)
  let ?s0 = "mppu_upd (\<lambda>p. p\<lparr>m_frame_complete := False\<rparr>) s"
  have r0: "mon_ppu_ready ?s0" and t0: "mon_timing ?s0 = mon_timing s"
    and c0: "\<not> m_frame_complete (mbus_ppu ?s0)"
    using Suc.prems by (simp_all add: mon_ppu_ready_def mon_timing_def mppu_upd_def Let_def)
  obtain s1 where clk: "mon_ppu_clock ?s0 = Inr s1" and r1: "mon_ppu_ready s1"
    and t1: "mon_timing s1 = fst (mon_tick (mon_timing s))"
    and c1: "m_frame_complete (mbus_ppu s1) = snd (mon_tick (mon_timing s))"
    using mon_ppu_clock_step [OF r0] t0 c0 by auto
  obtain k s' where run: "mon_ppu_run n s1 = Inr (k, s')" and r': "mon_ppu_ready s'"
    and t': "(k, mon_timing s') = mon_tick_run n (mon_timing s1)"
    using Suc.IH [OF r1] by blast
  obtain tt raised where e: "mon_tick (mon_timing s) = (tt, raised)"
    by (cases "mon_tick (mon_timing s)")
  have "mon_ppu_run (Suc n) s = Inr ((if raised then Suc k else k), s')"
    using clk run c1 e by (simp add: bnd_def)
  moreover have "((if raised then Suc k else k), mon_timing s') = mon_tick_run (Suc n) (mon_timing s)"
    using t' [symmetric] t1 e by simp
  ultimately show ?case using r' by blast
qed

lemma mon_frame_general:
  assumes "mon_ppu_ready s" and "m_scanline (mbus_ppu s) = 0" and "m_cycle (mbus_ppu s) = 0"
  shows "mon_frame_counters 89342 s = Some (1, 0, 0)"
proof -
  have t: "mon_timing s = (0, 0)" using assms by (simp add: mon_timing_def)
  obtain k s' where "mon_ppu_run 89342 s = Inr (k, s')"
    and "(k, mon_timing s') = mon_tick_run 89342 (mon_timing s)"
    using mon_ppu_run_sim [OF assms(1), of 89342] by blast
  then show ?thesis
    unfolding t mon_frame by (simp add: mon_frame_counters_def mon_timing_def)
qed

lemma mon_bus_8000_ready:
  "mon_ppu_ready mon_bus_8000" "m_scanline (mbus_ppu mon_bus_8000) = 0"
  "m_cycle (mbus_ppu mon_bus_8000) = 0"
  by (simp_all add: mon_ppu_ready_def mon_bus_8000_def mon_bus_init_def mon_ppu_init_def
        mon_rom_16k_def mon_chr_ok_def NES_HEIGHT_def NES_WIDTH_def Let_def list_all_iff)
lemma ppu_run_sim:
  assumes "emu_ppu_ready s"
  shows "\<exists>k s'. emu_ppu_run n s = Inr (k, s') \<and> emu_ppu_ready s'
           \<and> (k, emu_timing s') = emu_tick_run n (emu_timing s)"
  using assms
proof (induction n arbitrary: s)
  case 0
  then show ?case by simp
next
  case (Suc n)
  let ?s0 = "ppu_upd (\<lambda>p. p\<lparr>frame_complete := False\<rparr>) s"
  have r0: "emu_ppu_ready ?s0" and t0: "emu_timing ?s0 = emu_timing s"
    and c0: "\<not> frame_complete (bus_ppu ?s0)"
    using Suc.prems by (simp_all add: emu_ppu_ready_def emu_timing_def ppu_upd_def Let_def)
  obtain s1 where clk: "emu_ppu_clock ?s0 = Inr s1" and r1: "emu_ppu_ready s1"
    and t1: "emu_timing s1 = fst (emu_tick (emu_timing s))"
    and c1: "frame_complete (bus_ppu s1) = snd (emu_tick (emu_timing s))"
    using ppu_clock_step [OF r0] t0 c0 by auto
  obtain k s' where run: "emu_ppu_run n s1 = Inr (k, s')" and r': "emu_ppu_ready s'"
    and t': "(k, emu_timing s') = emu_tick_run n (emu_timing s1)"
    using Suc.IH [OF r1] by blast
  obtain tt raised where e: "emu_tick (emu_timing s) = (tt, raised)"
    by (cases "emu_tick (emu_timing s)")
  have "emu_ppu_run (Suc n) s = Inr ((if raised then Suc k else k), s')"
    using clk run c1 e by (simp add: bnd_def)
  moreover have "((if raised then Suc k else k), emu_timing s') = emu_tick_run (Suc n) (emu_timing s)"
    using t' [symmetric] t1 e by simp
  ultimately show ?case using r' by blast
qed

lemma emu_frame_general:
  assumes "emu_ppu_ready s" and "scanline (bus_ppu s) = 0" and "cycle (bus_ppu s) = 0"
    and "ppu_f (bus_ppu s) = 0"
  shows "emu_frame_counters 89341 s = Some (1, 0, 0)"
    and "emu_frame_counters 89342 s = Some (1, 0, 2)"
proof -
  have t: "emu_timing s = (0, 0, 0)" using assms by (simp add: emu_timing_def)
  obtain k s' where "emu_ppu_run 89341 s = Inr (k, s')"
    and "(k, emu_timing s') = emu_tick_run 89341 (emu_timing s)"
    using ppu_run_sim [OF assms(1), of 89341] by blast
  then show "emu_frame_counters 89341 s = Some (1, 0, 0)"
    unfolding t emu_first_frame by (simp add: emu_frame_counters_def emu_timing_def)
  obtain k s' where "emu_ppu_run 89342 s = Inr (k, s')"
    and "(k, emu_timing s') = emu_tick_run 89342 (emu_timing s)"
    using ppu_run_sim [OF assms(1), of 89342] by blast
  then show "emu_frame_counters 89342 s = Some (1, 0, 2)"
    unfolding t emu_first_frame_plus_one by (simp add: emu_frame_counters_def emu_timing_def)
qed

lemma emu_bus_8000_ready:
  "emu_ppu_ready emu_bus_8000" "scanline (bus_ppu emu_bus_8000) = 0"
  "cycle (bus_ppu emu_bus_8000) = 0" "ppu_f (bus_ppu emu_bus_8000) = 0"
  by (simp_all add: emu_ppu_ready_def emu_bus_8000_def emu_bus_init_def emu_ppu_init_def
        emu_rom_16k_def emu_chr_ok_def NES_HEIGHT_def NES_WIDTH_def Let_def list_all_iff)

text \<open>
  C4, as the code has it. In MonikaNES.py, 262 x 341 = 89342 calls of \<open>clock()\<close> from
  scanline 0, cycle 0 all return, raise \<open>frame_complete\<close> once and end on scanline 0,
  cycle 0. In EMUNES5.23.251.0A.py \<open>clock()\<close> skips cycle 0 of scanline 0, so from the state
  of \<open>__init__\<close> (scanline 0, cycle 0, even frame) the first frame takes 89341 calls: they
  all return, raise \<open>frame_complete\<close> once and end on scanline 0, cycle 0, and the 89342nd
  call moves on to cycle 2.
\<close>

theorem frame_length:
  "(emu_ppu_ready s \<and> scanline (bus_ppu s) = 0 \<and> cycle (bus_ppu s) = 0 \<and> ppu_f (bus_ppu s) = 0
      \<longrightarrow> emu_frame_counters 89341 s = Some (1, 0, 0)
          \<and> emu_frame_counters 89342 s = Some (1, 0, 2))
   \<and> (mon_ppu_ready m \<and> m_scanline (mbus_ppu m) = 0 \<and> m_cycle (mbus_ppu m) = 0
      \<longrightarrow> mon_frame_counters 89342 m = Some (1, 0, 0))"
  using emu_frame_general [of s] mon_frame_general [of m] by blast

theorem frame_length_witness:
  "emu_frame_counters 89341 emu_bus_8000 = Some (1, 0, 0)
   \<and> mon_frame_counters 89342 mon_bus_8000 = Some (1, 0, 0)"
  using frame_length [of emu_bus_8000 mon_bus_8000]
  by (simp add: emu_bus_8000_ready mon_bus_8000_ready)

theorem frame_length_counterexample:
  "emu_frame_counters 89342 emu_bus_8000 = Some (1, 0, 2)"
  by (rule emu_frame_general(2)) (simp_all add: emu_bus_8000_ready)
end
